theory Spec2Isabelle
  imports Main "HOL-Library.Sublist"
begin

section \<open>Python values, strings and exceptions\<close>

text \<open>
  The simulator classes of \<^verbatim>\<open>buildingspy/simulate\<close> store settings in a dictionary
  whose values are Python objects. Only their identity and their text form matter to the
  code, so a value is a tagged datum. A float is carried by its \<^verbatim>\<open>repr\<close>, the text that
  \<^verbatim>\<open>str.format\<close> prints for it (\<^verbatim>\<open>1E-6\<close> is the float printed as \<^verbatim>\<open>1e-06\<close>);
  no floating-point arithmetic occurs in the code.
\<close>

datatype pyval = PyNone | PyBool bool | PyInt int | PyFloat string | PyStr string

text \<open>
  Exceptions, each with the text \<^verbatim>\<open>str(e)\<close> gives. \<^verbatim>\<open>IOError\<close> is Python 3's alias of
  \<^verbatim>\<open>OSError\<close> (the sources use f-strings, so they are Python 3) and also carries
  \<^verbatim>\<open>e.strerror\<close>, which is \<^verbatim>\<open>None\<close> for a bare \<^verbatim>\<open>raise IOError\<close>. Every value of the
  type is an instance of \<^verbatim>\<open>Exception\<close>; \<^verbatim>\<open>KeyboardInterrupt\<close> and \<^verbatim>\<open>SystemExit\<close>,
  which are not, are outside the model.
\<close>

datatype py_exn =
    TypeError string
  | ValueError string
  | AttributeError string
  | IndexError string
  | IOError string "string option"
  | OtherException string

fun exn_str :: "py_exn \<Rightarrow> string" where
  "exn_str (TypeError m) = m"
| "exn_str (ValueError m) = m"
| "exn_str (AttributeError m) = m"
| "exn_str (IndexError m) = m"
| "exn_str (IOError m _) = m"
| "exn_str (OtherException m) = m"

subsection \<open>String methods\<close>

text \<open>The apostrophe, which a string literal cannot end or begin with.\<close>

definition apos :: string where
  "apos = [CHR 0x27]"

text \<open>\<^verbatim>\<open>s.split(sep)\<close> for a one-character separator: never empty, one more piece than
  there are separators.\<close>

fun py_split :: "char \<Rightarrow> string \<Rightarrow> string list" where
  "py_split sep [] = [[]]"
| "py_split sep (c # cs) =
     (if c = sep then [] # py_split sep cs
      else (case py_split sep cs of
              [] \<Rightarrow> [[c]]
            | p # ps \<Rightarrow> (c # p) # ps))"

text \<open>\<^verbatim>\<open>xs[i]\<close>: a negative index counts from the end, out of range raises.\<close>

definition py_index :: "'a list \<Rightarrow> int \<Rightarrow> py_exn + 'a" where
  "py_index xs i =
     (if 0 \<le> i \<and> i < int (length xs) then Inr (xs ! nat i)
      else if i < 0 \<and> - i \<le> int (length xs) then Inr (xs ! nat (int (length xs) + i))
      else Inl (IndexError ''list index out of range''))"

text \<open>\<^verbatim>\<open>s.find(sub)\<close>: the lowest index where \<^verbatim>\<open>sub\<close> occurs, or \<^verbatim>\<open>-1\<close>.\<close>

fun py_find :: "string \<Rightarrow> string \<Rightarrow> int" where
  "py_find [] sub = (if sub = [] then 0 else -1)"
| "py_find (c # cs) sub =
     (if prefix sub (c # cs) then 0
      else (let r = py_find cs sub in if r = -1 then -1 else r + 1))"

text \<open>\<^verbatim>\<open>s.replace(old, new)\<close>: every occurrence, left to right, without overlap; an
  empty \<^verbatim>\<open>old\<close> matches before every character and at the end.\<close>

fun py_replace :: "string \<Rightarrow> string \<Rightarrow> string \<Rightarrow> string" where
  "py_replace s [] new = new @ concat (map (\<lambda>c. c # new) s)"
| "py_replace [] (x # xs) new = []"
| "py_replace (c # cs) (x # xs) new =
     (if prefix (x # xs) (c # cs)
      then new @ py_replace (drop (length xs) cs) (x # xs) new
      else c # py_replace cs (x # xs) new)"

text \<open>\<^verbatim>\<open>s.rstrip(chars)\<close> for a single character.\<close>

definition py_rstrip :: "char \<Rightarrow> string \<Rightarrow> string" where
  "py_rstrip c s = rev (dropWhile (\<lambda>x. x = c) (rev s))"

text \<open>\<^verbatim>\<open>str(n)\<close> of an integer, and \<^verbatim>\<open>str(v)\<close> of a value as \<^verbatim>\<open>str.format\<close> and
  f-strings insert it.\<close>

fun show_nat :: "nat \<Rightarrow> string" where
  "show_nat n =
     (if n < 10 then [''0123456789'' ! n]
      else show_nat (n div 10) @ [''0123456789'' ! (n mod 10)])"

declare show_nat.simps [simp del]

definition show_int :: "int \<Rightarrow> string" where
  "show_int i = (if i < 0 then CHR ''-'' # show_nat (nat (- i)) else show_nat (nat i))"

fun py_str :: "pyval \<Rightarrow> string" where
  "py_str PyNone = ''None''"
| "py_str (PyBool b) = (if b then ''True'' else ''False'')"
| "py_str (PyInt i) = show_int i"
| "py_str (PyFloat r) = r"
| "py_str (PyStr s) = s"

text \<open>Truth value of an object, as \<^verbatim>\<open>if x:\<close> tests it.\<close>

fun truthy :: "pyval \<Rightarrow> bool" where
  "truthy PyNone = False"
| "truthy (PyBool b) = b"
| "truthy (PyInt i) = (i \<noteq> 0)"
| "truthy (PyFloat r) = (r \<noteq> ''0.0'' \<and> r \<noteq> ''-0.0'')"
| "truthy (PyStr s) = (s \<noteq> [])"

section \<open>The file system and the process environment\<close>

text \<open>
  The classes act on the file system through \<^verbatim>\<open>os\<close>, \<^verbatim>\<open>shutil\<close> and \<^verbatim>\<open>tempfile\<close>.
  These library functions are modelled from their documented POSIX behaviour on a file
  system that maps a path to its entry. A path names the same entry with or without
  trailing separators; links, \<^verbatim>\<open>..\<close>, repeated separators and permissions other than
  the write check are not modelled.
\<close>

datatype node = File string | Dir

type_synonym filesys = "string \<rightharpoonup> node"

definition sep :: char where
  "sep = CHR ''/''"

definition resolve :: "string \<Rightarrow> string" where
  "resolve p = (if p \<noteq> [] \<and> py_rstrip sep p = [] then [sep] else py_rstrip sep p)"

definition os_path_exists :: "filesys \<Rightarrow> string \<Rightarrow> bool" where
  "os_path_exists fs p = (fs (resolve p) \<noteq> None)"

definition os_path_isdir :: "filesys \<Rightarrow> string \<Rightarrow> bool" where
  "os_path_isdir fs p = (fs (resolve p) = Some Dir)"

definition isfile :: "node option \<Rightarrow> bool" where
  "isfile n = (case n of Some (File c) \<Rightarrow> True | _ \<Rightarrow> False)"

text \<open>\<^verbatim>\<open>posixpath.join\<close> of two components and \<^verbatim>\<open>posixpath.split\<close>.\<close>

definition os_path_join :: "string \<Rightarrow> string \<Rightarrow> string" where
  "os_path_join a b =
     (if b \<noteq> [] \<and> hd b = sep then b
      else if a = [] \<or> last a = sep then a @ b
      else a @ [sep] @ b)"

definition os_path_split :: "string \<Rightarrow> string \<times> string" where
  "os_path_split p =
     (let hd0 = rev (dropWhile (\<lambda>x. x \<noteq> sep) (rev p));
          tl0 = rev (takeWhile (\<lambda>x. x \<noteq> sep) (rev p));
          hd1 = (if hd0 \<noteq> [] \<and> hd0 \<noteq> replicate (length hd0) sep
                 then py_rstrip sep hd0 else hd0)
      in (hd1, tl0))"

text \<open>The directories \<^verbatim>\<open>os.makedirs(p)\<close> creates: every leading part of \<^verbatim>\<open>p\<close> that
  ends before a separator, and \<^verbatim>\<open>p\<close> itself.\<close>

definition ancestors :: "string \<Rightarrow> string list" where
  "ancestors p =
     map resolve ([take i p. i \<leftarrow> [1..<length p], p ! i = sep] @ [p])"

definition os_makedirs :: "string \<Rightarrow> filesys \<Rightarrow> py_exn + filesys" where
  "os_makedirs p fs =
     (if list_ex (\<lambda>q. isfile (fs q)) (ancestors p) \<or> fs (resolve p) \<noteq> None
      then Inl (IOError (''File exists: '' @ p) (Some ''File exists''))
      else Inr (\<lambda>q. if q \<in> set (ancestors p) \<and> fs q = None then Some Dir else fs q))"

definition os_mkdir :: "string \<Rightarrow> filesys \<Rightarrow> py_exn + filesys" where
  "os_mkdir p fs =
     (if fs (resolve p) \<noteq> None
      then Inl (IOError (''File exists: '' @ p) (Some ''File exists''))
      else Inr (fs(resolve p \<mapsto> Dir)))"

definition os_remove :: "string \<Rightarrow> filesys \<Rightarrow> py_exn + filesys" where
  "os_remove p fs =
     (case fs (resolve p) of
        None \<Rightarrow> Inl (IOError (''No such file or directory: '' @ p)
                      (Some ''No such file or directory''))
      | Some Dir \<Rightarrow> Inl (IOError (''Is a directory: '' @ p) (Some ''Is a directory''))
      | Some (File c) \<Rightarrow> Inr (fs(resolve p := None)))"

text \<open>\<^verbatim>\<open>open(p, mode="w").write(txt)\<close>: creates or truncates the file; fails on a
  directory.\<close>

definition write_file :: "string \<Rightarrow> string \<Rightarrow> filesys \<Rightarrow> py_exn + filesys" where
  "write_file p txt fs =
     (if fs (resolve p) = Some Dir
      then Inl (IOError (''Is a directory: '' @ p) (Some ''Is a directory''))
      else Inr (fs(resolve p \<mapsto> File txt)))"

text \<open>The path of an entry below directory \<^verbatim>\<open>d\<close>, relative to \<^verbatim>\<open>d\<close>.\<close>

definition below :: "string \<Rightarrow> string \<Rightarrow> string option" where
  "below d q =
     (if prefix (d @ [sep]) q \<and> length (d @ [sep]) < length q
      then Some (drop (length d + 1) q) else None)"

text \<open>\<^verbatim>\<open>shutil.rmtree(p)\<close>: removes the directory and everything below it.\<close>

definition shutil_rmtree :: "string \<Rightarrow> filesys \<Rightarrow> py_exn + filesys" where
  "shutil_rmtree p fs =
     (case fs (resolve p) of
        None \<Rightarrow> Inl (IOError (''No such file or directory: '' @ p)
                      (Some ''No such file or directory''))
      | Some (File c) \<Rightarrow> Inl (IOError (''Not a directory: '' @ p) (Some ''Not a directory''))
      | Some Dir \<Rightarrow>
          Inr (\<lambda>q. if q = resolve p \<or> below (resolve p) q \<noteq> None then None else fs q))"

text \<open>\<^verbatim>\<open>fnmatch\<close> for patterns of literal characters, \<^verbatim>\<open>*\<close> and \<^verbatim>\<open>?\<close>, which is what
  \<^verbatim>\<open>shutil.ignore_patterns('*.svn', '*.git')\<close> needs: an entry is left out, with
  everything below it, when its name matches one of the patterns.\<close>

fun glob_match :: "string \<Rightarrow> string \<Rightarrow> bool" where
  "glob_match [] s = (s = [])"
| "glob_match (p # ps) s =
     (if p = CHR ''*''
      then glob_match ps s \<or> (case s of [] \<Rightarrow> False | c # t \<Rightarrow> glob_match (p # ps) t)
      else (case s of [] \<Rightarrow> False | c # t \<Rightarrow> (p = CHR ''?'' \<or> p = c) \<and> glob_match ps t))"

definition ignored :: "string list \<Rightarrow> string \<Rightarrow> bool" where
  "ignored patterns rel =
     list_ex (\<lambda>name. list_ex (\<lambda>pat. glob_match pat name) patterns) (py_split sep rel)"

text \<open>\<^verbatim>\<open>shutil.copytree(src, dst, ignore=ignore_patterns(...))\<close>: \<^verbatim>\<open>dst\<close> must not exist;
  it becomes a directory holding every entry below \<^verbatim>\<open>src\<close> that is not ignored.\<close>

definition shutil_copytree :: "string \<Rightarrow> string \<Rightarrow> string list \<Rightarrow> filesys \<Rightarrow> py_exn + filesys" where
  "shutil_copytree src dst patterns fs =
     (if fs (resolve src) \<noteq> Some Dir
      then Inl (IOError (''Not a directory: '' @ src) (Some ''Not a directory''))
      else if fs (resolve dst) \<noteq> None
      then Inl (IOError (''File exists: '' @ dst) (Some ''File exists''))
      else Inr (\<lambda>q. if q = resolve dst then Some Dir
                    else (case below (resolve dst) q of
                            None \<Rightarrow> fs q
                          | Some rel \<Rightarrow>
                              if ignored patterns rel then fs q
                              else fs (resolve src @ [sep] @ rel))))"

text \<open>
  What the operating system decides: the absolute form of a path (it depends on the
  current directory), the user name, the directory for temporary files, the random
  names \<^verbatim>\<open>tempfile\<close> tries in turn, and which paths may be written.
\<close>

record os_env =
  abspath :: "string \<Rightarrow> string"
  getuser :: string
  gettempdir :: string
  candidate_names :: "string list"
  access_W_OK :: "string \<Rightarrow> bool"

text \<open>\<^verbatim>\<open>tempfile.mkdtemp(prefix=...)\<close>: the first candidate that does not exist yet is
  created and returned; \<^verbatim>\<open>FileExistsError\<close> when the candidates run out.\<close>

fun mkdtemp_loop :: "filesys \<Rightarrow> string \<Rightarrow> string \<Rightarrow> string list \<Rightarrow> string option" where
  "mkdtemp_loop fs dir pfx [] = None"
| "mkdtemp_loop fs dir pfx (name # names) =
     (let file = os_path_join dir (pfx @ name)
      in if fs (resolve file) \<noteq> None then mkdtemp_loop fs dir pfx names else Some file)"

definition tempfile_mkdtemp :: "os_env \<Rightarrow> string \<Rightarrow> filesys \<Rightarrow> (py_exn + string) \<times> filesys" where
  "tempfile_mkdtemp env pfx fs =
     (case mkdtemp_loop fs (gettempdir env) pfx (candidate_names env) of
        None \<Rightarrow> (Inl (IOError ''No usable temporary directory name found''
                        (Some ''No usable temporary directory name found'')), fs)
      | Some file \<Rightarrow> (Inr file, fs(resolve file \<mapsto> Dir)))"

text \<open>
  The world outside the object: the files, the messages handed to the reporter
  (\<^verbatim>\<open>buildingspy.io.reporter.Reporter.writeError\<close>, which is not part of these sources,
  is modelled as appending to a list), and the external processes started so far, each
  with its command list, its working directory and the files it found.
\<close>

record world =
  files :: filesys
  reported :: "string list"
  spawned :: "(pyval list \<times> string \<times> filesys) list"

definition writeError :: "string \<Rightarrow> world \<Rightarrow> world" where
  "writeError msg w = w\<lparr>reported := reported w @ [msg]\<rparr>"

section \<open>The base class \<^verbatim>\<open>_BaseSimulator\<close>\<close>

record base_simulator =
  packagePath :: "string option"
  modelName :: string
  simulator :: "string \<rightharpoonup> pyval"
  outputDir :: string
  simulateDir :: "string option"
  MODELICA_EXE :: pyval
  reporter_file :: string

definition setPackagePath ::
  "'a base_simulator_scheme \<Rightarrow> string \<Rightarrow> world \<Rightarrow> py_exn + 'a base_simulator_scheme" where
  "setPackagePath self path w =
     (if \<not> os_path_exists (files w) path
      then Inl (ValueError (''Argument packagePath='' @ path @ '' does not exist.''))
      else if \<not> os_path_isdir (files w) path
      then Inl (ValueError (''Argument packagePath='' @ path @ '' must be a directory ''
                            @ ''containing a Modelica package.''))
      else Inr (self\<lparr>packagePath := Some path\<rparr>))"

definition createDirectory :: "os_env \<Rightarrow> string \<Rightarrow> world \<Rightarrow> (py_exn + unit) \<times> world" where
  "createDirectory env directoryName w =
     (if directoryName \<noteq> ''.'' then
        if length directoryName = 0
        then (Inl (ValueError
                ''Specified directory is not valid. Set to '.' for current directory.''), w)
        else
          (case (if \<not> os_path_exists (files w) directoryName
                 then os_makedirs directoryName (files w) else Inr (files w)) of
             Inl e \<Rightarrow> (Inl e, w)
           | Inr fs' \<Rightarrow>
               if \<not> access_W_OK env directoryName
               then (Inl (ValueError (''Write permission to '' @ apos @ directoryName @ apos @ '' denied.'')),
                     w\<lparr>files := fs'\<rparr>)
               else (Inr (), w\<lparr>files := fs'\<rparr>))
      else (Inr (), w))"

definition setStartTime :: "'a base_simulator_scheme \<Rightarrow> pyval \<Rightarrow> 'a base_simulator_scheme" where
  "setStartTime self t0 = self\<lparr>simulator := (simulator self)(''t0'' \<mapsto> t0)\<rparr>"

definition setStopTime :: "'a base_simulator_scheme \<Rightarrow> pyval \<Rightarrow> 'a base_simulator_scheme" where
  "setStopTime self t1 = self\<lparr>simulator := (simulator self)(''t1'' \<mapsto> t1)\<rparr>"

definition setTolerance :: "'a base_simulator_scheme \<Rightarrow> pyval \<Rightarrow> 'a base_simulator_scheme" where
  "setTolerance self eps = self\<lparr>simulator := (simulator self)(''eps'' \<mapsto> eps)\<rparr>"

definition setSolver :: "'a base_simulator_scheme \<Rightarrow> pyval \<Rightarrow> 'a base_simulator_scheme" where
  "setSolver self solver = self\<lparr>simulator := (simulator self)(''solver'' \<mapsto> solver)\<rparr>"

definition setTimeOut :: "'a base_simulator_scheme \<Rightarrow> pyval \<Rightarrow> 'a base_simulator_scheme" where
  "setTimeOut self sec = self\<lparr>simulator := (simulator self)(''timeout'' \<mapsto> sec)\<rparr>"

definition setResultFile ::
  "'a base_simulator_scheme \<Rightarrow> string \<Rightarrow> py_exn + 'a base_simulator_scheme" where
  "setResultFile self resultFile =
     (let rs = py_split (CHR ''.'') resultFile
      in case py_index rs (int (length rs) - 1) of
           Inl e \<Rightarrow> Inl e
         | Inr r \<Rightarrow> Inr (self\<lparr>simulator := (simulator self)(''resultFile'' \<mapsto> PyStr r)\<rparr>))"

text \<open>Sequencing of steps that may raise: the first exception ends the sequence, and the
  changes made to the world up to then stay.\<close>

definition then_do ::
  "(py_exn + 'a) \<times> world \<Rightarrow> ('a \<Rightarrow> world \<Rightarrow> (py_exn + 'b) \<times> world) \<Rightarrow> (py_exn + 'b) \<times> world" where
  "then_do m f = (case m of (Inl e, w) \<Rightarrow> (Inl e, w) | (Inr x, w) \<Rightarrow> f x w)"

definition lift_fs :: "py_exn + filesys \<Rightarrow> world \<Rightarrow> (py_exn + unit) \<times> world" where
  "lift_fs r w = (case r of Inl e \<Rightarrow> (Inl e, w) | Inr fs' \<Rightarrow> (Inr (), w\<lparr>files := fs'\<rparr>))"

text \<open>\<^verbatim>\<open>"..." + e.strerror\<close> in an exception handler: concatenation with \<^verbatim>\<open>None\<close> raises
  \<^verbatim>\<open>TypeError\<close>.\<close>

definition concat_strerror :: "string \<Rightarrow> string option \<Rightarrow> py_exn + string" where
  "concat_strerror s strerror =
     (case strerror of
        None \<Rightarrow> Inl (TypeError ''can only concatenate str (not NoneType) to str'')
      | Some t \<Rightarrow> Inr (s @ t))"

text \<open>A freshly allocated object: no attribute has been assigned. The fields hold
  placeholders until \<^verbatim>\<open>__init__\<close> assigns them, which it does before reading any.\<close>

definition new_object :: base_simulator where
  "new_object =
     \<lparr>packagePath = None, modelName = [], simulator = Map.empty, outputDir = [],
      simulateDir = None, MODELICA_EXE = PyNone, reporter_file = []\<rparr>"

definition BaseSimulator_init_params :: "string list" where
  "BaseSimulator_init_params = [''modelName'', ''outputDirectory'', ''packagePath'']"

definition BaseSimulator_init ::
  "os_env \<Rightarrow> string \<Rightarrow> string \<Rightarrow> string option \<Rightarrow> world \<Rightarrow> (py_exn + base_simulator) \<times> world" where
  "BaseSimulator_init env modelName' outputDirectory packagePath' w =
     (let logFilNam = os_path_join outputDirectory ''BuildingsPy.log'' in
      case setPackagePath new_object
             (case packagePath' of None \<Rightarrow> abspath env ''.'' | Some p \<Rightarrow> p) w of
        Inl e \<Rightarrow> (Inl e, w)
      | Inr self1 \<Rightarrow>
          let self2 = self1\<lparr>modelName := modelName', simulator := Map.empty,
                            outputDir := outputDirectory, simulateDir := None\<rparr> in
          then_do (createDirectory env outputDirectory w) (\<lambda>_ w'.
            case setResultFile self2 modelName' of
              Inl e \<Rightarrow> (Inl e, w')
            | Inr self3 \<Rightarrow>
                (Inr ((setTimeOut
                        (setTolerance
                          (setStopTime (setStartTime self3 (PyInt 0)) (PyInt 1))
                          (PyFloat ''1e-06''))
                        (PyInt (- 1)))
                      \<lparr>MODELICA_EXE := PyNone, reporter_file := logFilNam\<rparr>), w')))"

definition setOutputDirectory :: "'a base_simulator_scheme \<Rightarrow> string \<Rightarrow> 'a base_simulator_scheme" where
  "setOutputDirectory self outputDirectory = self\<lparr>outputDir := outputDirectory\<rparr>"

fun deleteFiles :: "string list \<Rightarrow> world \<Rightarrow> (py_exn + unit) \<times> world" where
  "deleteFiles [] w = (Inr (), w)"
| "deleteFiles (fil # fileList) w =
     (case (if os_path_exists (files w) fil then os_remove fil (files w) else Inr (files w)) of
        Inr fs' \<Rightarrow> deleteFiles fileList (w\<lparr>files := fs'\<rparr>)
      | Inl (IOError m strerror) \<Rightarrow>
          (case concat_strerror (''Failed to delete '' @ apos @ fil @ apos @ '' : '') strerror of
             Inl e \<Rightarrow> (Inl e, w)
           | Inr msg \<Rightarrow> deleteFiles fileList (writeError msg w))
      | Inl e \<Rightarrow> (Inl e, w))"

text \<open>\<^verbatim>\<open>_deleteTemporaryDirectory\<close>. Its \<^verbatim>\<open>else\<close> branch, which removes the directory one
  level above the working directory, is named \<open>delete_tree\<close>.\<close>

definition delete_tree :: "string \<Rightarrow> string \<Rightarrow> world \<Rightarrow> (py_exn + unit) \<times> world" where
  "delete_tree worDir dirNam w =
     (case (if os_path_exists (files w) worDir then shutil_rmtree dirNam (files w)
            else Inr (files w)) of
        Inr fs' \<Rightarrow> (Inr (), w\<lparr>files := fs'\<rparr>)
      | Inl (IOError m strerror) \<Rightarrow>
          (case concat_strerror (''Failed to delete '' @ apos @ worDir @ '': '') strerror of
             Inl e \<Rightarrow> (Inl e, w)
           | Inr msg \<Rightarrow> (Inr (), writeError msg w))
      | Inl e \<Rightarrow> (Inl e, w))"

definition deleteTemporaryDirectory :: "string option \<Rightarrow> world \<Rightarrow> (py_exn + unit) \<times> world" where
  "deleteTemporaryDirectory worDir w =
     (case worDir of
        None \<Rightarrow> (Inr (), w)
      | Some wd \<Rightarrow>
          let dirNam = fst (os_path_split wd) in
          if py_find dirNam ''tmp-simulator-'' = - 1
          then (Inr (), writeError (''Failed to delete '' @ apos @ dirNam @ apos
                                    @ '' as it does not seem to be a valid directory name.'') w)
          else delete_tree wd dirNam w)"

definition deleteSimulateDirectory :: "'a base_simulator_scheme \<Rightarrow> world \<Rightarrow> (py_exn + unit) \<times> world" where
  "deleteSimulateDirectory self w = deleteTemporaryDirectory (simulateDir self) w"

definition create_worDir ::
  "os_env \<Rightarrow> 'a base_simulator_scheme \<Rightarrow> world \<Rightarrow> (py_exn + string) \<times> world" where
  "create_worDir env self w =
     (case packagePath self of
        None \<Rightarrow> (Inl (TypeError ''expected str, bytes or os.PathLike object, not NoneType''), w)
      | Some pp \<Rightarrow>
          let curDir = abspath env pp;
              ds = py_split sep curDir
          in case py_index ds (int (length ds) - 1) of
               Inl e \<Rightarrow> (Inl e, w)
             | Inr dirNam \<Rightarrow>
                 (case tempfile_mkdtemp env (''tmp-simulator-'' @ getuser env @ ''-'') (files w) of
                    (Inl e, fs') \<Rightarrow> (Inl e, w\<lparr>files := fs'\<rparr>)
                  | (Inr tmp, fs') \<Rightarrow> (Inr (os_path_join tmp dirNam), w\<lparr>files := fs'\<rparr>)))"

text \<open>\<^verbatim>\<open>d.get(k)\<close>: \<^verbatim>\<open>None\<close> for a missing key.\<close>

definition dict_get :: "(string \<rightharpoonup> pyval) \<Rightarrow> string \<Rightarrow> pyval" where
  "dict_get d k = (case d k of None \<Rightarrow> PyNone | Some v \<Rightarrow> v)"

text \<open>Binding of keyword arguments at a call: a keyword that names no parameter of the
  callee raises \<^verbatim>\<open>TypeError\<close> before the callee's body runs.\<close>

fun bind_keywords :: "string \<Rightarrow> string list \<Rightarrow> string list \<Rightarrow> py_exn option" where
  "bind_keywords f params [] = None"
| "bind_keywords f params (k # ks) =
     (if k \<in> set params then bind_keywords f params ks
      else Some (TypeError (f @ ''() got an unexpected keyword argument '' @ apos @ k @ apos)))"

text \<open>
  The subclasses call methods through \<^verbatim>\<open>super()\<close> and \<^verbatim>\<open>self\<close> that neither they nor this
  version of the base class define (\<^verbatim>\<open>deleteOutputFiles\<close>, \<^verbatim>\<open>_declare_parameters\<close>,
  \<^verbatim>\<open>_copyNewFiles\<close>, \<^verbatim>\<open>_check_simulation_errors\<close> and \<^verbatim>\<open>_copyResultFiles\<close> for
  \<^verbatim>\<open>Optimica\<close>), the log scraper \<^verbatim>\<open>buildingspy.io.outputfile.get_errors_and_warnings\<close>
  and the \<^verbatim>\<open>jinja2\<close> template. What they do is a parameter: each reads the object and the
  files, and yields a value or an exception, the files it leaves and the messages it
  reports (the scraper, \<^verbatim>\<open>_declare_parameters\<close> and the template only read). A method
  that is missing altogether is the parameter that raises \<^verbatim>\<open>AttributeError\<close>. None of
  them starts a process.
\<close>

type_synonym 'a effect = "filesys \<Rightarrow> (py_exn + 'a) \<times> filesys \<times> string list"

definition run_effect :: "'a effect \<Rightarrow> world \<Rightarrow> (py_exn + 'a) \<times> world" where
  "run_effect f w =
     (case f (files w) of
        (r, fs', msgs) \<Rightarrow> (r, w\<lparr>files := fs', reported := reported w @ msgs\<rparr>))"

text \<open>
  Modelled from the spec: \<^verbatim>\<open>_BaseSimulator._runSimulation(cmd, timeout, directory)\<close>, which
  the subclasses call and this version of the base class does not define. The spec
  describes it as a process-lifecycle helper that spawns the external tool as a blocking
  subprocess with a timeout. The model records the start of the process and then leaves
  what the process does, and whether the call fails, to the parameter \<open>run_process\<close>.
\<close>

record process_env =
  run_process :: "pyval list \<Rightarrow> pyval \<Rightarrow> string \<Rightarrow> unit effect"

definition base_runSimulation ::
  "process_env \<Rightarrow> pyval list \<Rightarrow> pyval \<Rightarrow> string \<Rightarrow> world \<Rightarrow> (py_exn + unit) \<times> world" where
  "base_runSimulation P cmd timeout directory w =
     run_effect (run_process P cmd timeout directory)
       (w\<lparr>spawned := spawned w @ [(cmd, directory, files w)]\<rparr>)"

section \<open>The class \<^verbatim>\<open>Dymola\<close>\<close>

text \<open>
  \<^verbatim>\<open>_exitSimulator\<close>, \<^verbatim>\<open>_showProgressBar\<close> and \<^verbatim>\<open>_modelModifiers_\<close> are assigned by no
  constructor (the base class has the assignments commented out): they are optional, and
  reading one that is \<open>None\<close> raises \<^verbatim>\<open>AttributeError\<close>.
\<close>

record dymola = base_simulator +
  preProcessing :: "string list"
  postProcessing :: "string list"
  showGUI_attr :: pyval
  exitSimulator_attr :: "pyval option"
  showProgressBar_attr :: "pyval option"
  modelModifiers :: "string list option"
  translateDir :: "string option"

record dymola_env =
  super_deleteOutputFiles :: "dymola \<Rightarrow> unit effect"
  declare_parameters :: "dymola \<Rightarrow> py_exn + string list"
  copyNewFiles :: "dymola \<Rightarrow> string \<Rightarrow> unit effect"
  get_errors_and_warnings :: "string \<Rightarrow> string \<Rightarrow> filesys \<Rightarrow> py_exn + string list"

definition no_attribute :: "string \<Rightarrow> py_exn" where
  "no_attribute a = AttributeError (''object has no attribute '' @ apos @ a @ apos)"

text \<open>The statements of \<^verbatim>\<open>Dymola.__init__\<close> after the call of the base constructor.\<close>

definition Dymola_init_tail :: "base_simulator \<Rightarrow> string \<Rightarrow> py_exn + dymola" where
  "Dymola_init_tail b modelName' =
     (let self0 = base_simulator.extend b
                    (dymola.fields [] [] PyNone None None None None);
          self1 = setStopTime (setStartTime self0 (PyInt 0)) (PyInt 1)
      in case py_index (py_split (CHR ''.'') modelName') (- 1) of
           Inl e \<Rightarrow> Inl e
         | Inr short \<Rightarrow>
             (case setResultFile self1 short of
                Inl e \<Rightarrow> Inl e
              | Inr self2 \<Rightarrow>
                  Inr ((setSolver self2 (PyStr ''radau''))
                       \<lparr>MODELICA_EXE := PyStr ''dymola'', showGUI_attr := PyBool False\<rparr>)))"

definition Dymola_init ::
  "os_env \<Rightarrow> string \<Rightarrow> string \<Rightarrow> string option \<Rightarrow> world \<Rightarrow> (py_exn + dymola) \<times> world" where
  "Dymola_init env modelName' outputDirectory packagePath' w =
     (case bind_keywords ''__init__'' BaseSimulator_init_params
             [''modelName'', ''outputDirectory'', ''packagePath'',
              ''outputFileList'', ''logFileList''] of
        Some e \<Rightarrow> (Inl e, w)
      | None \<Rightarrow>
          then_do (BaseSimulator_init env modelName' outputDirectory packagePath' w) (\<lambda>b w'.
            (Dymola_init_tail b modelName', w')))"

definition addPreProcessingStatement :: "dymola \<Rightarrow> string \<Rightarrow> dymola" where
  "addPreProcessingStatement self command = self\<lparr>preProcessing := preProcessing self @ [command]\<rparr>"

definition addPostProcessingStatement :: "dymola \<Rightarrow> string \<Rightarrow> dymola" where
  "addPostProcessingStatement self command =
     self\<lparr>postProcessing := postProcessing self @ [command]\<rparr>"

definition exitSimulator :: "dymola \<Rightarrow> pyval \<Rightarrow> dymola" where
  "exitSimulator self exitAfterSimulation = self\<lparr>exitSimulator_attr := Some exitAfterSimulation\<rparr>"

definition showProgressBar :: "dymola \<Rightarrow> pyval \<Rightarrow> dymola" where
  "showProgressBar self show = self\<lparr>showProgressBar_attr := Some show\<rparr>"

definition showGUI :: "dymola \<Rightarrow> pyval \<Rightarrow> dymola" where
  "showGUI self show = self\<lparr>showGUI_attr := show\<rparr>"

definition addModelModifier :: "dymola \<Rightarrow> string \<Rightarrow> py_exn + dymola" where
  "addModelModifier self modelModifier =
     (case modelModifiers self of
        None \<Rightarrow> Inl (no_attribute ''_modelModifiers_'')
      | Some ms \<Rightarrow> Inr (self\<lparr>modelModifiers := Some (ms @ [modelModifier])\<rparr>))"

text \<open>The line feed and the double quote of the generated script.\<close>

definition nl :: string where
  "nl = [CHR 0x0A]"

definition dq :: string where
  "dq = [CHR 0x22]"

definition get_dymola_commands ::
  "dymola \<Rightarrow> string \<Rightarrow> string \<Rightarrow> string \<Rightarrow> bool \<Rightarrow> py_exn + string" where
  "get_dymola_commands self working_directory log_file model_name translate_only =
     (let s0 = nl @ ''// File autogenerated by _get_dymola_commands'' @ nl
               @ ''// Do not edit.'' @ nl
               @ ''//cd('' @ dq @ working_directory @ dq @ '');'' @ nl
               @ ''Modelica.Utilities.Files.remove('' @ dq @ log_file @ dq @ '');'' @ nl
               @ ''openModel('' @ dq @ ''package.mo'' @ dq @ '');'' @ nl
               @ ''OutputCPUtime:=true;'' @ nl;
          s1 = s0 @ concat (map (\<lambda>prePro. prePro @ nl) (preProcessing self));
          s2 = s1 @ ''modelInstance='' @ model_name @ '';'' @ nl;
          s3 = s2 @
            (if translate_only then ''translateModel(modelInstance);'' @ nl
             else
               (let intervals =
                      (if ''numberOfIntervals'' \<in> dom (simulator self)
                       then '', numberOfIntervals=''
                            @ py_str (dict_get (simulator self) ''numberOfIntervals'')
                       else [])
                in nl @ ''simulateModel(modelInstance, startTime=''
                   @ py_str (dict_get (simulator self) ''t0'')
                   @ '', stopTime='' @ py_str (dict_get (simulator self) ''t1'')
                   @ '', method='' @ dq @ py_str (dict_get (simulator self) ''solver'') @ dq
                   @ '', tolerance='' @ py_str (dict_get (simulator self) ''eps'')
                   @ '', resultFile='' @ dq
                   @ py_str (dict_get (simulator self) ''resultFile'') @ dq
                   @ intervals @ '');'' @ nl));
          s4 = s3 @ concat (map (\<lambda>posPro. posPro @ nl) (postProcessing self));
          s5 = s4 @ ''savelog('' @ dq @ log_file @ dq @ '');'' @ nl
      in case exitSimulator_attr self of
           None \<Rightarrow> Inl (no_attribute ''_exitSimulator'')
         | Some flag \<Rightarrow>
             Inr (if truthy flag then s5 @ ''Modelica.Utilities.System.exit();'' @ nl else s5))"

definition Dymola_runSimulation ::
  "process_env \<Rightarrow> dymola \<Rightarrow> string \<Rightarrow> pyval \<Rightarrow> string \<Rightarrow> world \<Rightarrow> (py_exn + unit) \<times> world" where
  "Dymola_runSimulation P self mosFile timeout directory w =
     (let mo_fil = py_replace mosFile directory ''.'';
          cmd = (if truthy (showGUI_attr self) then [MODELICA_EXE self, PyStr mo_fil]
                 else [MODELICA_EXE self, PyStr mo_fil, PyStr ''/nowindow''])
      in base_runSimulation P cmd timeout directory w)"

definition check_simulation_errors ::
  "dymola_env \<Rightarrow> string \<Rightarrow> world \<Rightarrow> (py_exn + unit) \<times> world" where
  "check_simulation_errors D worDir w =
     (let path_to_logfile = os_path_join worDir ''simulator.log'' in
      case get_errors_and_warnings D path_to_logfile ''dymola'' (files w) of
        Inl e \<Rightarrow> (Inl e, w)
      | Inr errors \<Rightarrow>
          if errors = [] then (Inr (), w)
          else (Inl (IOError [] None), w\<lparr>reported := reported w @ errors\<rparr>))"

text \<open>\<^verbatim>\<open>x + "_result.mat"\<close>: only a string can be concatenated with a string.\<close>

definition str_plus :: "pyval \<Rightarrow> string \<Rightarrow> py_exn + string" where
  "str_plus v s =
     (case v of PyStr t \<Rightarrow> Inr (t @ s)
      | _ \<Rightarrow> Inl (TypeError ''unsupported operand type(s) for +''))"

definition Dymola_deleteOutputFiles ::
  "dymola_env \<Rightarrow> dymola \<Rightarrow> world \<Rightarrow> (py_exn + unit) \<times> world" where
  "Dymola_deleteOutputFiles D self w =
     then_do (run_effect (super_deleteOutputFiles D self) w) (\<lambda>_ w1.
       case str_plus (dict_get (simulator self) ''resultFile'') ''_result.mat'' of
         Inl e \<Rightarrow> (Inl e, w1)
       | Inr fil \<Rightarrow> deleteFiles [fil] w1)"

text \<open>\<^verbatim>\<open>','.join(xs)\<close>.\<close>

fun py_join :: "string \<Rightarrow> string list \<Rightarrow> string" where
  "py_join s [] = []"
| "py_join s [x] = x"
| "py_join s (x # y # ys) = x @ s @ py_join s (y # ys)"

text \<open>The \<^verbatim>\<open>try\<close> statements of \<^verbatim>\<open>Dymola.simulate\<close> and \<^verbatim>\<open>Dymola.translate\<close> begin alike:
  the script is written and the simulator is run on it. The script file is opened for
  writing, which empties it, before its text is computed.\<close>

definition Dymola_write_and_run ::
  "process_env \<Rightarrow> dymola \<Rightarrow> string \<Rightarrow> string \<Rightarrow> string \<Rightarrow> string \<Rightarrow> bool \<Rightarrow> world
     \<Rightarrow> (py_exn + unit) \<times> world" where
  "Dymola_write_and_run P self worDir script_name log_file mi translate_only w =
     (let runScriptName = os_path_join worDir script_name in
      then_do (lift_fs (write_file runScriptName [] (files w)) w) (\<lambda>_ w1.
      then_do (get_dymola_commands self worDir log_file mi translate_only, w1) (\<lambda>script w2.
      then_do (lift_fs (write_file runScriptName script (files w2)) w2) (\<lambda>_ w3.
        Dymola_runSimulation P self runScriptName
          (dict_get (simulator self) ''timeout'') worDir w3))))"

text \<open>The body of the \<^verbatim>\<open>try\<close> statement of \<^verbatim>\<open>Dymola.simulate\<close>.\<close>

definition Dymola_simulate_try ::
  "process_env \<Rightarrow> dymola_env \<Rightarrow> dymola \<Rightarrow> string \<Rightarrow> string \<Rightarrow> world \<Rightarrow> (py_exn + unit) \<times> world" where
  "Dymola_simulate_try P D self worDir mi w =
     then_do (Dymola_write_and_run P self worDir ''run.mos'' ''simulator.log'' mi False w)
       (\<lambda>_ w4.
     then_do (check_simulation_errors D worDir w4) (\<lambda>_ w5.
     then_do (run_effect (copyNewFiles D self worDir) w5) (\<lambda>_ w6.
       deleteTemporaryDirectory (Some worDir) w6)))"

text \<open>\<^verbatim>\<open>Dymola.simulate\<close> and \<^verbatim>\<open>Dymola.translate\<close> up to their \<^verbatim>\<open>try\<close> statement,
  in two parts: the statements that yield the working directory, and, once it is stored
  in the object, the copy of the package and the model instance string. \<^verbatim>\<open>simulate\<close>
  copies with \<^verbatim>\<open>ignore_patterns('*.svn', '*.git')\<close>, \<^verbatim>\<open>translate\<close> copies everything.\<close>

definition Dymola_worDir ::
  "os_env \<Rightarrow> dymola_env \<Rightarrow> dymola \<Rightarrow> world \<Rightarrow> (py_exn + string) \<times> world" where
  "Dymola_worDir env D self w =
     then_do (Dymola_deleteOutputFiles D self w) (\<lambda>_ w1. create_worDir env self w1)"

definition model_instance :: "dymola \<Rightarrow> string list \<Rightarrow> string" where
  "model_instance self dec = dq @ modelName self @ ''('' @ py_join '','' dec @ '')'' @ dq"

definition Dymola_copy ::
  "os_env \<Rightarrow> dymola_env \<Rightarrow> dymola \<Rightarrow> string \<Rightarrow> string list \<Rightarrow> world
     \<Rightarrow> (py_exn + string) \<times> world" where
  "Dymola_copy env D self worDir patterns w =
     (case packagePath self of
        None \<Rightarrow> (Inl (TypeError ''expected str, bytes or os.PathLike object, not NoneType''), w)
      | Some pp \<Rightarrow>
          then_do (lift_fs (shutil_copytree (abspath env pp) worDir patterns (files w)) w)
            (\<lambda>_ w1.
            case declare_parameters D self of
              Inl e \<Rightarrow> (Inl e, w1)
            | Inr dec \<Rightarrow>
                (case modelModifiers self of
                   None \<Rightarrow> (Inl (no_attribute ''_modelModifiers_''), w1)
                 | Some ms \<Rightarrow> (Inr (model_instance self (dec @ ms)), w1))))"

text \<open>\<^verbatim>\<open>Dymola.simulate\<close>. An exception before the \<^verbatim>\<open>try\<close> statement leaves the method; one
  inside it is caught and reported. The result gives the object as the call leaves it.\<close>

definition simulation_failed :: "string \<Rightarrow> py_exn \<Rightarrow> string" where
  "simulation_failed worDir e =
     ''Simulation failed in '' @ apos @ worDir @ apos @ nl
     @ ''   Exception: '' @ exn_str e @ ''.'' @ nl
     @ ''   You need to delete the directory manually.'' @ nl"

definition Dymola_simulate ::
  "os_env \<Rightarrow> process_env \<Rightarrow> dymola_env \<Rightarrow> dymola \<Rightarrow> world \<Rightarrow> (py_exn + unit) \<times> dymola \<times> world" where
  "Dymola_simulate env P D self w =
     (case Dymola_worDir env D self w of
        (Inl e, w1) \<Rightarrow> (Inl e, self, w1)
      | (Inr worDir, w1) \<Rightarrow>
          let self' = self\<lparr>simulateDir := Some worDir\<rparr> in
          (case Dymola_copy env D self' worDir [''*.svn'', ''*.git''] w1 of
             (Inl e, w2) \<Rightarrow> (Inl e, self', w2)
           | (Inr mi, w2) \<Rightarrow>
               (case Dymola_simulate_try P D self' worDir mi w2 of
                  (Inl e, w3) \<Rightarrow> (Inr (), self', writeError (simulation_failed worDir e) w3)
                | (Inr _, w3) \<Rightarrow> (Inr (), self', w3))))"

text \<open>\<^verbatim>\<open>Dymola.translate\<close>: the handler reports and raises the exception again.\<close>

definition Dymola_translate_try ::
  "process_env \<Rightarrow> dymola \<Rightarrow> string \<Rightarrow> string \<Rightarrow> world \<Rightarrow> (py_exn + unit) \<times> world" where
  "Dymola_translate_try P self worDir mi w =
     Dymola_write_and_run P self worDir ''run_translate.mos'' ''translator.log'' mi True w"

definition Dymola_translate ::
  "os_env \<Rightarrow> process_env \<Rightarrow> dymola_env \<Rightarrow> dymola \<Rightarrow> world \<Rightarrow> (py_exn + unit) \<times> dymola \<times> world" where
  "Dymola_translate env P D self w =
     (case Dymola_worDir env D self w of
        (Inl e, w1) \<Rightarrow> (Inl e, self, w1)
      | (Inr worDir, w1) \<Rightarrow>
          let self' = self\<lparr>translateDir := Some worDir\<rparr> in
          (case Dymola_copy env D self' worDir [] w1 of
             (Inl e, w2) \<Rightarrow> (Inl e, self', w2)
           | (Inr mi, w2) \<Rightarrow>
               (case Dymola_translate_try P self' worDir mi w2 of
                  (Inl e, w3) \<Rightarrow>
                    (Inl e, self',
                     writeError (''Translation failed in '' @ apos @ worDir @ apos @ nl
                                 @ ''   You need to delete the directory manually.'') w3)
                | (Inr _, w3) \<Rightarrow> (Inr (), self', w3))))"

text \<open>
  The objects of the class: what the constructor's own statements build on a base object,
  and what the methods of the class make of an object. No method assigns
  \<^verbatim>\<open>_modelModifiers_\<close>, which \<^verbatim>\<open>simulate\<close> and \<^verbatim>\<open>translate\<close> read, so a caller who wants
  to run has to assign that attribute; the rule \<open>assigned\<close> is this assignment.
\<close>

inductive Dymola_object :: "dymola \<Rightarrow> bool" where
  constructed: "Dymola_init_tail b m = Inr self \<Longrightarrow> Dymola_object self"
| assigned: "Dymola_object self \<Longrightarrow> Dymola_object (self\<lparr>modelModifiers := Some ms\<rparr>)"
| addPre: "Dymola_object self \<Longrightarrow> Dymola_object (addPreProcessingStatement self c)"
| addPost: "Dymola_object self \<Longrightarrow> Dymola_object (addPostProcessingStatement self c)"
| exitSim: "Dymola_object self \<Longrightarrow> Dymola_object (exitSimulator self v)"
| progress: "Dymola_object self \<Longrightarrow> Dymola_object (showProgressBar self v)"
| gui: "Dymola_object self \<Longrightarrow> Dymola_object (showGUI self v)"
| modifier: "Dymola_object self \<Longrightarrow> addModelModifier self x = Inr self' \<Longrightarrow> Dymola_object self'"
| solver: "Dymola_object self \<Longrightarrow> Dymola_object (setSolver self v)"
| startTime: "Dymola_object self \<Longrightarrow> Dymola_object (setStartTime self v)"
| stopTime: "Dymola_object self \<Longrightarrow> Dymola_object (setStopTime self v)"
| tolerance: "Dymola_object self \<Longrightarrow> Dymola_object (setTolerance self v)"
| timeOut: "Dymola_object self \<Longrightarrow> Dymola_object (setTimeOut self v)"
| resultFile: "Dymola_object self \<Longrightarrow> setResultFile self s = Inr self' \<Longrightarrow> Dymola_object self'"
| outputDirectory: "Dymola_object self \<Longrightarrow> Dymola_object (setOutputDirectory self s)"
| package: "Dymola_object self \<Longrightarrow> setPackagePath self s w = Inr self' \<Longrightarrow> Dymola_object self'"
| simulated: "Dymola_object self \<Longrightarrow> Dymola_simulate env P D self w = (r, self', w')
              \<Longrightarrow> Dymola_object self'"
| translated: "Dymola_object self \<Longrightarrow> Dymola_translate env P D self w = (r, self', w')
               \<Longrightarrow> Dymola_object self'"

section \<open>The class \<^verbatim>\<open>Optimica\<close>\<close>

text \<open>An \<^verbatim>\<open>Optimica\<close> object has the attributes of the base class only. The text of the
  run script is rendered by \<^verbatim>\<open>jinja2\<close> from a template that is not part of these sources:
  a parameter, given the keyword arguments of \<^verbatim>\<open>template.render\<close>.\<close>

record optimica_env =
  render :: "(string \<times> pyval) list \<Rightarrow> string list \<Rightarrow> py_exn + string"
  check_simulation_errors_missing :: "base_simulator \<Rightarrow> string \<Rightarrow> unit effect"
  copyResultFiles :: "base_simulator \<Rightarrow> string \<Rightarrow> unit effect"

definition Optimica_init_tail :: "base_simulator \<Rightarrow> base_simulator" where
  "Optimica_init_tail b = (setSolver b (PyStr ''CVode''))\<lparr>MODELICA_EXE := PyStr ''jm_ipython.sh''\<rparr>"

definition Optimica_init ::
  "os_env \<Rightarrow> string \<Rightarrow> string \<Rightarrow> string option \<Rightarrow> world \<Rightarrow> (py_exn + base_simulator) \<times> world" where
  "Optimica_init env modelName' outputDirectory packagePath' w =
     (case bind_keywords ''__init__'' BaseSimulator_init_params
             [''modelName'', ''outputDirectory'', ''packagePath'',
              ''outputFileList'', ''logFileList''] of
        Some e \<Rightarrow> (Inl e, w)
      | None \<Rightarrow>
          then_do (BaseSimulator_init env modelName' outputDirectory packagePath' w) (\<lambda>b w'.
            (Inr (Optimica_init_tail b), w')))"

definition Optimica_deleteOutputFiles :: "base_simulator \<Rightarrow> world \<Rightarrow> (py_exn + unit) \<times> world" where
  "Optimica_deleteOutputFiles self w =
     deleteFiles [py_str (dict_get (simulator self) ''resultFile'') @ ''.mat''] w"

text \<open>\<^verbatim>\<open>Optimica.simulate\<close> up to the \<^verbatim>\<open>try\<close> statement. The copy of the package is
  commented out in the source: the working directory is created empty. The \<^verbatim>\<open>print\<close>
  calls and the process environment handed to the subprocess are not modelled.\<close>

definition Optimica_worDir ::
  "os_env \<Rightarrow> base_simulator \<Rightarrow> world \<Rightarrow> (py_exn + string) \<times> world" where
  "Optimica_worDir env self w =
     then_do (Optimica_deleteOutputFiles self w) (\<lambda>_ w1.
     then_do (create_worDir env self w1) (\<lambda>worDir w2.
       if \<not> os_path_exists (files w2) worDir
       then then_do (lift_fs (os_mkdir worDir (files w2)) w2) (\<lambda>_ w3. (Inr worDir, w3))
       else (Inr worDir, w2)))"

definition Optimica_script ::
  "optimica_env \<Rightarrow> base_simulator \<Rightarrow> string \<Rightarrow> world \<Rightarrow> (py_exn + string) \<times> world" where
  "Optimica_script Q self worDir w =
     (case render Q
             [(''model'', PyStr (modelName self)),
              (''ncp'', dict_get (simulator self) ''numberOfIntervals''),
              (''rtol'', dict_get (simulator self) ''eps''),
              (''solver'', dict_get (simulator self) ''solver''),
              (''start_time'', dict_get (simulator self) ''t0''),
              (''stop_time'', dict_get (simulator self) ''t1''),
              (''result_file'', dict_get (simulator self) ''resultFile''),
              (''simulate'', PyBool True),
              (''time_out'', dict_get (simulator self) ''time_out'')]
             [''*''] of
        Inl e \<Rightarrow> (Inl e, w)
      | Inr txt \<Rightarrow>
          let file_name =
                os_path_join worDir (py_replace (modelName self) ''.'' ''_'' @ ''.py'') in
          then_do (lift_fs (write_file file_name [] (files w)) w) (\<lambda>_ w1.
          then_do (lift_fs (write_file file_name txt (files w1)) w1) (\<lambda>_ w2.
            (Inr file_name, w2))))"

definition Optimica_simulate_try ::
  "process_env \<Rightarrow> optimica_env \<Rightarrow> base_simulator \<Rightarrow> string \<Rightarrow> string \<Rightarrow> world
     \<Rightarrow> (py_exn + unit) \<times> world" where
  "Optimica_simulate_try P Q self worDir file_name w =
     then_do (base_runSimulation P [PyStr ''jm_ipython.sh'', PyStr file_name]
                (dict_get (simulator self) ''timeout'') worDir w) (\<lambda>_ w1.
     then_do (run_effect (check_simulation_errors_missing Q self worDir) w1) (\<lambda>_ w2.
     then_do (run_effect (copyResultFiles Q self worDir) w2) (\<lambda>_ w3.
       deleteTemporaryDirectory (Some worDir) w3)))"

definition Optimica_simulate ::
  "os_env \<Rightarrow> process_env \<Rightarrow> optimica_env \<Rightarrow> base_simulator \<Rightarrow> world
     \<Rightarrow> (py_exn + unit) \<times> base_simulator \<times> world" where
  "Optimica_simulate env P Q self w =
     (case Optimica_worDir env self w of
        (Inl e, w1) \<Rightarrow> (Inl e, self, w1)
      | (Inr worDir, w1) \<Rightarrow>
          let self' = self\<lparr>simulateDir := Some worDir\<rparr> in
          (case Optimica_script Q self' worDir w1 of
             (Inl e, w2) \<Rightarrow> (Inl e, self', w2)
           | (Inr file_name, w2) \<Rightarrow>
               (case Optimica_simulate_try P Q self' worDir file_name w2 of
                  (Inl e, w3) \<Rightarrow> (Inr (), self', writeError (simulation_failed worDir e) w3)
                | (Inr _, w3) \<Rightarrow> (Inr (), self', w3))))"

section \<open>The Dymola script, line by line\<close>

text \<open>
  The script described as a sequence of statements, one per line, to compare with what
  \<^verbatim>\<open>_get_dymola_commands\<close> builds by appending to a string: it removes the log file, opens
  \<^verbatim>\<open>package.mo\<close>, has the pre-processing statements in the order they were added, binds
  \<^verbatim>\<open>modelInstance\<close>, translates or simulates it, has the post-processing statements in
  their order, saves the log and, if asked to, exits.
\<close>

definition unlines :: "string list \<Rightarrow> string" where
  "unlines ls = concat (map (\<lambda>l. l @ nl) ls)"

definition simulateModel_line :: "(string \<rightharpoonup> pyval) \<Rightarrow> string" where
  "simulateModel_line d =
     ''simulateModel(modelInstance, startTime='' @ py_str (dict_get d ''t0'')
     @ '', stopTime='' @ py_str (dict_get d ''t1'')
     @ '', method='' @ dq @ py_str (dict_get d ''solver'') @ dq
     @ '', tolerance='' @ py_str (dict_get d ''eps'')
     @ '', resultFile='' @ dq @ py_str (dict_get d ''resultFile'') @ dq
     @ (case d ''numberOfIntervals'' of
          None \<Rightarrow> []
        | Some n \<Rightarrow> '', numberOfIntervals='' @ py_str n)
     @ '');''"

definition script_lines ::
  "dymola \<Rightarrow> string \<Rightarrow> string \<Rightarrow> string \<Rightarrow> bool \<Rightarrow> bool \<Rightarrow> string list" where
  "script_lines self working_directory log_file model_name translate_only exit =
     [[],
      ''// File autogenerated by _get_dymola_commands'',
      ''// Do not edit.'',
      ''//cd('' @ dq @ working_directory @ dq @ '');'',
      ''Modelica.Utilities.Files.remove('' @ dq @ log_file @ dq @ '');'',
      ''openModel('' @ dq @ ''package.mo'' @ dq @ '');'',
      ''OutputCPUtime:=true;'']
     @ preProcessing self
     @ [''modelInstance='' @ model_name @ '';'']
     @ (if translate_only then [''translateModel(modelInstance);'']
        else [[], simulateModel_line (simulator self)])
     @ postProcessing self
     @ [''savelog('' @ dq @ log_file @ dq @ '');'']
     @ (if exit then [''Modelica.Utilities.System.exit();''] else [])"

section \<open>Example inputs\<close>

text \<open>A small machine: user \<^verbatim>\<open>u\<close>, temporary files under \<^verbatim>\<open>/tmp\<close>, and a Modelica package
  \<^verbatim>\<open>/lib/Pkg\<close> that is a git checkout.\<close>

definition ex_env :: os_env where
  "ex_env = \<lparr>abspath = (\<lambda>p. p), getuser = ''u'', gettempdir = ''/tmp'',
             candidate_names = [''a1'', ''b2''], access_W_OK = (\<lambda>p. True)\<rparr>"

definition ex_files :: filesys where
  "ex_files = [''/tmp'' \<mapsto> Dir, ''/lib'' \<mapsto> Dir, ''/lib/Pkg'' \<mapsto> Dir,
               ''/lib/Pkg/package.mo'' \<mapsto> File ''package Pkg end Pkg;'',
               ''/lib/Pkg/.git'' \<mapsto> Dir,
               ''/lib/Pkg/.git/HEAD'' \<mapsto> File ''ref'']"

definition ex_world :: world where
  "ex_world = \<lparr>files = ex_files, reported = [], spawned = []\<rparr>"

text \<open>The base object the constructor builds there for model \<^verbatim>\<open>aa.bb.cc\<close>; the \<^verbatim>\<open>Dymola\<close>
  object that the statements of \<^verbatim>\<open>Dymola.__init__\<close> make of it, on which \<^verbatim>\<open>exitSimulator\<close>
  has not been called; and that object once it has been told to exit after the run and
  given an empty list of model modifiers.\<close>

definition ex_base :: base_simulator where
  "ex_base =
     \<lparr>packagePath = Some ''/lib/Pkg'', modelName = ''aa.bb.cc'',
      simulator = [''resultFile'' \<mapsto> PyStr ''cc'', ''t0'' \<mapsto> PyInt 0, ''t1'' \<mapsto> PyInt 1,
                   ''eps'' \<mapsto> PyFloat ''1e-06'', ''timeout'' \<mapsto> PyInt (- 1)],
      outputDir = ''.'', simulateDir = None, MODELICA_EXE = PyNone,
      reporter_file = ''./BuildingsPy.log''\<rparr>"

definition ex_fresh_dymola :: dymola where
  "ex_fresh_dymola =
     (case Dymola_init_tail ex_base ''aa.bb.cc'' of
        Inr d \<Rightarrow> d
      | Inl e \<Rightarrow> base_simulator.extend ex_base
                   (dymola.fields [] [] PyNone None None None None))"

definition ex_dymola :: dymola where
  "ex_dymola = exitSimulator (ex_fresh_dymola\<lparr>modelModifiers := Some []\<rparr>) (PyBool True)"

text \<open>A scraper that reports the lines of the log holding the word \<^verbatim>\<open>Error\<close>, helpers
  that succeed without touching anything, and two simulators: one writes a clean log
  into its working directory, the other a log with an error.\<close>

definition ex_scraper :: "string \<Rightarrow> string \<Rightarrow> filesys \<Rightarrow> py_exn + string list" where
  "ex_scraper log_file tool fs =
     (case fs (resolve log_file) of
        Some (File c) \<Rightarrow>
          Inr (filter (\<lambda>line. py_find line ''Error'' \<noteq> - 1) (py_split (CHR 0x0A) c))
      | _ \<Rightarrow> Inl (IOError (''No such file or directory: '' @ log_file)
                     (Some ''No such file or directory'')))"

definition ex_dymola_env :: dymola_env where
  "ex_dymola_env =
     \<lparr>super_deleteOutputFiles = (\<lambda>self fs. (Inr (), fs, [])),
      declare_parameters = (\<lambda>self. Inr []),
      copyNewFiles = (\<lambda>self worDir fs. (Inr (), fs, [])),
      get_errors_and_warnings = ex_scraper\<rparr>"


definition ex_process :: process_env where
  "ex_process =
     \<lparr>run_process = (\<lambda>cmd timeout directory fs.
        (Inr (), fs(os_path_join directory ''simulator.log'' \<mapsto> File ''Finished''), []))\<rparr>"

definition ex_process_error :: process_env where
  "ex_process_error =
     \<lparr>run_process = (\<lambda>cmd timeout directory fs.
        (Inr (), fs(os_path_join directory ''simulator.log'' \<mapsto> File ''Error: singular''), []))\<rparr>"

definition ex_optimica_env :: optimica_env where
  "ex_optimica_env =
     \<lparr>render = (\<lambda>args filter. Inr ''# script''),
      check_simulation_errors_missing = (\<lambda>self worDir fs. (Inr (), fs, [])),
      copyResultFiles = (\<lambda>self worDir fs. (Inr (), fs, []))\<rparr>"

text \<open>The working directory of a run on this machine, and the files after the package has
  been copied there by \<^verbatim>\<open>Dymola.simulate\<close>.\<close>

definition ex_worDir :: string where
  "ex_worDir = ''/tmp/tmp-simulator-u-a1/Pkg''"

definition ex_copied :: filesys where
  "ex_copied =
     (case shutil_copytree ''/lib/Pkg'' ex_worDir [''*.svn'', ''*.git'']
             (ex_files(''/tmp/tmp-simulator-u-a1'' \<mapsto> Dir)) of
        Inr fs \<Rightarrow> fs
      | Inl e \<Rightarrow> Map.empty)"

text \<open>An \<^verbatim>\<open>Optimica\<close> object on the same base object.\<close>

definition ex_optimica :: base_simulator where
  "ex_optimica = Optimica_init_tail ex_base"

text \<open>The helpers of \<^verbatim>\<open>Optimica\<close> as this version of the sources has them:
  \<^verbatim>\<open>_check_simulation_errors\<close> is defined nowhere for the class, so calling it raises
  \<^verbatim>\<open>AttributeError\<close>.\<close>

definition ex_optimica_env_missing :: optimica_env where
  "ex_optimica_env_missing =
     \<lparr>render = (\<lambda>args filter. Inr ''# script''),
      check_simulation_errors_missing =
        (\<lambda>self worDir fs. (Inl (no_attribute ''_check_simulation_errors''), fs, [])),
      copyResultFiles = (\<lambda>self worDir fs. (Inr (), fs, []))\<rparr>"

text \<open>What each process started so far found at a path when it started, with its working
  directory.\<close>

definition found_at_start :: "world \<Rightarrow> string \<Rightarrow> (string \<times> node option) list" where
  "found_at_start w p = map (\<lambda>(cmd, directory, snapshot). (directory, snapshot p)) (spawned w)"

section \<open>The settings after construction\<close>

lemma py_split_not_Nil: "py_split c s \<noteq> []"
  by (induction s) (auto split: list.splits)

lemma py_split_no_sep: "c \<notin> set s \<Longrightarrow> py_split c s = [s]"
  by (induction s) auto

lemma py_split_last_no_sep: "c \<notin> set (last (py_split c s))"
  by (induction s) (auto split: list.splits simp: py_split_not_Nil)

lemma py_split_tl: "c \<in> set s \<Longrightarrow> tl (py_split c s) \<noteq> []"
  by (induction s) (auto split: list.splits simp: py_split_not_Nil)

lemma py_split_last_Cons:
  "c \<in> set xs \<Longrightarrow> last (py_split c (x # xs)) = last (py_split c xs)"
  using py_split_tl [of c xs] by (auto split: list.splits simp: py_split_not_Nil)

lemma py_split_last_suffix: "c \<in> set s \<Longrightarrow> \<exists>pre. s = pre @ c # last (py_split c s)"
proof (induction s)
  case Nil
  then show ?case by simp
next
  case (Cons x xs)
  show ?case
  proof (cases "c \<in> set xs")
    case True
    then obtain pre where pre: "xs = pre @ c # last (py_split c xs)"
      using Cons.IH by blast
    have "x # xs = (x # pre) @ c # last (py_split c (x # xs))"
      using pre py_split_last_Cons [OF True, of x] by simp
    then show ?thesis by blast
  next
    case False
    then have "x = c" using Cons.prems by simp
    then show ?thesis using False by (auto simp: py_split_no_sep)
  qed
qed

lemma after_last_sep:
  assumes "c \<notin> set r"
  shows "rev (takeWhile (\<lambda>x. x \<noteq> c) (rev (pre @ c # r))) = r"
proof -
  have "\<forall>x\<in>set (rev r). x \<noteq> c" using assms by auto
  then have "takeWhile (\<lambda>x. x \<noteq> c) (rev r) = rev r"
    by (simp only: takeWhile_eq_all_conv)
  moreover have "takeWhile (\<lambda>x. x \<noteq> c) (rev (pre @ c # r)) = takeWhile (\<lambda>x. x \<noteq> c) (rev r)"
    by (simp add: takeWhile_tail)
  ultimately show ?thesis by (simp only: rev_rev_ident)
qed

lemma py_index_last: "xs \<noteq> [] \<Longrightarrow> py_index xs (int (length xs) - 1) = Inr (last xs)"
  by (cases xs rule: rev_cases) (auto simp: py_index_def nth_append)

lemma py_index_minus_one: "xs \<noteq> [] \<Longrightarrow> py_index xs (- 1) = Inr (last xs)"
  by (cases xs rule: rev_cases) (auto simp: py_index_def nth_append)

lemma setResultFile_eq:
  "setResultFile self s =
     Inr (self\<lparr>simulator := (simulator self)(''resultFile'' \<mapsto> PyStr (last (py_split (CHR ''.'') s)))\<rparr>)"
  by (simp add: setResultFile_def Let_def py_index_last py_split_not_Nil)

text \<open>
  Claim C10. For every string \<open>s\<close>, \<^verbatim>\<open>setResultFile(s)\<close> returns normally and stores under
  the key \<^verbatim>\<open>resultFile\<close> the part \<open>r\<close> of \<open>s\<close> after its last dot: \<open>r\<close> holds no dot, and
  \<open>s\<close> is \<open>r\<close> itself when \<open>s\<close> has no dot and ends in a dot followed by \<open>r\<close> otherwise. Every
  other key of the settings, and every other attribute, is as before.
\<close>

theorem setResultFile_last_component:
  "\<exists>r self'. setResultFile self s = Inr self'
     \<and> self' = self\<lparr>simulator := (simulator self)(''resultFile'' \<mapsto> PyStr r)\<rparr>
     \<and> simulator self' ''resultFile'' = Some (PyStr r)
     \<and> (\<forall>k. k \<noteq> ''resultFile'' \<longrightarrow> simulator self' k = simulator self k)
     \<and> CHR ''.'' \<notin> set r
     \<and> (if CHR ''.'' \<in> set s then \<exists>pre. s = pre @ CHR ''.'' # r else r = s)"
proof -
  let ?r = "last (py_split (CHR ''.'') s)"
  have "CHR ''.'' \<notin> set ?r" by (rule py_split_last_no_sep)
  moreover have "CHR ''.'' \<in> set s \<Longrightarrow> \<exists>pre. s = pre @ CHR ''.'' # ?r"
    by (rule py_split_last_suffix)
  moreover have "CHR ''.'' \<notin> set s \<Longrightarrow> ?r = s"
    by (simp add: py_split_no_sep)
  ultimately show ?thesis
    by (intro exI[of _ ?r] exI[of _ "self\<lparr>simulator := (simulator self)(''resultFile'' \<mapsto> PyStr ?r)\<rparr>"])
       (simp add: setResultFile_eq)
qed

text \<open>The claim's own example: \<^verbatim>\<open>aa.bb.cc\<close> is stored as \<^verbatim>\<open>cc\<close>, and so is \<^verbatim>\<open>cc\<close>.\<close>

theorem setResultFile_last_component_witness:
  "setResultFile new_object ''aa.bb.cc''
     = Inr (new_object\<lparr>simulator := (simulator new_object)(''resultFile'' \<mapsto> PyStr ''cc'')\<rparr>)
   \<and> setResultFile new_object ''cc''
     = Inr (new_object\<lparr>simulator := (simulator new_object)(''resultFile'' \<mapsto> PyStr ''cc'')\<rparr>)"
proof -
  have no_dot: "CHR ''.'' \<notin> set ''cc''" by simp
  obtain r where r: "setResultFile new_object ''aa.bb.cc''
        = Inr (new_object\<lparr>simulator := (simulator new_object)(''resultFile'' \<mapsto> PyStr r)\<rparr>)"
      "CHR ''.'' \<notin> set r" "\<exists>pre. ''aa.bb.cc'' = pre @ CHR ''.'' # r"
    using setResultFile_last_component [of new_object "''aa.bb.cc''"] by auto
  obtain r2 where r2: "setResultFile new_object ''cc''
        = Inr (new_object\<lparr>simulator := (simulator new_object)(''resultFile'' \<mapsto> PyStr r2)\<rparr>)"
      "r2 = ''cc''"
    using setResultFile_last_component [of new_object "''cc''"] by auto
  from r(3) obtain pre where pre: "''aa.bb.cc'' = pre @ CHR ''.'' # r" by blast
  have "rev (takeWhile (\<lambda>x. x \<noteq> CHR ''.'') (rev (pre @ CHR ''.'' # r))) = r"
    using r(2) by (rule after_last_sep)
  then have "r = ''cc''" unfolding pre [symmetric] by simp
  with r(1) r2 show ?thesis by simp
qed

lemma then_do_Inr:
  "then_do m f = (Inr y, w') \<Longrightarrow> \<exists>x w1. m = (Inr x, w1) \<and> f x w1 = (Inr y, w')"
  by (auto simp: then_do_def split: prod.splits sum.splits)

text \<open>
  Claim C8. Whenever \<^verbatim>\<open>_BaseSimulator.__init__\<close> completes, the settings dictionary holds
  exactly five keys: \<^verbatim>\<open>t0\<close> = 0, \<^verbatim>\<open>t1\<close> = 1, \<^verbatim>\<open>eps\<close> = 1E-6, \<^verbatim>\<open>timeout\<close> = -1, and
  \<^verbatim>\<open>resultFile\<close> = the part of the model name after its last dot (the whole name when it
  has no dot).
\<close>

theorem BaseSimulator_init_settings:
  assumes "BaseSimulator_init env m od pp w = (Inr self, w')"
  shows "\<exists>r. simulator self =
            [''resultFile'' \<mapsto> PyStr r, ''t0'' \<mapsto> PyInt 0, ''t1'' \<mapsto> PyInt 1,
             ''eps'' \<mapsto> PyFloat ''1e-06'', ''timeout'' \<mapsto> PyInt (- 1)]
          \<and> CHR ''.'' \<notin> set r
          \<and> (if CHR ''.'' \<in> set m then \<exists>pre. m = pre @ CHR ''.'' # r else r = m)"
proof -
  let ?r = "last (py_split (CHR ''.'') m)"
  have "simulator self =
            [''resultFile'' \<mapsto> PyStr ?r, ''t0'' \<mapsto> PyInt 0, ''t1'' \<mapsto> PyInt 1,
             ''eps'' \<mapsto> PyFloat ''1e-06'', ''timeout'' \<mapsto> PyInt (- 1)]"
    using assms
    by (auto simp: BaseSimulator_init_def Let_def setResultFile_eq then_do_def
          setStartTime_def setStopTime_def setTolerance_def setTimeOut_def
          split: sum.splits prod.splits)
  moreover have "CHR ''.'' \<notin> set ?r" by (rule py_split_last_no_sep)
  moreover have "CHR ''.'' \<in> set m \<Longrightarrow> \<exists>pre. m = pre @ CHR ''.'' # ?r"
    by (rule py_split_last_suffix)
  moreover have "CHR ''.'' \<notin> set m \<Longrightarrow> ?r = m"
    by (simp add: py_split_no_sep)
  ultimately show ?thesis by (intro exI[of _ ?r]) simp
qed

lemma resolve_Pkg: "resolve ''/lib/Pkg'' = ''/lib/Pkg''"
  by (simp add: resolve_def py_rstrip_def sep_def)

lemma ex_init:
  "BaseSimulator_init ex_env ''aa.bb.cc'' ''.'' (Some ''/lib/Pkg'') ex_world
     = (Inr ex_base, ex_world)"
  by (simp add: ex_base_def BaseSimulator_init_def Let_def setPackagePath_def os_path_exists_def
        os_path_isdir_def resolve_Pkg ex_world_def ex_files_def createDirectory_def
        then_do_def setResultFile_eq new_object_def os_path_join_def sep_def
        setStartTime_def setStopTime_def setTolerance_def setTimeOut_def)

text \<open>The constructor completes on the example machine, with \<^verbatim>\<open>cc\<close> as result file.\<close>

theorem BaseSimulator_init_settings_witness:
  "BaseSimulator_init ex_env ''aa.bb.cc'' ''.'' (Some ''/lib/Pkg'') ex_world
     = (Inr ex_base, ex_world)
   \<and> (\<exists>r. simulator ex_base =
            [''resultFile'' \<mapsto> PyStr r, ''t0'' \<mapsto> PyInt 0, ''t1'' \<mapsto> PyInt 1,
             ''eps'' \<mapsto> PyFloat ''1e-06'', ''timeout'' \<mapsto> PyInt (- 1)]
          \<and> CHR ''.'' \<notin> set r
          \<and> (\<exists>pre. ''aa.bb.cc'' = pre @ CHR ''.'' # r))"
  using BaseSimulator_init_settings [OF ex_init] ex_init by simp

section \<open>The constructors of the subclasses\<close>

text \<open>
  Claim C2. For every model name, output directory and package path, constructing a
  \<^verbatim>\<open>Dymola\<close> or an \<^verbatim>\<open>Optimica\<close> object raises \<^verbatim>\<open>TypeError\<close> and changes nothing: the call
  of the base constructor passes the keyword \<^verbatim>\<open>outputFileList\<close>, which is no parameter of
  \<^verbatim>\<open>_BaseSimulator.__init__\<close>.
\<close>

theorem subclass_init_raises_TypeError:
  "Dymola_init env m od pp w
     = (Inl (TypeError (''__init__() got an unexpected keyword argument ''
                        @ apos @ ''outputFileList'' @ apos)), w)
   \<and> Optimica_init env m od pp w
     = (Inl (TypeError (''__init__() got an unexpected keyword argument ''
                        @ apos @ ''outputFileList'' @ apos)), w)"
  by (simp add: Dymola_init_def Optimica_init_def BaseSimulator_init_params_def)

section \<open>Deleting the temporary directory\<close>

lemma py_find_ge: "- 1 \<le> py_find s sub"
  by (induction s) (auto simp: Let_def)

lemma py_find_sublist: "py_find s sub = - 1 \<longleftrightarrow> \<not> sublist sub s"
proof (induction s)
  case Nil
  then show ?case by simp
next
  case (Cons c cs)
  have "py_find cs sub + 1 \<noteq> - 1" using py_find_ge [of cs sub] by arith
  then show ?case using Cons by (auto simp: Let_def sublist_Cons_right)
qed

lemma py_find_contains:
  "py_find s sub = - 1 \<longleftrightarrow> \<not> (\<exists>pre suf. s = pre @ sub @ suf)"
  by (simp add: py_find_sublist sublist_def)

text \<open>
  Claim C9. \<^verbatim>\<open>_deleteTemporaryDirectory(None)\<close> returns at once and changes nothing. For a
  working directory whose parent path (the head of \<^verbatim>\<open>os.path.split\<close>) does not contain
  \<^verbatim>\<open>tmp-simulator-\<close>, it writes one error message and leaves the files as they are.
\<close>

theorem deleteTemporaryDirectory_guard:
  "deleteTemporaryDirectory None w = (Inr (), w)
   \<and> ((\<nexists>pre suf. fst (os_path_split wd) = pre @ ''tmp-simulator-'' @ suf) \<longrightarrow>
        deleteTemporaryDirectory (Some wd) w
          = (Inr (), w\<lparr>reported := reported w
                @ [''Failed to delete '' @ apos @ fst (os_path_split wd) @ apos
                   @ '' as it does not seem to be a valid directory name.'']\<rparr>)
        \<and> files (snd (deleteTemporaryDirectory (Some wd) w)) = files w
        \<and> spawned (snd (deleteTemporaryDirectory (Some wd) w)) = spawned w)"
  by (simp add: deleteTemporaryDirectory_def Let_def py_find_contains writeError_def)

lemma split_Pkg: "os_path_split ''/lib/Pkg'' = (''/lib'', ''Pkg'')"
  by (simp add: os_path_split_def Let_def sep_def py_rstrip_def)

text \<open>The package directory itself is such a path: its parent \<^verbatim>\<open>/lib\<close> is kept.\<close>

theorem deleteTemporaryDirectory_guard_witness:
  "(\<nexists>pre suf. fst (os_path_split ''/lib/Pkg'') = pre @ ''tmp-simulator-'' @ suf)
   \<and> deleteTemporaryDirectory (Some ''/lib/Pkg'') ex_world
       = (Inr (), ex_world\<lparr>reported :=
            [''Failed to delete '' @ apos @ ''/lib'' @ apos
             @ '' as it does not seem to be a valid directory name.'']\<rparr>)
   \<and> files (snd (deleteTemporaryDirectory (Some ''/lib/Pkg'') ex_world)) = ex_files"
proof -
  have "py_find ''/lib'' ''tmp-simulator-'' = - 1" by simp
  then have "\<nexists>pre suf. ''/lib'' = pre @ ''tmp-simulator-'' @ suf"
    unfolding py_find_contains .
  then have h: "\<nexists>pre suf. fst (os_path_split ''/lib/Pkg'') = pre @ ''tmp-simulator-'' @ suf"
    unfolding split_Pkg fst_conv .
  show ?thesis
    using h deleteTemporaryDirectory_guard [of ex_world "''/lib/Pkg''"]
    by (simp add: split_Pkg ex_world_def)
qed

section \<open>Creating the working directory\<close>

lemma py_rstrip_snoc_sep: "py_rstrip c (xs @ [c]) = py_rstrip c xs"
  by (simp add: py_rstrip_def)

lemma py_rstrip_idem: "py_rstrip c (py_rstrip c xs) = py_rstrip c xs"
  by (simp add: py_rstrip_def)

lemma py_rstrip_keep:
  assumes "x \<noteq> c"
  shows "py_rstrip c (xs @ x # ys) = xs @ x # py_rstrip c ys"
proof (cases "\<forall>y\<in>set ys. y = c")
  case True
  then have "dropWhile (\<lambda>y. y = c) (rev ys @ x # rev xs) = x # rev xs"
    using assms by (simp add: dropWhile_append)
  moreover have "dropWhile (\<lambda>y. y = c) (rev ys) = []" using True by simp
  ultimately show ?thesis by (simp add: py_rstrip_def)
next
  case False
  then have "dropWhile (\<lambda>y. y = c) (rev ys @ x # rev xs)
               = dropWhile (\<lambda>y. y = c) (rev ys) @ x # rev xs"
    by (auto simp: dropWhile_append)
  then show ?thesis by (simp add: py_rstrip_def)
qed

lemma os_path_join_eq:
  "b = [] \<or> hd b \<noteq> sep \<Longrightarrow>
     os_path_join a b = (if a = [] \<or> last a = sep then a else a @ [sep]) @ b"
  by (auto simp: os_path_join_def)

lemma os_path_split_dir:
  assumes "sep \<notin> set d" and "x \<noteq> []" and "last x = sep"
  shows "os_path_split (x @ d)
           = ((if x \<noteq> replicate (length x) sep then py_rstrip sep x else x), d)"
proof -
  from assms(2,3) obtain y where x: "x = y @ [sep]"
    by (metis append_butlast_last_id)
  have all: "\<forall>z\<in>set (rev d). z \<noteq> sep" using assms(1) by auto
  have "dropWhile (\<lambda>z. z \<noteq> sep) (rev d @ rev x) = dropWhile (\<lambda>z. z \<noteq> sep) (rev x)"
    using all by (simp add: dropWhile_append)
  then have "dropWhile (\<lambda>z. z \<noteq> sep) (rev (x @ d)) = rev x"
    by (simp add: x)
  moreover have "takeWhile (\<lambda>z. z \<noteq> sep) (rev d @ rev x) = rev d"
    using all by (simp add: takeWhile_append x)
  then have "takeWhile (\<lambda>z. z \<noteq> sep) (rev (x @ d)) = rev d"
    by simp
  ultimately show ?thesis using assms(2) by (simp add: os_path_split_def Let_def)
qed

text \<open>The temporary directory \<open>tmp\<close> that \<^verbatim>\<open>mkdtemp\<close> returns for a prefix that ends in a
  character other than the separator, and a working directory directly below it.\<close>

lemma parent_of_worDir:
  assumes d: "sep \<notin> set d"
    and tmp: "tmp = os_path_join td (pfx @ CHR ''-'' # name)"
    and pfx: "pfx \<noteq> []" "hd pfx \<noteq> sep"
  shows "fst (os_path_split (os_path_join tmp d)) = py_rstrip sep tmp"
    and "\<exists>a. py_rstrip sep tmp = a @ pfx @ CHR ''-'' # py_rstrip sep name"
    and "resolve (py_rstrip sep tmp) = resolve tmp"
proof -
  let ?a = "if td = [] \<or> last td = sep then td else td @ [sep]"
  have "hd (pfx @ CHR ''-'' # name) \<noteq> sep" using pfx by simp
  then have tmp_eq: "tmp = ?a @ pfx @ CHR ''-'' # name"
    unfolding tmp by (subst os_path_join_eq) auto
  have dash: "CHR ''-'' \<noteq> sep" by (simp add: sep_def)
  have strip: "py_rstrip sep tmp = (?a @ pfx) @ CHR ''-'' # py_rstrip sep name"
    unfolding tmp_eq using py_rstrip_keep [OF dash, of "?a @ pfx" name] by simp
  then show "\<exists>a. py_rstrip sep tmp = a @ pfx @ CHR ''-'' # py_rstrip sep name"
    by (intro exI[of _ ?a]) simp
  have ne: "py_rstrip sep tmp \<noteq> []" using strip by simp
  then show "resolve (py_rstrip sep tmp) = resolve tmp"
    by (simp add: resolve_def py_rstrip_idem)
  have tmp_ne: "tmp \<noteq> []" using tmp_eq by simp
  let ?x = "if last tmp = sep then tmp else tmp @ [sep]"
  have "d = [] \<or> hd d \<noteq> sep" using d by (cases d) auto
  then have wd: "os_path_join tmp d = ?x @ d"
    using tmp_ne by (subst os_path_join_eq) auto
  have x_ne: "?x \<noteq> []" and x_last: "last ?x = sep" using tmp_ne by auto
  have "CHR ''-'' \<in> set ?x" using tmp_eq by auto
  then have "?x \<noteq> replicate (length ?x) sep"
    using dash by (metis in_set_replicate)
  then have "fst (os_path_split (?x @ d)) = py_rstrip sep ?x"
    using os_path_split_dir [OF d x_ne x_last] by simp
  also have "\<dots> = py_rstrip sep tmp" by (simp add: py_rstrip_snoc_sep)
  finally show "fst (os_path_split (os_path_join tmp d)) = py_rstrip sep tmp"
    unfolding wd .
qed

lemma mkdtemp_loop_Some:
  "mkdtemp_loop fs dir pfx names = Some file \<Longrightarrow>
     \<exists>name\<in>set names. file = os_path_join dir (pfx @ name) \<and> fs (resolve file) = None"
  by (induction names) (auto simp: Let_def split: if_splits)

lemma create_worDir_Inr:
  assumes "create_worDir env self w = (Inr worDir, w1)"
  shows "\<exists>pp tmp name.
           packagePath self = Some pp \<and> name \<in> set (candidate_names env)
           \<and> tmp = os_path_join (gettempdir env) (''tmp-simulator-'' @ getuser env @ ''-'' @ name)
           \<and> worDir = os_path_join tmp (last (py_split sep (abspath env pp)))
           \<and> files w (resolve tmp) = None
           \<and> w1 = w\<lparr>files := (files w)(resolve tmp \<mapsto> Dir)\<rparr>"
proof -
  from assms obtain pp where pp: "packagePath self = Some pp"
    by (auto simp: create_worDir_def split: option.splits)
  let ?d = "last (py_split sep (abspath env pp))"
  from assms pp obtain tmp where
    loop: "mkdtemp_loop (files w) (gettempdir env) (''tmp-simulator-'' @ getuser env @ ''-'')
             (candidate_names env) = Some tmp"
    and res: "worDir = os_path_join tmp ?d" "w1 = w\<lparr>files := (files w)(resolve tmp \<mapsto> Dir)\<rparr>"
    by (auto simp: create_worDir_def Let_def py_index_last py_split_not_Nil tempfile_mkdtemp_def
             split: option.splits)
  from mkdtemp_loop_Some [OF loop] obtain name where
    "name \<in> set (candidate_names env)"
    "tmp = os_path_join (gettempdir env) ((''tmp-simulator-'' @ getuser env @ ''-'') @ name)"
    "files w (resolve tmp) = None" by blast
  with pp res show ?thesis by auto
qed

lemma delete_tree_removes:
  assumes "os_path_exists (files w) worDir" and "files w (resolve dirNam) = Some Dir"
  shows "delete_tree worDir dirNam w
           = (Inr (), w\<lparr>files := (\<lambda>q. if q = resolve dirNam \<or> below (resolve dirNam) q \<noteq> None
                                       then None else files w q)\<rparr>)"
  using assms by (simp add: delete_tree_def shutil_rmtree_def)

lemma delete_tree_returns:
  "\<exists>w'. delete_tree worDir dirNam w = (Inr (), w') \<and> spawned w' = spawned w"
  by (auto simp: delete_tree_def shutil_rmtree_def concat_strerror_def writeError_def
           split: option.splits node.splits)

lemma deleteTemporaryDirectory_returns:
  "\<exists>w'. deleteTemporaryDirectory x w = (Inr (), w') \<and> spawned w' = spawned w"
  using delete_tree_returns
  by (auto simp: deleteTemporaryDirectory_def Let_def writeError_def split: option.splits)

lemma resolve_tmp [simp]: "resolve ''/tmp/tmp-simulator-u-a1'' = ''/tmp/tmp-simulator-u-a1''"
  by (simp add: resolve_def py_rstrip_def sep_def)

lemma resolve_wd [simp]: "resolve ''/tmp/tmp-simulator-u-a1/Pkg'' = ''/tmp/tmp-simulator-u-a1/Pkg''"
  by (simp add: resolve_def py_rstrip_def sep_def)

lemma ex_create_worDir:
  "create_worDir ex_env ex_base ex_world
     = (Inr ''/tmp/tmp-simulator-u-a1/Pkg'',
        ex_world\<lparr>files := ex_files(''/tmp/tmp-simulator-u-a1'' \<mapsto> Dir)\<rparr>)"
  by (simp add: create_worDir_def ex_base_def ex_env_def Let_def py_index_def sep_def
        tempfile_mkdtemp_def os_path_join_def ex_world_def ex_files_def)

lemma split_wd:
  "os_path_split ''/tmp/tmp-simulator-u-a1/Pkg'' = (''/tmp/tmp-simulator-u-a1'', ''Pkg'')"
  by (simp add: os_path_split_def Let_def sep_def py_rstrip_def)

text \<open>
  Claim C4, as amended. Every path \<^verbatim>\<open>_create_worDir\<close> returns is the last component of
  the absolute package path joined to a directory \<open>tmp\<close> that did not exist before the call
  and exists after it, named \<^verbatim>\<open>tmp-simulator-\<close>, the user name, a dash and a random name,
  in the directory for temporary files. The call creates \<open>tmp\<close> and nothing else: the
  returned working directory itself is not created. The parent path of the result contains
  \<^verbatim>\<open>tmp-simulator-\<close> followed by the user name and names the directory \<open>tmp\<close>, so
  \<^verbatim>\<open>_deleteTemporaryDirectory\<close>, called on the result in any world, takes its deletion
  branch and never the error branch. That branch is guarded by the existence of the working
  directory: when the working directory exists and \<open>tmp\<close> is a directory, \<open>tmp\<close> is removed
  with all below it; when the working directory does not exist, nothing is removed and
  nothing is reported. The latter is the case directly after \<^verbatim>\<open>_create_worDir\<close>, unless
  something was already recorded at the path of the working directory.
\<close>

theorem create_worDir_then_delete:
  assumes "create_worDir env self w = (Inr worDir, w1)"
  shows "\<exists>pp tmp name.
           packagePath self = Some pp \<and> name \<in> set (candidate_names env)
           \<and> tmp = os_path_join (gettempdir env) (''tmp-simulator-'' @ getuser env @ ''-'' @ name)
           \<and> worDir = os_path_join tmp (last (py_split sep (abspath env pp)))
           \<and> files w (resolve tmp) = None
           \<and> w1 = w\<lparr>files := (files w)(resolve tmp \<mapsto> Dir)\<rparr>
           \<and> (\<exists>a b. fst (os_path_split worDir) = a @ ''tmp-simulator-'' @ getuser env @ b)
           \<and> resolve (fst (os_path_split worDir)) = resolve tmp
           \<and> (\<forall>w2. deleteTemporaryDirectory (Some worDir) w2
                      = delete_tree worDir (fst (os_path_split worDir)) w2
                  \<and> (os_path_exists (files w2) worDir \<and> files w2 (resolve tmp) = Some Dir \<longrightarrow>
                       deleteTemporaryDirectory (Some worDir) w2
                         = (Inr (), w2\<lparr>files := (\<lambda>q. if q = resolve tmp \<or> below (resolve tmp) q \<noteq> None
                                                      then None else files w2 q)\<rparr>))
                  \<and> (\<not> os_path_exists (files w2) worDir \<longrightarrow>
                       deleteTemporaryDirectory (Some worDir) w2 = (Inr (), w2)))
           \<and> (files w (resolve worDir) = None \<and> resolve worDir \<noteq> resolve tmp \<longrightarrow>
                 deleteTemporaryDirectory (Some worDir) w1 = (Inr (), w1)
                 \<and> files w1 (resolve tmp) = Some Dir)"
proof -
  from create_worDir_Inr [OF assms] obtain pp tmp name where
    c: "packagePath self = Some pp" "name \<in> set (candidate_names env)"
       "tmp = os_path_join (gettempdir env) (''tmp-simulator-'' @ getuser env @ ''-'' @ name)"
       "worDir = os_path_join tmp (last (py_split sep (abspath env pp)))"
       "files w (resolve tmp) = None" "w1 = w\<lparr>files := (files w)(resolve tmp \<mapsto> Dir)\<rparr>"
    by blast
  let ?pfx = "''tmp-simulator-'' @ getuser env"
  let ?dirNam = "fst (os_path_split worDir)"
  have d: "sep \<notin> set (last (py_split sep (abspath env pp)))" by (rule py_split_last_no_sep)
  have tmp: "tmp = os_path_join (gettempdir env) (?pfx @ CHR ''-'' # name)"
    using c(3) by simp
  have pfx: "?pfx \<noteq> []" "hd ?pfx \<noteq> sep" by (simp_all add: sep_def)
  note p = parent_of_worDir [OF d tmp pfx]
  from p(2) obtain a where a: "py_rstrip sep tmp = a @ ?pfx @ CHR ''-'' # py_rstrip sep name"
    by blast
  have head: "?dirNam = a @ ?pfx @ CHR ''-'' # py_rstrip sep name"
    using p(1) a c(4) by simp
  then have contains: "\<exists>a b. ?dirNam = a @ ''tmp-simulator-'' @ getuser env @ b"
    by (metis append_assoc)
  have "\<exists>pre suf. ?dirNam = pre @ ''tmp-simulator-'' @ suf"
    using head by (metis append_assoc)
  then have found: "py_find ?dirNam ''tmp-simulator-'' \<noteq> - 1"
    by (simp only: py_find_contains not_not)
  have branch: "deleteTemporaryDirectory (Some worDir) w2 = delete_tree worDir ?dirNam w2" for w2
    using found by (simp add: deleteTemporaryDirectory_def Let_def)
  have parent: "resolve ?dirNam = resolve tmp"
    using p(1,3) c(4) by simp
  have removes: "deleteTemporaryDirectory (Some worDir) w2
                   = (Inr (), w2\<lparr>files := (\<lambda>q. if q = resolve tmp \<or> below (resolve tmp) q \<noteq> None
                                                then None else files w2 q)\<rparr>)"
    if "os_path_exists (files w2) worDir" "files w2 (resolve tmp) = Some Dir" for w2
    using delete_tree_removes [of w2 worDir ?dirNam] that by (simp add: branch parent)
  have keeps: "deleteTemporaryDirectory (Some worDir) w2 = (Inr (), w2)"
    if "\<not> os_path_exists (files w2) worDir" for w2
    using that by (simp add: branch delete_tree_def)
  have del: "\<forall>w2. deleteTemporaryDirectory (Some worDir) w2 = delete_tree worDir ?dirNam w2
                  \<and> (os_path_exists (files w2) worDir \<and> files w2 (resolve tmp) = Some Dir \<longrightarrow>
                       deleteTemporaryDirectory (Some worDir) w2
                         = (Inr (), w2\<lparr>files := (\<lambda>q. if q = resolve tmp \<or> below (resolve tmp) q \<noteq> None
                                                      then None else files w2 q)\<rparr>))
                  \<and> (\<not> os_path_exists (files w2) worDir \<longrightarrow>
                       deleteTemporaryDirectory (Some worDir) w2 = (Inr (), w2))"
    using branch removes keeps by blast
  have after: "files w (resolve worDir) = None \<and> resolve worDir \<noteq> resolve tmp \<longrightarrow>
                 deleteTemporaryDirectory (Some worDir) w1 = (Inr (), w1)
                 \<and> files w1 (resolve tmp) = Some Dir"
  proof (intro impI conjI)
    assume h: "files w (resolve worDir) = None \<and> resolve worDir \<noteq> resolve tmp"
    then have "\<not> os_path_exists (files w1) worDir" by (simp add: os_path_exists_def c(6))
    then show "deleteTemporaryDirectory (Some worDir) w1 = (Inr (), w1)" by (rule keeps)
    show "files w1 (resolve tmp) = Some Dir" by (simp add: c(6))
  qed
  show ?thesis
    by (rule exI [of _ pp], rule exI [of _ tmp], rule exI [of _ name])
       (intro conjI c contains parent del after)
qed

text \<open>On the example machine the working directory is \<^verbatim>\<open>/tmp/tmp-simulator-u-a1/Pkg\<close>.
  Once \<^verbatim>\<open>os.mkdir\<close> has created it, deleting removes \<^verbatim>\<open>/tmp/tmp-simulator-u-a1\<close> and all
  below it; before that, deleting changes nothing.\<close>

theorem create_worDir_then_delete_witness:
  "create_worDir ex_env ex_base ex_world
     = (Inr ''/tmp/tmp-simulator-u-a1/Pkg'',
        ex_world\<lparr>files := ex_files(''/tmp/tmp-simulator-u-a1'' \<mapsto> Dir)\<rparr>)
   \<and> ex_files ''/tmp/tmp-simulator-u-a1'' = None
   \<and> fst (os_path_split ''/tmp/tmp-simulator-u-a1/Pkg'') = ''/tmp/tmp-simulator-u-a1''
   \<and> lift_fs (os_mkdir ''/tmp/tmp-simulator-u-a1/Pkg'' (ex_files(''/tmp/tmp-simulator-u-a1'' \<mapsto> Dir)))
        (ex_world\<lparr>files := ex_files(''/tmp/tmp-simulator-u-a1'' \<mapsto> Dir)\<rparr>)
       = (Inr (), ex_world\<lparr>files := ex_files(''/tmp/tmp-simulator-u-a1'' \<mapsto> Dir,
                                               ''/tmp/tmp-simulator-u-a1/Pkg'' \<mapsto> Dir)\<rparr>)
   \<and> deleteTemporaryDirectory (Some ''/tmp/tmp-simulator-u-a1/Pkg'')
        (ex_world\<lparr>files := ex_files(''/tmp/tmp-simulator-u-a1'' \<mapsto> Dir,
                                     ''/tmp/tmp-simulator-u-a1/Pkg'' \<mapsto> Dir)\<rparr>)
       = (Inr (), ex_world\<lparr>files := (\<lambda>q. if q = ''/tmp/tmp-simulator-u-a1''
                                             \<or> below ''/tmp/tmp-simulator-u-a1'' q \<noteq> None
                                          then None
                                          else (ex_files(''/tmp/tmp-simulator-u-a1'' \<mapsto> Dir,
                                                  ''/tmp/tmp-simulator-u-a1/Pkg'' \<mapsto> Dir)) q)\<rparr>)
   \<and> deleteTemporaryDirectory (Some ''/tmp/tmp-simulator-u-a1/Pkg'')
        (ex_world\<lparr>files := ex_files(''/tmp/tmp-simulator-u-a1'' \<mapsto> Dir)\<rparr>)
       = (Inr (), ex_world\<lparr>files := ex_files(''/tmp/tmp-simulator-u-a1'' \<mapsto> Dir)\<rparr>)"
proof -
  let ?wd = "''/tmp/tmp-simulator-u-a1/Pkg''"
  let ?fs1 = "ex_files(''/tmp/tmp-simulator-u-a1'' \<mapsto> Dir)"
  let ?fs2 = "ex_files(''/tmp/tmp-simulator-u-a1'' \<mapsto> Dir, ''/tmp/tmp-simulator-u-a1/Pkg'' \<mapsto> Dir)"
  let ?w1 = "ex_world\<lparr>files := ?fs1\<rparr>"
  let ?w2 = "ex_world\<lparr>files := ?fs2\<rparr>"
  have fresh: "ex_files ''/tmp/tmp-simulator-u-a1'' = None" by (simp add: ex_files_def)
  have parent: "fst (os_path_split ?wd) = ''/tmp/tmp-simulator-u-a1''"
    by (simp add: split_wd)
  have mk: "lift_fs (os_mkdir ?wd ?fs1) ?w1 = (Inr (), ?w2)"
    by (simp add: lift_fs_def os_mkdir_def ex_files_def)
  from create_worDir_then_delete [OF ex_create_worDir] obtain tmp where
    t: "resolve (fst (os_path_split ?wd)) = resolve tmp"
    and r: "os_path_exists (files ?w2) ?wd \<and> files ?w2 (resolve tmp) = Some Dir \<longrightarrow>
              deleteTemporaryDirectory (Some ?wd) ?w2
                = (Inr (), ?w2\<lparr>files := (\<lambda>q. if q = resolve tmp \<or> below (resolve tmp) q \<noteq> None
                                              then None else files ?w2 q)\<rparr>)"
    and k: "\<not> os_path_exists (files ?w1) ?wd \<longrightarrow>
              deleteTemporaryDirectory (Some ?wd) ?w1 = (Inr (), ?w1)"
    by blast
  have tmp: "resolve tmp = ''/tmp/tmp-simulator-u-a1''" using t by (simp add: parent)
  have "os_path_exists (files ?w2) ?wd \<and> files ?w2 (resolve tmp) = Some Dir"
    by (simp add: os_path_exists_def tmp)
  with r have "deleteTemporaryDirectory (Some ?wd) ?w2
                = (Inr (), ?w2\<lparr>files := (\<lambda>q. if q = resolve tmp \<or> below (resolve tmp) q \<noteq> None
                                              then None else files ?w2 q)\<rparr>)"
    by (rule mp)
  then have del: "deleteTemporaryDirectory (Some ?wd) ?w2
          = (Inr (), ex_world\<lparr>files := (\<lambda>q. if q = ''/tmp/tmp-simulator-u-a1''
                                            \<or> below ''/tmp/tmp-simulator-u-a1'' q \<noteq> None
                                         then None else ?fs2 q)\<rparr>)"
    unfolding tmp by (simp cong: if_cong)
  have "\<not> os_path_exists (files ?w1) ?wd"
    by (simp add: os_path_exists_def ex_files_def)
  with k have keep: "deleteTemporaryDirectory (Some ?wd) ?w1 = (Inr (), ?w1)" by (rule mp)
  from ex_create_worDir fresh parent mk del keep show ?thesis by (intro conjI)
qed

text \<open>
  Claim C4 as stated fails on the example machine: create and delete do not round-trip.
  For the object that the base constructor builds there, \<^verbatim>\<open>_create_worDir\<close> creates
  \<^verbatim>\<open>/tmp/tmp-simulator-u-a1\<close> and returns \<^verbatim>\<open>/tmp/tmp-simulator-u-a1/Pkg\<close>, which does not
  exist; \<^verbatim>\<open>_deleteTemporaryDirectory\<close>, applied to that path in the world the creation
  has left, takes its deletion branch, finds that the working directory does not exist,
  and returns without removing the parent: \<^verbatim>\<open>/tmp/tmp-simulator-u-a1\<close> is still there.
\<close>

theorem create_worDir_then_delete_counterexample:
  "BaseSimulator_init ex_env ''aa.bb.cc'' ''.'' (Some ''/lib/Pkg'') ex_world = (Inr ex_base, ex_world)
   \<and> create_worDir ex_env ex_base ex_world
       = (Inr ''/tmp/tmp-simulator-u-a1/Pkg'',
          ex_world\<lparr>files := ex_files(''/tmp/tmp-simulator-u-a1'' \<mapsto> Dir)\<rparr>)
   \<and> deleteTemporaryDirectory (Some ''/tmp/tmp-simulator-u-a1/Pkg'')
        (ex_world\<lparr>files := ex_files(''/tmp/tmp-simulator-u-a1'' \<mapsto> Dir)\<rparr>)
       = (Inr (), ex_world\<lparr>files := ex_files(''/tmp/tmp-simulator-u-a1'' \<mapsto> Dir)\<rparr>)
   \<and> ex_files ''/tmp/tmp-simulator-u-a1'' = None
   \<and> (ex_files(''/tmp/tmp-simulator-u-a1'' \<mapsto> Dir)) ''/tmp/tmp-simulator-u-a1'' = Some Dir"
proof -
  have "deleteTemporaryDirectory (Some ''/tmp/tmp-simulator-u-a1/Pkg'')
        (ex_world\<lparr>files := ex_files(''/tmp/tmp-simulator-u-a1'' \<mapsto> Dir)\<rparr>)
       = (Inr (), ex_world\<lparr>files := ex_files(''/tmp/tmp-simulator-u-a1'' \<mapsto> Dir)\<rparr>)"
    by (simp add: deleteTemporaryDirectory_def split_wd Let_def delete_tree_def
          os_path_exists_def ex_files_def)
  moreover have "ex_files ''/tmp/tmp-simulator-u-a1'' = None" by (simp add: ex_files_def)
  ultimately show ?thesis using ex_init ex_create_worDir by simp
qed

section \<open>Checking the simulator log\<close>

text \<open>
  Claim C3. \<^verbatim>\<open>_check_simulation_errors\<close> hands \<^verbatim>\<open>simulator.log\<close> in the working directory
  to the scraper. When the scraper returns its report, the method raises \<^verbatim>\<open>IOError\<close> if
  and only if the report lists at least one error, after writing every listed line to
  the reporter in order; with an empty list it returns and changes nothing. In
  \<^verbatim>\<open>Dymola.simulate\<close> this check follows the run of the simulator: when the run has
  succeeded, the \<^verbatim>\<open>try\<close> body ends with that \<^verbatim>\<open>IOError\<close> or goes on to copy the new
  files.
\<close>

theorem check_simulation_errors_iff:
  assumes "get_errors_and_warnings D (os_path_join worDir ''simulator.log'') ''dymola'' (files w)
             = Inr errs"
  shows "check_simulation_errors D worDir w
           = (if errs = [] then (Inr (), w)
              else (Inl (IOError [] None), w\<lparr>reported := reported w @ errs\<rparr>))
         \<and> ((\<exists>m s w'. check_simulation_errors D worDir w = (Inl (IOError m s), w'))
              \<longleftrightarrow> errs \<noteq> [])
         \<and> (Dymola_write_and_run P self worDir ''run.mos'' ''simulator.log'' mi False w0
               = (Inr (), w) \<longrightarrow>
             Dymola_simulate_try P D self worDir mi w0
               = (if errs = []
                  then then_do (run_effect (copyNewFiles D self worDir) w)
                         (\<lambda>_. deleteTemporaryDirectory (Some worDir))
                  else (Inl (IOError [] None), w\<lparr>reported := reported w @ errs\<rparr>)))"
  using assms
  by (simp add: check_simulation_errors_def Let_def Dymola_simulate_try_def then_do_def)

lemma ex_scrape_error:
  "get_errors_and_warnings ex_dymola_env (os_path_join ''/run'' ''simulator.log'') ''dymola''
     (files (ex_world\<lparr>files := ex_files(''/run/simulator.log'' \<mapsto> File ''Error: singular'')\<rparr>))
     = Inr [''Error: singular'']"
  by (simp add: ex_dymola_env_def ex_scraper_def os_path_join_def sep_def resolve_def
        py_rstrip_def)

lemma ex_scrape_clean:
  "get_errors_and_warnings ex_dymola_env (os_path_join ''/run'' ''simulator.log'') ''dymola''
     (files (ex_world\<lparr>files := ex_files(''/run/simulator.log'' \<mapsto> File ''Finished'')\<rparr>))
     = Inr []"
  by (simp add: ex_dymola_env_def ex_scraper_def os_path_join_def sep_def resolve_def
        py_rstrip_def)

text \<open>A log with an error line and a clean log.\<close>

theorem check_simulation_errors_iff_witness:
  "check_simulation_errors ex_dymola_env ''/run''
     (ex_world\<lparr>files := ex_files(''/run/simulator.log'' \<mapsto> File ''Error: singular'')\<rparr>)
     = (Inl (IOError [] None),
        ex_world\<lparr>files := ex_files(''/run/simulator.log'' \<mapsto> File ''Error: singular''),
                  reported := [''Error: singular'']\<rparr>)
   \<and> check_simulation_errors ex_dymola_env ''/run''
       (ex_world\<lparr>files := ex_files(''/run/simulator.log'' \<mapsto> File ''Finished'')\<rparr>)
     = (Inr (), ex_world\<lparr>files := ex_files(''/run/simulator.log'' \<mapsto> File ''Finished'')\<rparr>)"
  using check_simulation_errors_iff [OF ex_scrape_error]
        check_simulation_errors_iff [OF ex_scrape_clean]
  by (simp add: ex_world_def)

section \<open>The generated Dymola script\<close>

lemma unlines_append: "unlines (xs @ ys) = unlines xs @ unlines ys"
  by (simp add: unlines_def)

lemma unlines_Cons: "unlines (x # xs) = x @ nl @ unlines xs"
  by (simp add: unlines_def)

lemma unlines_Nil: "unlines [] = []"
  by (simp add: unlines_def)

lemma intervals_eq:
  "(if k \<in> dom d then s @ py_str (dict_get d k) else [])
     = (case d k of None \<Rightarrow> [] | Some n \<Rightarrow> s @ py_str n)"
  by (auto simp: dict_get_def dom_def split: option.splits)

text \<open>
  What \<^verbatim>\<open>_get_dymola_commands\<close> returns in every state: with \<^verbatim>\<open>_exitSimulator\<close> assigned,
  the script is the sequence of lines described above, the exit statement being there
  exactly when the attribute is true; with the attribute never assigned, reading it
  raises \<^verbatim>\<open>AttributeError\<close>.
\<close>

lemma get_dymola_commands_lines:
  "get_dymola_commands self wd log_file mn translate_only
     = (case exitSimulator_attr self of
          None \<Rightarrow> Inl (no_attribute ''_exitSimulator'')
        | Some flag \<Rightarrow>
            Inr (unlines (script_lines self wd log_file mn translate_only (truthy flag))))"
proof (cases "exitSimulator_attr self")
  case None
  then show ?thesis by (simp add: get_dymola_commands_def Let_def)
next
  case (Some flag)
  show ?thesis
  proof (cases translate_only)
    case True
    with Some show ?thesis
      by (simp add: get_dymola_commands_def script_lines_def Let_def unlines_def)
  next
    case False
    with Some show ?thesis
      by (simp add: get_dymola_commands_def script_lines_def simulateModel_line_def Let_def
            unlines_def intervals_eq del: py_str.simps)
  qed
qed

lemma ex_fresh_dymola_eq: "Dymola_init_tail ex_base ''aa.bb.cc'' = Inr ex_fresh_dymola"
  by (simp add: ex_fresh_dymola_def Dymola_init_tail_def Let_def py_index_def setResultFile_eq)

lemma ex_fresh_dymola_attr: "exitSimulator_attr ex_fresh_dymola = None"
  by (simp add: ex_fresh_dymola_def Dymola_init_tail_def Let_def py_index_def setResultFile_eq
        setSolver_def setStartTime_def setStopTime_def base_simulator.defs dymola.defs)


lemma ex_dymola_fields:
  "packagePath ex_dymola = Some ''/lib/Pkg''"
  "modelName ex_dymola = ''aa.bb.cc''"
  "simulator ex_dymola ''resultFile'' = Some (PyStr ''cc'')"
  "simulator ex_dymola ''timeout'' = Some (PyInt (- 1))"
  "MODELICA_EXE ex_dymola = PyStr ''dymola''"
  "showGUI_attr ex_dymola = PyBool False"
  "exitSimulator_attr ex_dymola = Some (PyBool True)"
  "modelModifiers ex_dymola = Some []"
  "preProcessing ex_dymola = []"
  "postProcessing ex_dymola = []"
  by (simp_all add: ex_dymola_def exitSimulator_def ex_fresh_dymola_def Dymola_init_tail_def
        Let_def py_index_def setResultFile_eq setSolver_def setStartTime_def setStopTime_def
        base_simulator.defs dymola.defs ex_base_def)



section \<open>Running the simulator\<close>

subsection \<open>Steps that start no process\<close>

lemma lift_fs_spawned: "lift_fs r w = (x, w') \<Longrightarrow> spawned w' = spawned w"
  by (auto simp: lift_fs_def split: sum.splits)

lemma run_effect_spawned: "run_effect f w = (x, w') \<Longrightarrow> spawned w' = spawned w"
  by (auto simp: run_effect_def split: prod.splits)

lemma deleteFiles_spawned: "deleteFiles fl w = (x, w') \<Longrightarrow> spawned w' = spawned w"
proof (induction fl arbitrary: w)
  case Nil
  then show ?case by simp
next
  case (Cons fil fl)
  show ?case
  proof (cases "if os_path_exists (files w) fil then os_remove fil (files w) else Inr (files w)")
    case (Inr fs')
    with Cons.prems have "deleteFiles fl (w\<lparr>files := fs'\<rparr>) = (x, w')" by simp
    from Cons.IH [OF this] show ?thesis by simp
  next
    case (Inl e)
    show ?thesis
    proof (cases e)
      case (IOError m strerror)
      show ?thesis
      proof (cases strerror)
        case None
        with Inl IOError Cons.prems show ?thesis by (simp add: concat_strerror_def)
      next
        case (Some t)
        with Inl IOError Cons.prems
        have "deleteFiles fl (writeError (''Failed to delete '' @ apos @ fil @ apos @ '' : '' @ t) w)
                = (x, w')"
          by (simp add: concat_strerror_def)
        from Cons.IH [OF this] show ?thesis by (simp add: writeError_def)
      qed
    qed (use Inl Cons.prems in auto)
  qed
qed

lemma create_worDir_spawned: "create_worDir env self w = (x, w') \<Longrightarrow> spawned w' = spawned w"
  by (auto simp: create_worDir_def Let_def split: option.splits sum.splits prod.splits)

lemma check_simulation_errors_spawned:
  "check_simulation_errors D worDir w = (x, w') \<Longrightarrow> spawned w' = spawned w"
  by (auto simp: check_simulation_errors_def Let_def split: sum.splits if_splits)

lemma then_do_cases:
  assumes "then_do m f = (x, w')"
  obtains (raised) e where "m = (Inl e, w')" "x = Inl e"
        | (went_on) y w1 where "m = (Inr y, w1)" "f y w1 = (x, w')"
  using assms by (auto simp: then_do_def split: prod.splits sum.splits)

lemma Dymola_deleteOutputFiles_spawned:
  assumes "Dymola_deleteOutputFiles D self w = (x, w')"
  shows "spawned w' = spawned w"
  using assms unfolding Dymola_deleteOutputFiles_def
proof (cases rule: then_do_cases)
  case (raised e)
  then show ?thesis by (simp add: run_effect_spawned)
next
  case (went_on y w1)
  from went_on(1) have "spawned w1 = spawned w" by (rule run_effect_spawned)
  moreover from went_on(2) have "spawned w' = spawned w1"
    by (cases "str_plus (dict_get (simulator self) ''resultFile'') ''_result.mat''")
       (auto dest: deleteFiles_spawned simp del: deleteFiles.simps)
  ultimately show ?thesis by simp
qed

lemma Dymola_worDir_Inr:
  assumes "Dymola_worDir env D self w = (Inr worDir, w1)"
  obtains w0 where "Dymola_deleteOutputFiles D self w = (Inr (), w0)"
    and "create_worDir env self w0 = (Inr worDir, w1)"
  using assms unfolding Dymola_worDir_def
  by (cases rule: then_do_cases) auto

lemma Dymola_worDir_spawned:
  assumes "Dymola_worDir env D self w = (x, w')"
  shows "spawned w' = spawned w"
  using assms unfolding Dymola_worDir_def
proof (cases rule: then_do_cases)
  case (raised e)
  then show ?thesis by (simp add: Dymola_deleteOutputFiles_spawned)
next
  case (went_on y w1)
  then show ?thesis
    using Dymola_deleteOutputFiles_spawned create_worDir_spawned by metis
qed


lemma Dymola_copy_spawned:
  "Dymola_copy env D self worDir patterns w = (x, w') \<Longrightarrow> spawned w' = spawned w"
  by (auto simp: Dymola_copy_def then_do_def lift_fs_def split: option.splits sum.splits)

subsection \<open>The run\<close>

lemma base_runSimulation_spawned:
  "base_runSimulation P cmd timeout directory w = (x, w') \<Longrightarrow>
     spawned w' = spawned w @ [(cmd, directory, files w)]"
  by (auto simp: base_runSimulation_def run_effect_def split: prod.splits)

lemma Dymola_write_and_run_spawned:
  assumes "Dymola_write_and_run P self worDir script_name log_file mi translate_only w = (x, w')"
  shows "spawned w' = spawned w
         \<or> (\<exists>script. get_dymola_commands self worDir log_file mi translate_only = Inr script
              \<and> spawned w' = spawned w @
                  [((if truthy (showGUI_attr self)
                     then [MODELICA_EXE self,
                           PyStr (py_replace (os_path_join worDir script_name) worDir ''.'')]
                     else [MODELICA_EXE self,
                           PyStr (py_replace (os_path_join worDir script_name) worDir ''.''),
                           PyStr ''/nowindow'']),
                    worDir,
                    (files w)(resolve (os_path_join worDir script_name) \<mapsto> File script))])"
proof -
  let ?p = "os_path_join worDir script_name"
  show ?thesis
  proof (cases "write_file ?p [] (files w)")
    case (Inl e)
    with assms show ?thesis
      by (auto simp: Dymola_write_and_run_def Let_def then_do_def lift_fs_def)
  next
    case (Inr fs1)
    then have fs1: "fs1 = (files w)(resolve ?p \<mapsto> File [])"
      by (auto simp: write_file_def split: if_splits)
    show ?thesis
    proof (cases "get_dymola_commands self worDir log_file mi translate_only")
      case (Inl e)
      with assms Inr show ?thesis
        by (auto simp: Dymola_write_and_run_def Let_def then_do_def lift_fs_def)
    next
      case script: (Inr script)
      have w2: "write_file ?p script fs1 = Inr ((files w)(resolve ?p \<mapsto> File script))"
        by (simp add: write_file_def fs1)
      from assms Inr script w2
      have "Dymola_runSimulation P self ?p (dict_get (simulator self) ''timeout'') worDir
              (w\<lparr>files := (files w)(resolve ?p \<mapsto> File script)\<rparr>) = (x, w')"
        by (simp add: Dymola_write_and_run_def Let_def then_do_def lift_fs_def)
      then have "spawned w' = spawned w @
                  [((if truthy (showGUI_attr self)
                     then [MODELICA_EXE self, PyStr (py_replace ?p worDir ''.'')]
                     else [MODELICA_EXE self, PyStr (py_replace ?p worDir ''.''),
                           PyStr ''/nowindow'']),
                    worDir, (files w)(resolve ?p \<mapsto> File script))]"
        by (auto simp: Dymola_runSimulation_def Let_def dest!: base_runSimulation_spawned)
      with script show ?thesis by blast
    qed
  qed
qed

subsection \<open>The script path handed to Dymola\<close>

lemma py_replace_absent:
  "x \<in> set old \<Longrightarrow> x \<notin> set s \<Longrightarrow> py_replace s old new = s"
proof (induction s)
  case Nil
  then show ?case by (cases old) auto
next
  case (Cons c cs)
  from Cons.prems obtain y ys where old: "old = y # ys" by (cases old) auto
  have "\<not> prefix old (c # cs)"
  proof
    assume "prefix old (c # cs)"
    then have "set old \<subseteq> set (c # cs)" by (rule set_mono_prefix)
    with Cons.prems show False by auto
  qed
  with Cons old show ?case by auto
qed

lemma py_replace_prefix:
  assumes "x \<in> set old" and "x \<notin> set rest"
  shows "py_replace (old @ rest) old new = new @ rest"
proof -
  from assms(1) obtain y ys where old: "old = y # ys" by (cases old) auto
  have "py_replace (old @ rest) old new = new @ py_replace rest old new"
    by (simp add: old)
  then show ?thesis using py_replace_absent [OF assms] by simp
qed

lemma set_os_path_join: "set a \<subseteq> set (os_path_join a b) \<or> (b \<noteq> [] \<and> hd b = sep)"
  by (auto simp: os_path_join_def)

lemma set_os_path_join_right: "set b \<subseteq> set (os_path_join a b)"
  by (auto simp: os_path_join_def)

lemma create_worDir_dash:
  assumes "create_worDir env self w = (Inr worDir, w1)"
  shows "CHR ''-'' \<in> set worDir"
proof -
  from create_worDir_Inr [OF assms] obtain pp tmp name where
    tmp: "tmp = os_path_join (gettempdir env) (''tmp-simulator-'' @ getuser env @ ''-'' @ name)"
    and wd: "worDir = os_path_join tmp (last (py_split sep (abspath env pp)))"
    by blast
  have "CHR ''-'' \<in> set tmp" unfolding tmp using set_os_path_join_right by fastforce
  moreover have "sep \<notin> set (last (py_split sep (abspath env pp)))"
    by (rule py_split_last_no_sep)
  then have "last (py_split sep (abspath env pp)) = []
             \<or> hd (last (py_split sep (abspath env pp))) \<noteq> sep"
    by (cases "last (py_split sep (abspath env pp))") auto
  then have "set tmp \<subseteq> set worDir"
    unfolding wd using set_os_path_join [of tmp "last (py_split sep (abspath env pp))"] by auto
  ultimately show ?thesis by auto
qed

lemma script_path:
  assumes "CHR ''-'' \<in> set worDir" and "CHR ''-'' \<notin> set name" and "name \<noteq> []"
    and "hd name \<noteq> sep"
  shows "\<exists>rest. os_path_join worDir name = worDir @ rest \<and> (rest = name \<or> rest = sep # name)
           \<and> py_replace (os_path_join worDir name) worDir ''.'' = ''.'' @ rest"
proof -
  let ?rest = "if last worDir = sep then name else sep # name"
  have ne: "worDir \<noteq> []" using assms(1) by auto
  have j: "os_path_join worDir name = worDir @ ?rest"
    using assms(3,4) ne by (simp add: os_path_join_eq)
  have "CHR ''-'' \<notin> set ?rest" using assms(2) by (simp add: sep_def)
  from py_replace_prefix [OF assms(1) this]
  have "py_replace (worDir @ ?rest) worDir ''.'' = ''.'' @ ?rest" .
  with j show ?thesis by (intro exI[of _ ?rest]) auto
qed

subsection \<open>The outcomes of \<^verbatim>\<open>simulate\<close>\<close>

lemma Dymola_simulate_try_cases:
  assumes "Dymola_simulate_try P D self worDir mi w = (r, w')"
  obtains (run_raised) e where
      "Dymola_write_and_run P self worDir ''run.mos'' ''simulator.log'' mi False w = (Inl e, w')"
      "r = Inl e"
  | (check_raised) e w4 where
      "Dymola_write_and_run P self worDir ''run.mos'' ''simulator.log'' mi False w = (Inr (), w4)"
      "check_simulation_errors D worDir w4 = (Inl e, w')" "r = Inl e"
  | (copy_raised) e w4 w5 where
      "Dymola_write_and_run P self worDir ''run.mos'' ''simulator.log'' mi False w = (Inr (), w4)"
      "check_simulation_errors D worDir w4 = (Inr (), w5)"
      "run_effect (copyNewFiles D self worDir) w5 = (Inl e, w')" "r = Inl e"
  | (deleted) w4 w5 w6 where
      "Dymola_write_and_run P self worDir ''run.mos'' ''simulator.log'' mi False w = (Inr (), w4)"
      "check_simulation_errors D worDir w4 = (Inr (), w5)"
      "run_effect (copyNewFiles D self worDir) w5 = (Inr (), w6)"
      "deleteTemporaryDirectory (Some worDir) w6 = (r, w')"
  using assms unfolding Dymola_simulate_try_def
  by (auto simp: then_do_def split: prod.splits sum.splits)

lemma Dymola_simulate_cases:
  assumes "Dymola_simulate env P D self w = (r, self', w')"
  obtains (no_worDir) e where
      "Dymola_worDir env D self w = (Inl e, w')" "r = Inl e" "self' = self"
  | (no_copy) e worDir w1 where
      "Dymola_worDir env D self w = (Inr worDir, w1)" "self' = self\<lparr>simulateDir := Some worDir\<rparr>"
      "Dymola_copy env D self' worDir [''*.svn'', ''*.git''] w1 = (Inl e, w')" "r = Inl e"
  | (succeeded) worDir w1 mi w2 where
      "Dymola_worDir env D self w = (Inr worDir, w1)" "self' = self\<lparr>simulateDir := Some worDir\<rparr>"
      "Dymola_copy env D self' worDir [''*.svn'', ''*.git''] w1 = (Inr mi, w2)"
      "Dymola_simulate_try P D self' worDir mi w2 = (Inr (), w')" "r = Inr ()"
  | (failed) worDir w1 mi w2 e w3 where
      "Dymola_worDir env D self w = (Inr worDir, w1)" "self' = self\<lparr>simulateDir := Some worDir\<rparr>"
      "Dymola_copy env D self' worDir [''*.svn'', ''*.git''] w1 = (Inr mi, w2)"
      "Dymola_simulate_try P D self' worDir mi w2 = (Inl e, w3)"
      "w' = writeError (simulation_failed worDir e) w3" "r = Inr ()"
proof (cases "Dymola_worDir env D self w")
  case (Pair x w1)
  show ?thesis
  proof (cases x)
    case (Inl e)
    with Pair assms show ?thesis by (intro no_worDir [of e]) (simp_all add: Dymola_simulate_def)
  next
    case (Inr worDir)
    let ?self = "self\<lparr>simulateDir := Some worDir\<rparr>"
    obtain y w2 where cp: "Dymola_copy env D ?self worDir [''*.svn'', ''*.git''] w1 = (y, w2)"
      by (cases "Dymola_copy env D ?self worDir [''*.svn'', ''*.git''] w1")
    show ?thesis
    proof (cases y)
      case (Inl e)
      with Pair Inr cp assms have "r = Inl e" "self' = ?self" "w' = w2"
        by (simp_all add: Dymola_simulate_def Let_def)
      with Pair Inr cp Inl show ?thesis by (intro no_copy [of worDir w1 e]) simp_all
    next
      case mi: (Inr mi)
      obtain z w3 where tr: "Dymola_simulate_try P D ?self worDir mi w2 = (z, w3)"
        by (cases "Dymola_simulate_try P D ?self worDir mi w2")
      show ?thesis
      proof (cases z)
        case (Inl e)
        with Pair Inr cp mi tr assms
        have "r = Inr ()" "self' = ?self" "w' = writeError (simulation_failed worDir e) w3"
          by (simp_all add: Dymola_simulate_def Let_def)
        with Pair Inr cp mi tr Inl show ?thesis
          by (intro failed [of worDir w1 mi w2 e w3]) simp_all
      next
        case ok: (Inr u)
        with Pair Inr cp mi tr assms
        have "r = Inr ()" "self' = ?self" "w' = w3"
          by (simp_all add: Dymola_simulate_def Let_def)
        with Pair Inr cp mi tr ok show ?thesis
          by (intro succeeded [of worDir w1 mi w2]) simp_all
      qed
    qed
  qed
qed

lemma Dymola_translate_cases:
  assumes "Dymola_translate env P D self w = (r, self', w')"
  obtains (no_worDir) e where
      "Dymola_worDir env D self w = (Inl e, w')" "r = Inl e" "self' = self"
  | (no_copy) e worDir w1 where
      "Dymola_worDir env D self w = (Inr worDir, w1)" "self' = self\<lparr>translateDir := Some worDir\<rparr>"
      "Dymola_copy env D self' worDir [] w1 = (Inl e, w')" "r = Inl e"
  | (succeeded) worDir w1 mi w2 where
      "Dymola_worDir env D self w = (Inr worDir, w1)" "self' = self\<lparr>translateDir := Some worDir\<rparr>"
      "Dymola_copy env D self' worDir [] w1 = (Inr mi, w2)"
      "Dymola_translate_try P self' worDir mi w2 = (Inr (), w')" "r = Inr ()"
  | (failed) worDir w1 mi w2 e w3 where
      "Dymola_worDir env D self w = (Inr worDir, w1)" "self' = self\<lparr>translateDir := Some worDir\<rparr>"
      "Dymola_copy env D self' worDir [] w1 = (Inr mi, w2)"
      "Dymola_translate_try P self' worDir mi w2 = (Inl e, w3)"
      "w' = writeError (''Translation failed in '' @ apos @ worDir @ apos @ nl
                        @ ''   You need to delete the directory manually.'') w3" "r = Inl e"
proof (cases "Dymola_worDir env D self w")
  case (Pair x w1)
  show ?thesis
  proof (cases x)
    case (Inl e)
    with Pair assms show ?thesis by (intro no_worDir [of e]) (simp_all add: Dymola_translate_def)
  next
    case (Inr worDir)
    let ?self = "self\<lparr>translateDir := Some worDir\<rparr>"
    obtain y w2 where cp: "Dymola_copy env D ?self worDir [] w1 = (y, w2)"
      by (cases "Dymola_copy env D ?self worDir [] w1")
    show ?thesis
    proof (cases y)
      case (Inl e)
      with Pair Inr cp assms have "r = Inl e" "self' = ?self" "w' = w2"
        by (simp_all add: Dymola_translate_def Let_def)
      with Pair Inr cp Inl show ?thesis by (intro no_copy [of worDir w1 e]) simp_all
    next
      case mi: (Inr mi)
      obtain z w3 where tr: "Dymola_translate_try P ?self worDir mi w2 = (z, w3)"
        by (cases "Dymola_translate_try P ?self worDir mi w2")
      show ?thesis
      proof (cases z)
        case (Inl e)
        with Pair Inr cp mi tr assms
        have "r = Inl e" "self' = ?self"
          "w' = writeError (''Translation failed in '' @ apos @ worDir @ apos @ nl
                        @ ''   You need to delete the directory manually.'') w3"
          by (simp_all add: Dymola_translate_def Let_def)
        with Pair Inr cp mi tr Inl show ?thesis
          by (intro failed [of worDir w1 mi w2 e w3]) simp_all
      next
        case ok: (Inr u)
        with Pair Inr cp mi tr assms
        have "r = Inr ()" "self' = ?self" "w' = w3"
          by (simp_all add: Dymola_translate_def Let_def)
        with Pair Inr cp mi tr ok show ?thesis
          by (intro succeeded [of worDir w1 mi w2]) simp_all
      qed
    qed
  qed
qed

lemma Dymola_simulate_try_spawned:
  assumes "Dymola_simulate_try P D self worDir mi w = (r, w')"
  shows "spawned w' = spawned w
         \<or> (\<exists>script. get_dymola_commands self worDir ''simulator.log'' mi False = Inr script
              \<and> spawned w' = spawned w @
                  [((if truthy (showGUI_attr self)
                     then [MODELICA_EXE self,
                           PyStr (py_replace (os_path_join worDir ''run.mos'') worDir ''.'')]
                     else [MODELICA_EXE self,
                           PyStr (py_replace (os_path_join worDir ''run.mos'') worDir ''.''),
                           PyStr ''/nowindow'']),
                    worDir,
                    (files w)(resolve (os_path_join worDir ''run.mos'') \<mapsto> File script))])"
  using assms
proof (cases rule: Dymola_simulate_try_cases)
  case (run_raised e)
  from Dymola_write_and_run_spawned [OF run_raised(1)] show ?thesis .
next
  case (check_raised e w4)
  from check_simulation_errors_spawned [OF check_raised(2)]
    Dymola_write_and_run_spawned [OF check_raised(1)]
  show ?thesis by simp
next
  case (copy_raised e w4 w5)
  from run_effect_spawned [OF copy_raised(3)] check_simulation_errors_spawned [OF copy_raised(2)]
    Dymola_write_and_run_spawned [OF copy_raised(1)]
  show ?thesis by simp
next
  case (deleted w4 w5 w6)
  from deleteTemporaryDirectory_returns [of "Some worDir" w6] deleted(4)
  have "spawned w' = spawned w6" by auto
  with run_effect_spawned [OF deleted(3)] check_simulation_errors_spawned [OF deleted(2)]
    Dymola_write_and_run_spawned [OF deleted(1)]
  show ?thesis by simp
qed

lemma Dymola_simulate_spawned:
  assumes "Dymola_simulate env P D self w = (r, self', w')"
  shows "spawned w' = spawned w
         \<or> (\<exists>worDir w0 w1 mi w2 script.
               Dymola_deleteOutputFiles D self w = (Inr (), w0)
               \<and> create_worDir env self w0 = (Inr worDir, w1)
               \<and> self' = self\<lparr>simulateDir := Some worDir\<rparr>
               \<and> Dymola_copy env D self' worDir [''*.svn'', ''*.git''] w1 = (Inr mi, w2)
               \<and> get_dymola_commands self' worDir ''simulator.log'' mi False = Inr script
               \<and> spawned w' = spawned w @
                  [((if truthy (showGUI_attr self)
                     then [MODELICA_EXE self,
                           PyStr (py_replace (os_path_join worDir ''run.mos'') worDir ''.'')]
                     else [MODELICA_EXE self,
                           PyStr (py_replace (os_path_join worDir ''run.mos'') worDir ''.''),
                           PyStr ''/nowindow'']),
                    worDir,
                    (files w2)(resolve (os_path_join worDir ''run.mos'') \<mapsto> File script))])"
  using assms
proof (cases rule: Dymola_simulate_cases)
  case (no_worDir e)
  then show ?thesis by (simp add: Dymola_worDir_spawned)
next
  case (no_copy e worDir w1)
  from Dymola_worDir_spawned [OF no_copy(1)] Dymola_copy_spawned [OF no_copy(3)]
  show ?thesis by simp
next
  case (succeeded worDir w1 mi w2)
  from Dymola_worDir_Inr [OF succeeded(1)] obtain w0 where
    w0: "Dymola_deleteOutputFiles D self w = (Inr (), w0)"
        "create_worDir env self w0 = (Inr worDir, w1)" by blast
  have sp: "spawned w2 = spawned w"
    using Dymola_worDir_spawned [OF succeeded(1)] Dymola_copy_spawned [OF succeeded(3)] by simp
  from Dymola_simulate_try_spawned [OF succeeded(4)] sp w0 succeeded(2,3)
  show ?thesis by (auto simp: sp)
next
  case (failed worDir w1 mi w2 e w3)
  from Dymola_worDir_Inr [OF failed(1)] obtain w0 where
    w0: "Dymola_deleteOutputFiles D self w = (Inr (), w0)"
        "create_worDir env self w0 = (Inr worDir, w1)" by blast
  have sp: "spawned w2 = spawned w"
    using Dymola_worDir_spawned [OF failed(1)] Dymola_copy_spawned [OF failed(3)] by simp
  have "spawned w' = spawned w3" using failed(5) by (simp add: writeError_def)
  with Dymola_simulate_try_spawned [OF failed(4)] sp w0 failed(2,3)
  show ?thesis by (auto simp: sp)
qed

subsection \<open>A run on the example machine\<close>

lemma resolve_simple [simp]:
  "resolve ''cc_result.mat'' = ''cc_result.mat''"
  "resolve ''/lib/Pkg'' = ''/lib/Pkg''"
  "resolve ''/tmp/tmp-simulator-u-a1/Pkg/run.mos'' = ''/tmp/tmp-simulator-u-a1/Pkg/run.mos''"
  by (simp_all add: resolve_def py_rstrip_def sep_def)

lemma ex_Dymola_worDir:
  "Dymola_worDir ex_env ex_dymola_env ex_dymola ex_world
     = (Inr ''/tmp/tmp-simulator-u-a1/Pkg'',
        ex_world\<lparr>files := ex_files(''/tmp/tmp-simulator-u-a1'' \<mapsto> Dir)\<rparr>)"
proof -
  have del: "Dymola_deleteOutputFiles ex_dymola_env ex_dymola ex_world = (Inr (), ex_world)"
    by (simp add: Dymola_deleteOutputFiles_def ex_dymola_env_def run_effect_def then_do_def
          dict_get_def ex_dymola_fields str_plus_def os_path_exists_def ex_world_def ex_files_def)
  have "create_worDir ex_env ex_dymola ex_world
     = (Inr ''/tmp/tmp-simulator-u-a1/Pkg'',
        ex_world\<lparr>files := ex_files(''/tmp/tmp-simulator-u-a1'' \<mapsto> Dir)\<rparr>)"
    by (simp add: create_worDir_def ex_dymola_fields ex_env_def Let_def py_index_def sep_def
        tempfile_mkdtemp_def os_path_join_def ex_world_def ex_files_def)
  with del show ?thesis by (simp add: Dymola_worDir_def then_do_def)
qed

lemma ex_copytree:
  "shutil_copytree ''/lib/Pkg'' ex_worDir [''*.svn'', ''*.git'']
     (ex_files(''/tmp/tmp-simulator-u-a1'' \<mapsto> Dir)) = Inr ex_copied"
  by (simp add: ex_copied_def shutil_copytree_def ex_worDir_def ex_files_def)

lemma ex_copied_at:
  "ex_copied ''/tmp/tmp-simulator-u-a1'' = Some Dir"
  "ex_copied ''/tmp/tmp-simulator-u-a1/Pkg'' = Some Dir"
  "ex_copied ''/tmp/tmp-simulator-u-a1/Pkg/run.mos'' = None"
  "ex_copied ''/tmp/tmp-simulator-u-a1/Pkg/simulator.log'' = None"
  "ex_copied ''/tmp/tmp-simulator-u-a1/Pkg/package.mo'' = Some (File ''package Pkg end Pkg;'')"
  "ex_copied ''/tmp/tmp-simulator-u-a1/Pkg/.git'' = None"
  "ex_copied ''/tmp/tmp-simulator-u-a1/Pkg/.git/HEAD'' = None"
  "ex_copied ''/lib/Pkg/package.mo'' = Some (File ''package Pkg end Pkg;'')"
  "ex_copied ''/lib/Pkg/.git'' = Some Dir"
  by (simp_all add: ex_copied_def shutil_copytree_def ex_worDir_def ex_files_def below_def
        ignored_def sep_def)

lemma ex_Dymola_copy:
  "Dymola_copy ex_env ex_dymola_env (ex_dymola\<lparr>simulateDir := Some ex_worDir\<rparr>)
     ex_worDir [''*.svn'', ''*.git'']
     (ex_world\<lparr>files := ex_files(''/tmp/tmp-simulator-u-a1'' \<mapsto> Dir)\<rparr>)
   = (Inr (model_instance ex_dymola []), ex_world\<lparr>files := ex_copied\<rparr>)"
  by (simp add: Dymola_copy_def ex_dymola_fields ex_env_def then_do_def
        lift_fs_def ex_dymola_env_def model_instance_def ex_copytree)

lemma resolve_more [simp]:
  "resolve ''/tmp/tmp-simulator-u-a1/Pkg/simulator.log'' = ''/tmp/tmp-simulator-u-a1/Pkg/simulator.log''"
  "resolve ''/tmp/tmp-simulator-u-a1/Pkg'' = ''/tmp/tmp-simulator-u-a1/Pkg''"
  "resolve ''/tmp/tmp-simulator-u-a1'' = ''/tmp/tmp-simulator-u-a1''"
  by (simp_all add: resolve_def py_rstrip_def sep_def)

lemma ex_join [simp]:
  "os_path_join ''/tmp/tmp-simulator-u-a1/Pkg'' ''run.mos'' = ''/tmp/tmp-simulator-u-a1/Pkg/run.mos''"
  "os_path_join ''/tmp/tmp-simulator-u-a1/Pkg'' ''simulator.log''
     = ''/tmp/tmp-simulator-u-a1/Pkg/simulator.log''"
  by (simp_all add: os_path_join_def sep_def)

lemma ex_write_and_run:
  "\<exists>script. Dymola_write_and_run ex_process (ex_dymola\<lparr>simulateDir := Some ex_worDir\<rparr>)
      ex_worDir ''run.mos'' ''simulator.log'' mi False (ex_world\<lparr>files := ex_copied\<rparr>)
    = (Inr (), \<lparr>files = ex_copied(''/tmp/tmp-simulator-u-a1/Pkg/run.mos'' \<mapsto> File script,
                              ''/tmp/tmp-simulator-u-a1/Pkg/simulator.log'' \<mapsto> File ''Finished''),
                reported = [],
                spawned = [([PyStr ''dymola'', PyStr ''./run.mos'', PyStr ''/nowindow''], ex_worDir,
                            ex_copied(''/tmp/tmp-simulator-u-a1/Pkg/run.mos'' \<mapsto> File script))]\<rparr>)"
  by (rule exI [of _ "unlines (script_lines (ex_dymola\<lparr>simulateDir := Some ex_worDir\<rparr>)
                                 ex_worDir ''simulator.log'' mi False True)"])
     (simp add: Dymola_write_and_run_def Let_def then_do_def lift_fs_def write_file_def
        get_dymola_commands_lines ex_dymola_fields Dymola_runSimulation_def
        base_runSimulation_def run_effect_def ex_process_def ex_world_def ex_worDir_def
        ex_copied_at dict_get_def)

subsection \<open>The outcomes of \<^verbatim>\<open>Optimica.simulate\<close>\<close>

lemma Optimica_worDir_spawned:
  assumes "Optimica_worDir env self w = (x, w')"
  shows "spawned w' = spawned w"
proof -
  obtain a w0 where d: "Optimica_deleteOutputFiles self w = (a, w0)"
    by (cases "Optimica_deleteOutputFiles self w")
  then have s0: "spawned w0 = spawned w"
    unfolding Optimica_deleteOutputFiles_def by (rule deleteFiles_spawned)
  show ?thesis
  proof (cases a)
    case (Inl e)
    with assms d s0 show ?thesis by (simp add: Optimica_worDir_def then_do_def)
  next
    case (Inr u)
    obtain b w1 where c: "create_worDir env self w0 = (b, w1)"
      by (cases "create_worDir env self w0")
    then have s1: "spawned w1 = spawned w0" by (rule create_worDir_spawned)
    show ?thesis
    proof (cases b)
      case (Inl e)
      with assms d Inr c s0 s1 show ?thesis by (simp add: Optimica_worDir_def then_do_def)
    next
      case wd: (Inr worDir)
      with assms d Inr c s0 s1 show ?thesis
        by (auto simp: Optimica_worDir_def then_do_def lift_fs_def
                 split: if_splits sum.splits)
    qed
  qed
qed

lemma Optimica_worDir_Inr:
  assumes "Optimica_worDir env self w = (Inr worDir, w2)"
  obtains w0 w1 where "Optimica_deleteOutputFiles self w = (Inr (), w0)"
    and "create_worDir env self w0 = (Inr worDir, w1)"
    and "w2 = (if os_path_exists (files w1) worDir then w1
               else w1\<lparr>files := (files w1)(resolve worDir \<mapsto> Dir)\<rparr>)"
proof -
  obtain a w0 where d: "Optimica_deleteOutputFiles self w = (a, w0)"
    by (cases "Optimica_deleteOutputFiles self w")
  with assms have a: "a = Inr ()"
    by (cases a) (auto simp: Optimica_worDir_def then_do_def)
  obtain b w1 where c: "create_worDir env self w0 = (b, w1)"
    by (cases "create_worDir env self w0")
  with assms d a have b: "b = Inr worDir"
    by (cases b) (auto simp: Optimica_worDir_def then_do_def lift_fs_def
                       split: if_splits sum.splits)
  from assms d a c b
  have "w2 = (if os_path_exists (files w1) worDir then w1
               else w1\<lparr>files := (files w1)(resolve worDir \<mapsto> Dir)\<rparr>)"
    by (auto simp: Optimica_worDir_def then_do_def lift_fs_def os_mkdir_def os_path_exists_def
             split: if_splits sum.splits)
  with d a c b that show ?thesis by blast
qed

lemma Optimica_script_spawned:
  "Optimica_script Q self worDir w = (x, w') \<Longrightarrow> spawned w' = spawned w"
  by (auto simp: Optimica_script_def Let_def then_do_def lift_fs_def split: sum.splits)

lemma Optimica_simulate_try_cases:
  assumes "Optimica_simulate_try P Q self worDir file_name w = (r, w')"
  obtains (run_raised) e where
      "base_runSimulation P [PyStr ''jm_ipython.sh'', PyStr file_name]
         (dict_get (simulator self) ''timeout'') worDir w = (Inl e, w')"
      "r = Inl e"
  | (check_raised) e w4 where
      "base_runSimulation P [PyStr ''jm_ipython.sh'', PyStr file_name]
         (dict_get (simulator self) ''timeout'') worDir w = (Inr (), w4)"
      "run_effect (check_simulation_errors_missing Q self worDir) w4 = (Inl e, w')" "r = Inl e"
  | (copy_raised) e w4 w5 where
      "base_runSimulation P [PyStr ''jm_ipython.sh'', PyStr file_name]
         (dict_get (simulator self) ''timeout'') worDir w = (Inr (), w4)"
      "run_effect (check_simulation_errors_missing Q self worDir) w4 = (Inr (), w5)"
      "run_effect (copyResultFiles Q self worDir) w5 = (Inl e, w')" "r = Inl e"
  | (deleted) w4 w5 w6 where
      "base_runSimulation P [PyStr ''jm_ipython.sh'', PyStr file_name]
         (dict_get (simulator self) ''timeout'') worDir w = (Inr (), w4)"
      "run_effect (check_simulation_errors_missing Q self worDir) w4 = (Inr (), w5)"
      "run_effect (copyResultFiles Q self worDir) w5 = (Inr (), w6)"
      "deleteTemporaryDirectory (Some worDir) w6 = (r, w')"
  using assms unfolding Optimica_simulate_try_def
  by (auto simp: then_do_def split: prod.splits sum.splits)

lemma Optimica_simulate_try_spawned:
  assumes "Optimica_simulate_try P Q self worDir file_name w = (r, w')"
  shows "spawned w' = spawned w @ [([PyStr ''jm_ipython.sh'', PyStr file_name], worDir, files w)]"
  using assms
proof (cases rule: Optimica_simulate_try_cases)
  case (run_raised e)
  from base_runSimulation_spawned [OF run_raised(1)] show ?thesis .
next
  case (check_raised e w4)
  from run_effect_spawned [OF check_raised(2)] base_runSimulation_spawned [OF check_raised(1)]
  show ?thesis by simp
next
  case (copy_raised e w4 w5)
  from run_effect_spawned [OF copy_raised(3)] run_effect_spawned [OF copy_raised(2)]
    base_runSimulation_spawned [OF copy_raised(1)]
  show ?thesis by simp
next
  case (deleted w4 w5 w6)
  from deleteTemporaryDirectory_returns [of "Some worDir" w6] deleted(4)
  have "spawned w' = spawned w6" by auto
  with run_effect_spawned [OF deleted(3)] run_effect_spawned [OF deleted(2)]
    base_runSimulation_spawned [OF deleted(1)]
  show ?thesis by simp
qed

lemma Optimica_simulate_cases:
  assumes "Optimica_simulate env P Q self w = (r, self', w')"
  obtains (no_worDir) e where
      "Optimica_worDir env self w = (Inl e, w')" "r = Inl e" "self' = self"
  | (no_script) e worDir w1 where
      "Optimica_worDir env self w = (Inr worDir, w1)" "self' = self\<lparr>simulateDir := Some worDir\<rparr>"
      "Optimica_script Q self' worDir w1 = (Inl e, w')" "r = Inl e"
  | (succeeded) worDir w1 file_name w2 where
      "Optimica_worDir env self w = (Inr worDir, w1)" "self' = self\<lparr>simulateDir := Some worDir\<rparr>"
      "Optimica_script Q self' worDir w1 = (Inr file_name, w2)"
      "Optimica_simulate_try P Q self' worDir file_name w2 = (Inr (), w')" "r = Inr ()"
  | (failed) worDir w1 file_name w2 e w3 where
      "Optimica_worDir env self w = (Inr worDir, w1)" "self' = self\<lparr>simulateDir := Some worDir\<rparr>"
      "Optimica_script Q self' worDir w1 = (Inr file_name, w2)"
      "Optimica_simulate_try P Q self' worDir file_name w2 = (Inl e, w3)"
      "w' = writeError (simulation_failed worDir e) w3" "r = Inr ()"
proof (cases "Optimica_worDir env self w")
  case (Pair x w1)
  show ?thesis
  proof (cases x)
    case (Inl e)
    with Pair assms show ?thesis by (intro no_worDir [of e]) (simp_all add: Optimica_simulate_def)
  next
    case (Inr worDir)
    let ?self = "self\<lparr>simulateDir := Some worDir\<rparr>"
    obtain y w2 where cp: "Optimica_script Q ?self worDir w1 = (y, w2)"
      by (cases "Optimica_script Q ?self worDir w1")
    show ?thesis
    proof (cases y)
      case (Inl e)
      with Pair Inr cp assms have "r = Inl e" "self' = ?self" "w' = w2"
        by (simp_all add: Optimica_simulate_def Let_def)
      with Pair Inr cp Inl show ?thesis by (intro no_script [of worDir w1 e]) simp_all
    next
      case fn: (Inr file_name)
      obtain z w3 where tr: "Optimica_simulate_try P Q ?self worDir file_name w2 = (z, w3)"
        by (cases "Optimica_simulate_try P Q ?self worDir file_name w2")
      show ?thesis
      proof (cases z)
        case (Inl e)
        with Pair Inr cp fn tr assms
        have "r = Inr ()" "self' = ?self" "w' = writeError (simulation_failed worDir e) w3"
          by (simp_all add: Optimica_simulate_def Let_def)
        with Pair Inr cp fn tr Inl show ?thesis
          by (intro failed [of worDir w1 file_name w2 e w3]) simp_all
      next
        case ok: (Inr u)
        with Pair Inr cp fn tr assms
        have "r = Inr ()" "self' = ?self" "w' = w3"
          by (simp_all add: Optimica_simulate_def Let_def)
        with Pair Inr cp fn tr ok show ?thesis
          by (intro succeeded [of worDir w1 file_name w2]) simp_all
      qed
    qed
  qed
qed

lemma Optimica_simulate_spawned:
  assumes "Optimica_simulate env P Q self w = (r, self', w')"
  shows "spawned w' = spawned w
         \<or> (\<exists>worDir w1 file_name w2.
               Optimica_worDir env self w = (Inr worDir, w1)
               \<and> self' = self\<lparr>simulateDir := Some worDir\<rparr>
               \<and> Optimica_script Q self' worDir w1 = (Inr file_name, w2)
               \<and> spawned w' = spawned w @
                    [([PyStr ''jm_ipython.sh'', PyStr file_name], worDir, files w2)])"
  using assms
proof (cases rule: Optimica_simulate_cases)
  case (no_worDir e)
  then show ?thesis by (simp add: Optimica_worDir_spawned)
next
  case (no_script e worDir w1)
  from Optimica_worDir_spawned [OF no_script(1)] Optimica_script_spawned [OF no_script(3)]
  show ?thesis by simp
next
  case (succeeded worDir w1 file_name w2)
  have sp: "spawned w2 = spawned w"
    using Optimica_worDir_spawned [OF succeeded(1)] Optimica_script_spawned [OF succeeded(3)]
    by simp
  from Optimica_simulate_try_spawned [OF succeeded(4)] sp succeeded(1,2,3)
  show ?thesis by auto
next
  case (failed worDir w1 file_name w2 e w3)
  have sp: "spawned w2 = spawned w"
    using Optimica_worDir_spawned [OF failed(1)] Optimica_script_spawned [OF failed(3)]
    by simp
  have "spawned w' = spawned w3" using failed(5) by (simp add: writeError_def)
  with Optimica_simulate_try_spawned [OF failed(4)] sp failed(1,2,3)
  show ?thesis by auto
qed

subsection \<open>The executables\<close>

lemma Dymola_translate_spawned:
  assumes "Dymola_translate env P D self w = (r, self', w')"
  shows "spawned w' = spawned w
         \<or> (\<exists>worDir w0 w1 snap.
               create_worDir env self w0 = (Inr worDir, w1)
               \<and> spawned w' = spawned w @
                  [((if truthy (showGUI_attr self)
                     then [MODELICA_EXE self,
                           PyStr (py_replace (os_path_join worDir ''run_translate.mos'') worDir ''.'')]
                     else [MODELICA_EXE self,
                           PyStr (py_replace (os_path_join worDir ''run_translate.mos'') worDir ''.''),
                           PyStr ''/nowindow'']),
                    worDir, snap)])"
proof -
  have run: "spawned w3 = spawned w
         \<or> (\<exists>worDir w0 w1 snap.
               create_worDir env self w0 = (Inr worDir, w1)
               \<and> spawned w3 = spawned w @
                  [((if truthy (showGUI_attr self)
                     then [MODELICA_EXE self,
                           PyStr (py_replace (os_path_join worDir ''run_translate.mos'') worDir ''.'')]
                     else [MODELICA_EXE self,
                           PyStr (py_replace (os_path_join worDir ''run_translate.mos'') worDir ''.''),
                           PyStr ''/nowindow'']),
                    worDir, snap)])"
    if wd: "Dymola_worDir env D self w = (Inr worDir, w1)"
      and cp: "Dymola_copy env D (self\<lparr>translateDir := Some worDir\<rparr>) worDir [] w1 = (y, w2)"
      and tr: "Dymola_translate_try P (self\<lparr>translateDir := Some worDir\<rparr>) worDir mi w2 = (z, w3)"
    for worDir w1 y w2 mi z w3
  proof -
    from Dymola_worDir_Inr [OF wd] obtain w0 where
      w0: "create_worDir env self w0 = (Inr worDir, w1)" by blast
    have sp: "spawned w2 = spawned w"
      using Dymola_worDir_spawned [OF wd] Dymola_copy_spawned [OF cp] by simp
    from Dymola_write_and_run_spawned [OF tr [unfolded Dymola_translate_try_def]]
    show ?thesis
    proof
      assume "spawned w3 = spawned w2"
      with sp show ?thesis by simp
    next
      assume "\<exists>script. get_dymola_commands (self\<lparr>translateDir := Some worDir\<rparr>) worDir
                  ''translator.log'' mi True = Inr script
              \<and> spawned w3 = spawned w2 @
                  [((if truthy (showGUI_attr (self\<lparr>translateDir := Some worDir\<rparr>))
                     then [MODELICA_EXE (self\<lparr>translateDir := Some worDir\<rparr>),
                           PyStr (py_replace (os_path_join worDir ''run_translate.mos'') worDir ''.'')]
                     else [MODELICA_EXE (self\<lparr>translateDir := Some worDir\<rparr>),
                           PyStr (py_replace (os_path_join worDir ''run_translate.mos'') worDir ''.''),
                           PyStr ''/nowindow'']),
                    worDir,
                    (files w2)(resolve (os_path_join worDir ''run_translate.mos'') \<mapsto> File script))]"
      then obtain snap where
        "spawned w3 = spawned w @
                  [((if truthy (showGUI_attr self)
                     then [MODELICA_EXE self,
                           PyStr (py_replace (os_path_join worDir ''run_translate.mos'') worDir ''.'')]
                     else [MODELICA_EXE self,
                           PyStr (py_replace (os_path_join worDir ''run_translate.mos'') worDir ''.''),
                           PyStr ''/nowindow'']),
                    worDir, snap)]"
        using sp by auto
      with w0 show ?thesis by blast
    qed
  qed
  from assms show ?thesis
  proof (cases rule: Dymola_translate_cases)
    case (no_worDir e)
    then show ?thesis by (simp add: Dymola_worDir_spawned)
  next
    case (no_copy e worDir w1)
    from Dymola_worDir_spawned [OF no_copy(1)] Dymola_copy_spawned [OF no_copy(3)]
    show ?thesis by simp
  next
    case (succeeded worDir w1 mi w2)
    from run [OF succeeded(1) succeeded(3) [unfolded succeeded(2)]
                 succeeded(4) [unfolded succeeded(2)]]
    show ?thesis .
  next
    case (failed worDir w1 mi w2 e w3)
    have "spawned w' = spawned w3" using failed(5) by (simp add: writeError_def)
    with run [OF failed(1) failed(3) [unfolded failed(2)] failed(4) [unfolded failed(2)]]
    show ?thesis by simp
  qed
qed

lemma Dymola_init_tail_exe:
  "Dymola_init_tail b m = Inr self \<Longrightarrow> MODELICA_EXE self = PyStr ''dymola''"
  by (auto simp: Dymola_init_tail_def Let_def setResultFile_eq split: sum.splits)

lemma Dymola_object_exe: "Dymola_object self \<Longrightarrow> MODELICA_EXE self = PyStr ''dymola''"
proof (induction rule: Dymola_object.induct)
  case (constructed b m self)
  then show ?case by (rule Dymola_init_tail_exe)
next
  case (modifier self x self')
  then show ?case by (auto simp: addModelModifier_def split: option.splits)
next
  case (resultFile self s self')
  then show ?case by (auto simp: setResultFile_eq)
next
  case (package self s w self')
  then show ?case by (auto simp: setPackagePath_def split: if_splits)
next
  case (simulated self env P D w r self' w')
  from simulated(2) show ?case
    by (cases rule: Dymola_simulate_cases) (use simulated(3) in auto)
next
  case (translated self env P D w r self' w')
  from translated(2) show ?case
    by (cases rule: Dymola_translate_cases) (use translated(3) in auto)
qed (simp_all add: addPreProcessingStatement_def addPostProcessingStatement_def
       exitSimulator_def showProgressBar_def showGUI_def setSolver_def setStartTime_def
       setStopTime_def setTolerance_def setTimeOut_def setOutputDirectory_def)

lemma ex_after_run:
  "then_do (check_simulation_errors ex_dymola_env ex_worDir
              \<lparr>files = ex_copied(''/tmp/tmp-simulator-u-a1/Pkg/run.mos'' \<mapsto> File script,
                              ''/tmp/tmp-simulator-u-a1/Pkg/simulator.log'' \<mapsto> File ''Finished''),
               reported = [], spawned = S\<rparr>)
     (\<lambda>_ w5. then_do (run_effect (copyNewFiles ex_dymola_env self ex_worDir) w5)
        (\<lambda>_ w6. deleteTemporaryDirectory (Some ex_worDir) w6))
   = (Inr (),
      \<lparr>files = (\<lambda>q. if q = ''/tmp/tmp-simulator-u-a1'' \<or> below ''/tmp/tmp-simulator-u-a1'' q \<noteq> None
                    then None
                    else (ex_copied(''/tmp/tmp-simulator-u-a1/Pkg/run.mos'' \<mapsto> File script,
                            ''/tmp/tmp-simulator-u-a1/Pkg/simulator.log'' \<mapsto> File ''Finished'')) q),
       reported = [], spawned = S\<rparr>)"
proof -
  let ?w4 = "\<lparr>files = ex_copied(''/tmp/tmp-simulator-u-a1/Pkg/run.mos'' \<mapsto> File script,
                              ''/tmp/tmp-simulator-u-a1/Pkg/simulator.log'' \<mapsto> File ''Finished''),
               reported = [], spawned = S\<rparr>"
  have chk: "check_simulation_errors ex_dymola_env ex_worDir ?w4 = (Inr (), ?w4)"
    by (simp add: check_simulation_errors_def ex_dymola_env_def ex_scraper_def ex_worDir_def
          Let_def)
  have cpy: "run_effect (copyNewFiles ex_dymola_env self ex_worDir) ?w4 = (Inr (), ?w4)"
    by (simp add: run_effect_def ex_dymola_env_def)
  have spl: "os_path_split ex_worDir = (''/tmp/tmp-simulator-u-a1'', ''Pkg'')"
    by (simp add: ex_worDir_def split_wd)
  have fnd: "py_find ''/tmp/tmp-simulator-u-a1'' ''tmp-simulator-'' \<noteq> - 1" by simp
  have "delete_tree ex_worDir ''/tmp/tmp-simulator-u-a1'' ?w4
          = (Inr (), ?w4\<lparr>files := (\<lambda>q. if q = resolve ''/tmp/tmp-simulator-u-a1''
                                            \<or> below (resolve ''/tmp/tmp-simulator-u-a1'') q \<noteq> None
                                         then None else files ?w4 q)\<rparr>)"
    by (rule delete_tree_removes) (simp_all add: os_path_exists_def ex_worDir_def ex_copied_at)
  then have del: "deleteTemporaryDirectory (Some ex_worDir) ?w4
          = (Inr (), ?w4\<lparr>files := (\<lambda>q. if q = resolve ''/tmp/tmp-simulator-u-a1''
                                            \<or> below (resolve ''/tmp/tmp-simulator-u-a1'') q \<noteq> None
                                         then None else files ?w4 q)\<rparr>)"
    using fnd by (simp add: deleteTemporaryDirectory_def spl Let_def)
  show ?thesis
    by (simp add: then_do_def chk cpy del cong: if_cong)
qed

lemma ex_Dymola_simulate:
  "\<exists>script. Dymola_simulate ex_env ex_process ex_dymola_env ex_dymola ex_world
     = (Inr (), ex_dymola\<lparr>simulateDir := Some ex_worDir\<rparr>,
        \<lparr>files = (\<lambda>q. if q = ''/tmp/tmp-simulator-u-a1'' \<or> below ''/tmp/tmp-simulator-u-a1'' q \<noteq> None
                      then None
                      else (ex_copied(''/tmp/tmp-simulator-u-a1/Pkg/run.mos'' \<mapsto> File script,
                              ''/tmp/tmp-simulator-u-a1/Pkg/simulator.log'' \<mapsto> File ''Finished'')) q),
         reported = [],
         spawned = [([PyStr ''dymola'', PyStr ''./run.mos'', PyStr ''/nowindow''], ex_worDir,
                     ex_copied(''/tmp/tmp-simulator-u-a1/Pkg/run.mos'' \<mapsto> File script))]\<rparr>)"
proof -
  let ?self = "ex_dymola\<lparr>simulateDir := Some ex_worDir\<rparr>"
  from ex_write_and_run [of "model_instance ex_dymola []"] obtain script where
    run: "Dymola_write_and_run ex_process ?self ex_worDir ''run.mos'' ''simulator.log''
            (model_instance ex_dymola []) False (ex_world\<lparr>files := ex_copied\<rparr>)
          = (Inr (), \<lparr>files = ex_copied(''/tmp/tmp-simulator-u-a1/Pkg/run.mos'' \<mapsto> File script,
                              ''/tmp/tmp-simulator-u-a1/Pkg/simulator.log'' \<mapsto> File ''Finished''),
                reported = [],
                spawned = [([PyStr ''dymola'', PyStr ''./run.mos'', PyStr ''/nowindow''], ex_worDir,
                            ex_copied(''/tmp/tmp-simulator-u-a1/Pkg/run.mos'' \<mapsto> File script))]\<rparr>)"
    by blast
  have tr: "Dymola_simulate_try ex_process ex_dymola_env ?self ex_worDir
               (model_instance ex_dymola []) (ex_world\<lparr>files := ex_copied\<rparr>)
     = (Inr (),
        \<lparr>files = (\<lambda>q. if q = ''/tmp/tmp-simulator-u-a1'' \<or> below ''/tmp/tmp-simulator-u-a1'' q \<noteq> None
                      then None
                      else (ex_copied(''/tmp/tmp-simulator-u-a1/Pkg/run.mos'' \<mapsto> File script,
                              ''/tmp/tmp-simulator-u-a1/Pkg/simulator.log'' \<mapsto> File ''Finished'')) q),
         reported = [],
         spawned = [([PyStr ''dymola'', PyStr ''./run.mos'', PyStr ''/nowindow''], ex_worDir,
                     ex_copied(''/tmp/tmp-simulator-u-a1/Pkg/run.mos'' \<mapsto> File script))]\<rparr>)"
    unfolding Dymola_simulate_try_def run
    by (subst then_do_def) (simp add: ex_after_run)
  have wd: "Dymola_worDir ex_env ex_dymola_env ex_dymola ex_world
     = (Inr ex_worDir, ex_world\<lparr>files := ex_files(''/tmp/tmp-simulator-u-a1'' \<mapsto> Dir)\<rparr>)"
    using ex_Dymola_worDir by (simp add: ex_worDir_def)
  show ?thesis
    by (rule exI [of _ script])
       (simp add: Dymola_simulate_def wd Let_def ex_Dymola_copy tr)
qed

lemma ex_optimica_fields:
  "packagePath ex_optimica = Some ''/lib/Pkg''"
  "modelName ex_optimica = ''aa.bb.cc''"
  "simulator ex_optimica ''resultFile'' = Some (PyStr ''cc'')"
  by (simp_all add: ex_optimica_def Optimica_init_tail_def setSolver_def ex_base_def)

lemma ex_Optimica_worDir:
  "Optimica_worDir ex_env ex_optimica ex_world
     = (Inr ex_worDir,
        ex_world\<lparr>files := ex_files(''/tmp/tmp-simulator-u-a1'' \<mapsto> Dir,
                                     ''/tmp/tmp-simulator-u-a1/Pkg'' \<mapsto> Dir)\<rparr>)"
proof -
  have r: "resolve ''cc.mat'' = ''cc.mat''" by (simp add: resolve_def py_rstrip_def sep_def)
  have del: "Optimica_deleteOutputFiles ex_optimica ex_world = (Inr (), ex_world)"
    by (simp add: Optimica_deleteOutputFiles_def dict_get_def ex_optimica_fields
          os_path_exists_def r ex_world_def ex_files_def)
  have cr: "create_worDir ex_env ex_optimica ex_world
     = (Inr ''/tmp/tmp-simulator-u-a1/Pkg'',
        ex_world\<lparr>files := ex_files(''/tmp/tmp-simulator-u-a1'' \<mapsto> Dir)\<rparr>)"
    by (simp add: create_worDir_def ex_optimica_fields ex_env_def Let_def py_index_def sep_def
        tempfile_mkdtemp_def os_path_join_def ex_world_def ex_files_def)
  show ?thesis
    by (simp add: Optimica_worDir_def then_do_def del cr os_path_exists_def os_mkdir_def
          lift_fs_def ex_worDir_def)
       (simp add: ex_files_def ex_world_def)
qed

lemma ex_Optimica_script:
  "Optimica_script ex_optimica_env (ex_optimica\<lparr>simulateDir := Some ex_worDir\<rparr>) ex_worDir
     (ex_world\<lparr>files := ex_files(''/tmp/tmp-simulator-u-a1'' \<mapsto> Dir,
                                  ''/tmp/tmp-simulator-u-a1/Pkg'' \<mapsto> Dir)\<rparr>)
   = (Inr ''/tmp/tmp-simulator-u-a1/Pkg/aa_bb_cc.py'',
      ex_world\<lparr>files := ex_files(''/tmp/tmp-simulator-u-a1'' \<mapsto> Dir,
                                   ''/tmp/tmp-simulator-u-a1/Pkg'' \<mapsto> Dir,
                                   ''/tmp/tmp-simulator-u-a1/Pkg/aa_bb_cc.py'' \<mapsto> File ''# script'')\<rparr>)"
proof -
  have r: "resolve ''/tmp/tmp-simulator-u-a1/Pkg/aa_bb_cc.py'' = ''/tmp/tmp-simulator-u-a1/Pkg/aa_bb_cc.py''"
    by (simp add: resolve_def py_rstrip_def sep_def)
  have j: "os_path_join ex_worDir ''aa_bb_cc.py'' = ''/tmp/tmp-simulator-u-a1/Pkg/aa_bb_cc.py''"
    by (simp add: os_path_join_def ex_worDir_def sep_def)
  have nd: "ex_files ''/tmp/tmp-simulator-u-a1/Pkg/aa_bb_cc.py'' = None"
    by (simp add: ex_files_def)
  show ?thesis
    by (simp add: Optimica_script_def ex_optimica_env_def ex_optimica_fields j Let_def
          then_do_def lift_fs_def write_file_def r nd)
qed

lemma ex_Optimica_simulate:
  "\<exists>fs'. Optimica_simulate ex_env ex_process ex_optimica_env ex_optimica ex_world
     = (Inr (), ex_optimica\<lparr>simulateDir := Some ex_worDir\<rparr>,
        \<lparr>files = fs', reported = [],
         spawned = [([PyStr ''jm_ipython.sh'', PyStr ''/tmp/tmp-simulator-u-a1/Pkg/aa_bb_cc.py''],
                     ex_worDir,
                     ex_files(''/tmp/tmp-simulator-u-a1'' \<mapsto> Dir,
                              ''/tmp/tmp-simulator-u-a1/Pkg'' \<mapsto> Dir,
                              ''/tmp/tmp-simulator-u-a1/Pkg/aa_bb_cc.py'' \<mapsto> File ''# script''))]\<rparr>)"
proof -
  let ?fs3 = "ex_files(''/tmp/tmp-simulator-u-a1'' \<mapsto> Dir,
                              ''/tmp/tmp-simulator-u-a1/Pkg'' \<mapsto> Dir,
                              ''/tmp/tmp-simulator-u-a1/Pkg/aa_bb_cc.py'' \<mapsto> File ''# script'')"
  let ?S = "[([PyStr ''jm_ipython.sh'', PyStr ''/tmp/tmp-simulator-u-a1/Pkg/aa_bb_cc.py''],
              ex_worDir, ?fs3)]"
  let ?w4 = "\<lparr>files = ?fs3(''/tmp/tmp-simulator-u-a1/Pkg/simulator.log'' \<mapsto> File ''Finished''),
             reported = [], spawned = ?S\<rparr>"
  have run: "base_runSimulation ex_process
               [PyStr ''jm_ipython.sh'', PyStr ''/tmp/tmp-simulator-u-a1/Pkg/aa_bb_cc.py'']
               t ex_worDir (ex_world\<lparr>files := ?fs3\<rparr>) = (Inr (), ?w4)" for t
    by (simp add: base_runSimulation_def run_effect_def ex_process_def ex_world_def)
       (simp add: ex_worDir_def)
  have spl: "os_path_split ex_worDir = (''/tmp/tmp-simulator-u-a1'', ''Pkg'')"
    by (simp add: ex_worDir_def split_wd)
  have fnd: "py_find ''/tmp/tmp-simulator-u-a1'' ''tmp-simulator-'' \<noteq> - 1" by simp
  have "delete_tree ex_worDir ''/tmp/tmp-simulator-u-a1'' ?w4
          = (Inr (), ?w4\<lparr>files := (\<lambda>q. if q = resolve ''/tmp/tmp-simulator-u-a1''
                                            \<or> below (resolve ''/tmp/tmp-simulator-u-a1'') q \<noteq> None
                                         then None else files ?w4 q)\<rparr>)"
    by (rule delete_tree_removes) (simp_all add: os_path_exists_def ex_worDir_def)
  then have del: "deleteTemporaryDirectory (Some ex_worDir) ?w4
          = (Inr (), ?w4\<lparr>files := (\<lambda>q. if q = resolve ''/tmp/tmp-simulator-u-a1''
                                            \<or> below (resolve ''/tmp/tmp-simulator-u-a1'') q \<noteq> None
                                         then None else files ?w4 q)\<rparr>)"
    using fnd by (simp add: deleteTemporaryDirectory_def spl Let_def)
  have tr: "Optimica_simulate_try ex_process ex_optimica_env
              (ex_optimica\<lparr>simulateDir := Some ex_worDir\<rparr>) ex_worDir
              ''/tmp/tmp-simulator-u-a1/Pkg/aa_bb_cc.py'' (ex_world\<lparr>files := ?fs3\<rparr>)
            = (Inr (), ?w4\<lparr>files := (\<lambda>q. if q = resolve ''/tmp/tmp-simulator-u-a1''
                                            \<or> below (resolve ''/tmp/tmp-simulator-u-a1'') q \<noteq> None
                                         then None else files ?w4 q)\<rparr>)"
    by (simp add: Optimica_simulate_try_def then_do_def run ex_optimica_env_def run_effect_def
          del)
  show ?thesis
    by (simp add: Optimica_simulate_def ex_Optimica_worDir Let_def ex_Optimica_script tr)
qed

section \<open>The external executables\<close>

text \<open>
  Claim C7. For an object of the class \<^verbatim>\<open>Dymola\<close>, \<^verbatim>\<open>_runSimulation\<close> hands the base class
  the command list \<^verbatim>\<open>dymola\<close>, the script path with every occurrence of the directory
  replaced by a dot, and \<^verbatim>\<open>/nowindow\<close> exactly when the GUI is off. A call of \<^verbatim>\<open>simulate\<close>
  or \<^verbatim>\<open>translate\<close> starts at most one process: its command list begins with \<^verbatim>\<open>dymola\<close>,
  followed by the script path with the working directory in front replaced by a dot. A
  call of \<^verbatim>\<open>Optimica.simulate\<close> starts at most one process, whose command list is
  \<^verbatim>\<open>jm_ipython.sh\<close> and the script file. Nothing else is started. The objects of the
  class \<^verbatim>\<open>Dymola\<close> are those that the statements of its constructor build and its methods
  change, on which \<^verbatim>\<open>_MODELICA_EXE\<close> stays \<^verbatim>\<open>dymola\<close>. \<^verbatim>\<open>Optimica.translate\<close> is not
  modelled: it calls \<^verbatim>\<open>_get_dymola_commands\<close>, which the class does not have, before it
  could run anything.
\<close>

theorem only_dymola_and_jm_ipython_are_started:
  "(Dymola_object self \<longrightarrow>
      Dymola_runSimulation P self mosFile timeout directory w
        = base_runSimulation P
            ([PyStr ''dymola'', PyStr (py_replace mosFile directory ''.'')]
             @ (if truthy (showGUI_attr self) then [] else [PyStr ''/nowindow'']))
            timeout directory w)
   \<and> (Dymola_object self \<and> Dymola_simulate env P D self w = (r, self', w') \<longrightarrow>
        spawned w' = spawned w
        \<or> (\<exists>worDir rest snap.
              os_path_join worDir ''run.mos'' = worDir @ rest
              \<and> spawned w' = spawned w @
                   [([PyStr ''dymola'', PyStr (''.'' @ rest)]
                     @ (if truthy (showGUI_attr self) then [] else [PyStr ''/nowindow'']),
                     worDir, snap)]))
   \<and> (Dymola_object self \<and> Dymola_translate env P D self w = (r, self', w') \<longrightarrow>
        spawned w' = spawned w
        \<or> (\<exists>worDir rest snap.
              os_path_join worDir ''run_translate.mos'' = worDir @ rest
              \<and> spawned w' = spawned w @
                   [([PyStr ''dymola'', PyStr (''.'' @ rest)]
                     @ (if truthy (showGUI_attr self) then [] else [PyStr ''/nowindow'']),
                     worDir, snap)]))
   \<and> (Optimica_simulate env P Q b w = (r2, b', w2') \<longrightarrow>
        spawned w2' = spawned w
        \<or> (\<exists>worDir file_name snap.
              spawned w2' = spawned w @
                [([PyStr ''jm_ipython.sh'', PyStr file_name], worDir, snap)]))"
proof (intro conjI impI)
  assume "Dymola_object self"
  then show "Dymola_runSimulation P self mosFile timeout directory w
        = base_runSimulation P
            ([PyStr ''dymola'', PyStr (py_replace mosFile directory ''.'')]
             @ (if truthy (showGUI_attr self) then [] else [PyStr ''/nowindow'']))
            timeout directory w"
    by (simp add: Dymola_runSimulation_def Let_def Dymola_object_exe)
next
  assume a: "Dymola_object self \<and> Dymola_simulate env P D self w = (r, self', w')"
  then have exe: "MODELICA_EXE self = PyStr ''dymola''" by (simp add: Dymola_object_exe)
  from a have "Dymola_simulate env P D self w = (r, self', w')" by simp
  from Dymola_simulate_spawned [OF this]
  show "spawned w' = spawned w
        \<or> (\<exists>worDir rest snap.
              os_path_join worDir ''run.mos'' = worDir @ rest
              \<and> spawned w' = spawned w @
                   [([PyStr ''dymola'', PyStr (''.'' @ rest)]
                     @ (if truthy (showGUI_attr self) then [] else [PyStr ''/nowindow'']),
                     worDir, snap)])"
  proof
    assume "spawned w' = spawned w"
    then show ?thesis by simp
  next
    assume "\<exists>worDir w0 w1 mi w2 script.
               Dymola_deleteOutputFiles D self w = (Inr (), w0)
               \<and> create_worDir env self w0 = (Inr worDir, w1)
               \<and> self' = self\<lparr>simulateDir := Some worDir\<rparr>
               \<and> Dymola_copy env D self' worDir [''*.svn'', ''*.git''] w1 = (Inr mi, w2)
               \<and> get_dymola_commands self' worDir ''simulator.log'' mi False = Inr script
               \<and> spawned w' = spawned w @
                  [((if truthy (showGUI_attr self)
                     then [MODELICA_EXE self,
                           PyStr (py_replace (os_path_join worDir ''run.mos'') worDir ''.'')]
                     else [MODELICA_EXE self,
                           PyStr (py_replace (os_path_join worDir ''run.mos'') worDir ''.''),
                           PyStr ''/nowindow'']),
                    worDir,
                    (files w2)(resolve (os_path_join worDir ''run.mos'') \<mapsto> File script))]"
    then obtain worDir w0 w1 snap where
      c: "create_worDir env self w0 = (Inr worDir, w1)"
      and sp: "spawned w' = spawned w @
                  [((if truthy (showGUI_attr self)
                     then [MODELICA_EXE self,
                           PyStr (py_replace (os_path_join worDir ''run.mos'') worDir ''.'')]
                     else [MODELICA_EXE self,
                           PyStr (py_replace (os_path_join worDir ''run.mos'') worDir ''.''),
                           PyStr ''/nowindow'']),
                    worDir, snap)]"
      by blast
    from script_path [OF create_worDir_dash [OF c], of "''run.mos''"]
    obtain rest where rest: "os_path_join worDir ''run.mos'' = worDir @ rest"
      "py_replace (os_path_join worDir ''run.mos'') worDir ''.'' = ''.'' @ rest"
      by (auto simp: sep_def)
    have "spawned w' = spawned w @
                   [([PyStr ''dymola'', PyStr (''.'' @ rest)]
                     @ (if truthy (showGUI_attr self) then [] else [PyStr ''/nowindow'']),
                     worDir, snap)]"
      using sp by (simp add: exe rest(2))
    with rest(1) show ?thesis by blast
  qed
next
  assume a: "Dymola_object self \<and> Dymola_translate env P D self w = (r, self', w')"
  then have exe: "MODELICA_EXE self = PyStr ''dymola''" by (simp add: Dymola_object_exe)
  from a have "Dymola_translate env P D self w = (r, self', w')" by simp
  from Dymola_translate_spawned [OF this]
  show "spawned w' = spawned w
        \<or> (\<exists>worDir rest snap.
              os_path_join worDir ''run_translate.mos'' = worDir @ rest
              \<and> spawned w' = spawned w @
                   [([PyStr ''dymola'', PyStr (''.'' @ rest)]
                     @ (if truthy (showGUI_attr self) then [] else [PyStr ''/nowindow'']),
                     worDir, snap)])"
  proof
    assume "spawned w' = spawned w"
    then show ?thesis by simp
  next
    assume "\<exists>worDir w0 w1 snap.
               create_worDir env self w0 = (Inr worDir, w1)
               \<and> spawned w' = spawned w @
                  [((if truthy (showGUI_attr self)
                     then [MODELICA_EXE self,
                           PyStr (py_replace (os_path_join worDir ''run_translate.mos'') worDir ''.'')]
                     else [MODELICA_EXE self,
                           PyStr (py_replace (os_path_join worDir ''run_translate.mos'') worDir ''.''),
                           PyStr ''/nowindow'']),
                    worDir, snap)]"
    then obtain worDir w0 w1 snap where
      c: "create_worDir env self w0 = (Inr worDir, w1)"
      and sp: "spawned w' = spawned w @
                  [((if truthy (showGUI_attr self)
                     then [MODELICA_EXE self,
                           PyStr (py_replace (os_path_join worDir ''run_translate.mos'') worDir ''.'')]
                     else [MODELICA_EXE self,
                           PyStr (py_replace (os_path_join worDir ''run_translate.mos'') worDir ''.''),
                           PyStr ''/nowindow'']),
                    worDir, snap)]"
      by blast
    from script_path [OF create_worDir_dash [OF c], of "''run_translate.mos''"]
    obtain rest where rest: "os_path_join worDir ''run_translate.mos'' = worDir @ rest"
      "py_replace (os_path_join worDir ''run_translate.mos'') worDir ''.'' = ''.'' @ rest"
      by (auto simp: sep_def)
    have "spawned w' = spawned w @
                   [([PyStr ''dymola'', PyStr (''.'' @ rest)]
                     @ (if truthy (showGUI_attr self) then [] else [PyStr ''/nowindow'']),
                     worDir, snap)]"
      using sp by (simp add: exe rest(2))
    with rest(1) show ?thesis by blast
  qed
next
  assume "Optimica_simulate env P Q b w = (r2, b', w2')"
  from Optimica_simulate_spawned [OF this]
  show "spawned w2' = spawned w
        \<or> (\<exists>worDir file_name snap.
              spawned w2' = spawned w @
                [([PyStr ''jm_ipython.sh'', PyStr file_name], worDir, snap)])"
    by blast
qed

lemma ex_dymola_object: "Dymola_object ex_dymola"
  unfolding ex_dymola_def
  by (intro Dymola_object.exitSim Dymola_object.assigned
        Dymola_object.constructed [OF ex_fresh_dymola_eq])

text \<open>On the example machine each class starts its executable once.\<close>

theorem only_dymola_and_jm_ipython_are_started_witness:
  "Dymola_object ex_dymola
   \<and> (\<exists>r self' w' snap.
         Dymola_simulate ex_env ex_process ex_dymola_env ex_dymola ex_world = (r, self', w')
         \<and> spawned w' = [([PyStr ''dymola'', PyStr ''./run.mos'', PyStr ''/nowindow''],
                           ex_worDir, snap)])
   \<and> (\<exists>r b' w' snap.
         Optimica_simulate ex_env ex_process ex_optimica_env ex_optimica ex_world = (r, b', w')
         \<and> spawned w' = [([PyStr ''jm_ipython.sh'',
                            PyStr ''/tmp/tmp-simulator-u-a1/Pkg/aa_bb_cc.py''],
                           ex_worDir, snap)])"
proof -
  from ex_Dymola_simulate obtain r self' w' snap where
    d: "Dymola_simulate ex_env ex_process ex_dymola_env ex_dymola ex_world = (r, self', w')"
       "spawned w' = [([PyStr ''dymola'', PyStr ''./run.mos'', PyStr ''/nowindow''],
                       ex_worDir, snap)]"
    by force
  from ex_Optimica_simulate obtain r2 b' w2' snap2 where
    o: "Optimica_simulate ex_env ex_process ex_optimica_env ex_optimica ex_world = (r2, b', w2')"
       "spawned w2' = [([PyStr ''jm_ipython.sh'',
                         PyStr ''/tmp/tmp-simulator-u-a1/Pkg/aa_bb_cc.py''],
                        ex_worDir, snap2)]"
    by force
  from only_dymola_and_jm_ipython_are_started
         [of ex_dymola ex_process _ _ _ ex_world ex_env ex_dymola_env r self' w' ex_optimica_env
             ex_optimica r2 b' w2']
    ex_dymola_object d o
  show ?thesis by blast
qed

subsection \<open>The directory that \<^verbatim>\<open>simulate\<close> deletes\<close>

lemma create_worDir_parent:
  assumes "create_worDir env self w0 = (Inr worDir, w1)"
  shows "\<exists>tmp. files w0 (resolve tmp) = None \<and> files w1 (resolve tmp) = Some Dir
           \<and> resolve (fst (os_path_split worDir)) = resolve tmp
           \<and> (\<forall>w2. deleteTemporaryDirectory (Some worDir) w2
                      = delete_tree worDir (fst (os_path_split worDir)) w2)"
proof -
  from create_worDir_Inr [OF assms] obtain pp tmp name where
    c: "tmp = os_path_join (gettempdir env) (''tmp-simulator-'' @ getuser env @ ''-'' @ name)"
       "worDir = os_path_join tmp (last (py_split sep (abspath env pp)))"
       "files w0 (resolve tmp) = None" "w1 = w0\<lparr>files := (files w0)(resolve tmp \<mapsto> Dir)\<rparr>"
    by blast
  let ?pfx = "''tmp-simulator-'' @ getuser env"
  have d: "sep \<notin> set (last (py_split sep (abspath env pp)))" by (rule py_split_last_no_sep)
  have tmp: "tmp = os_path_join (gettempdir env) (?pfx @ CHR ''-'' # name)"
    using c(1) by simp
  have pfx: "?pfx \<noteq> []" "hd ?pfx \<noteq> sep" by (simp_all add: sep_def)
  note p = parent_of_worDir [OF d tmp pfx]
  from p(2) obtain a where "py_rstrip sep tmp = a @ ?pfx @ CHR ''-'' # py_rstrip sep name"
    by blast
  then have "fst (os_path_split worDir)
               = a @ ''tmp-simulator-'' @ (getuser env @ CHR ''-'' # py_rstrip sep name)"
    using p(1) c(2) by simp
  then have "\<exists>pre suf. fst (os_path_split worDir) = pre @ ''tmp-simulator-'' @ suf"
    by blast
  then have "py_find (fst (os_path_split worDir)) ''tmp-simulator-'' \<noteq> - 1"
    by (simp only: py_find_contains not_not)
  then have "\<forall>w2. deleteTemporaryDirectory (Some worDir) w2
                      = delete_tree worDir (fst (os_path_split worDir)) w2"
    by (simp add: deleteTemporaryDirectory_def Let_def)
  moreover have "resolve (fst (os_path_split worDir)) = resolve tmp"
    using p(1,3) c(2) by simp
  moreover have "files w1 (resolve tmp) = Some Dir" using c(4) by simp
  ultimately show ?thesis using c(3) by blast
qed

lemma Dymola_simulate_success:
  assumes wd: "Dymola_worDir env D self w = (Inr worDir, w1)"
    and cp: "Dymola_copy env D (self\<lparr>simulateDir := Some worDir\<rparr>) worDir
               [''*.svn'', ''*.git''] w1 = (Inr mi, w2)"
    and run: "Dymola_write_and_run P (self\<lparr>simulateDir := Some worDir\<rparr>) worDir ''run.mos''
                ''simulator.log'' mi False w2 = (Inr (), w4)"
    and chk: "check_simulation_errors D worDir w4 = (Inr (), w5)"
    and cpy: "run_effect (copyNewFiles D (self\<lparr>simulateDir := Some worDir\<rparr>) worDir) w5
                = (Inr (), w6)"
  shows "\<exists>w'. Dymola_simulate env P D self w = (Inr (), self\<lparr>simulateDir := Some worDir\<rparr>, w')
           \<and> delete_tree worDir (fst (os_path_split worDir)) w6 = (Inr (), w')"
proof -
  from Dymola_worDir_Inr [OF wd] obtain w0 where "create_worDir env self w0 = (Inr worDir, w1)"
    by blast
  from create_worDir_parent [OF this]
  have del: "deleteTemporaryDirectory (Some worDir) w6
               = delete_tree worDir (fst (os_path_split worDir)) w6" by blast
  from delete_tree_returns [of worDir "fst (os_path_split worDir)" w6] obtain w' where
    w': "delete_tree worDir (fst (os_path_split worDir)) w6 = (Inr (), w')" by blast
  have "Dymola_simulate_try P D (self\<lparr>simulateDir := Some worDir\<rparr>) worDir mi w2 = (Inr (), w')"
    by (simp add: Dymola_simulate_try_def then_do_def run chk cpy del w')
  then have "Dymola_simulate env P D self w = (Inr (), self\<lparr>simulateDir := Some worDir\<rparr>, w')"
    by (simp add: Dymola_simulate_def wd cp Let_def)
  with w' show ?thesis by blast
qed

lemma Dymola_simulate_failure:
  assumes wd: "Dymola_worDir env D self w = (Inr worDir, w1)"
    and cp: "Dymola_copy env D (self\<lparr>simulateDir := Some worDir\<rparr>) worDir
               [''*.svn'', ''*.git''] w1 = (Inr mi, w2)"
    and step: "Dymola_write_and_run P (self\<lparr>simulateDir := Some worDir\<rparr>) worDir ''run.mos''
                ''simulator.log'' mi False w2 = (Inl e, w3)
               \<or> (\<exists>w4. Dymola_write_and_run P (self\<lparr>simulateDir := Some worDir\<rparr>) worDir
                          ''run.mos'' ''simulator.log'' mi False w2 = (Inr (), w4)
                    \<and> (check_simulation_errors D worDir w4 = (Inl e, w3)
                        \<or> (\<exists>w5. check_simulation_errors D worDir w4 = (Inr (), w5)
                              \<and> run_effect (copyNewFiles D (self\<lparr>simulateDir := Some worDir\<rparr>)
                                              worDir) w5 = (Inl e, w3))))"
  shows "Dymola_simulate env P D self w
           = (Inr (), self\<lparr>simulateDir := Some worDir\<rparr>,
              w3\<lparr>reported := reported w3 @ [simulation_failed worDir e]\<rparr>)"
proof -
  from step
  have "Dymola_simulate_try P D (self\<lparr>simulateDir := Some worDir\<rparr>) worDir mi w2 = (Inl e, w3)"
    by (auto simp: Dymola_simulate_try_def then_do_def)
  then show ?thesis
    by (simp add: Dymola_simulate_def wd cp Let_def writeError_def)
qed

lemma Optimica_simulate_success:
  assumes wd: "Optimica_worDir env b w = (Inr worDir, w1)"
    and sc: "Optimica_script Q (b\<lparr>simulateDir := Some worDir\<rparr>) worDir w1 = (Inr file_name, w2)"
    and run: "base_runSimulation P [PyStr ''jm_ipython.sh'', PyStr file_name]
                (dict_get (simulator (b\<lparr>simulateDir := Some worDir\<rparr>)) ''timeout'') worDir w2
                = (Inr (), w4)"
    and chk: "run_effect (check_simulation_errors_missing Q (b\<lparr>simulateDir := Some worDir\<rparr>)
                worDir) w4 = (Inr (), w5)"
    and cpy: "run_effect (copyResultFiles Q (b\<lparr>simulateDir := Some worDir\<rparr>) worDir) w5
                = (Inr (), w6)"
  shows "\<exists>w'. Optimica_simulate env P Q b w = (Inr (), b\<lparr>simulateDir := Some worDir\<rparr>, w')
           \<and> delete_tree worDir (fst (os_path_split worDir)) w6 = (Inr (), w')"
proof -
  from Optimica_worDir_Inr [OF wd] obtain w0 w1' where
    "create_worDir env b w0 = (Inr worDir, w1')" by blast
  from create_worDir_parent [OF this]
  have del: "deleteTemporaryDirectory (Some worDir) w6
               = delete_tree worDir (fst (os_path_split worDir)) w6" by blast
  from delete_tree_returns [of worDir "fst (os_path_split worDir)" w6] obtain w' where
    w': "delete_tree worDir (fst (os_path_split worDir)) w6 = (Inr (), w')" by blast
  have "Optimica_simulate_try P Q (b\<lparr>simulateDir := Some worDir\<rparr>) worDir file_name w2
          = (Inr (), w')"
    using run chk cpy by (simp add: Optimica_simulate_try_def then_do_def del w')
  then have "Optimica_simulate env P Q b w = (Inr (), b\<lparr>simulateDir := Some worDir\<rparr>, w')"
    by (simp add: Optimica_simulate_def wd sc Let_def)
  with w' show ?thesis by blast
qed

lemma Optimica_simulate_failure:
  assumes wd: "Optimica_worDir env b w = (Inr worDir, w1)"
    and sc: "Optimica_script Q (b\<lparr>simulateDir := Some worDir\<rparr>) worDir w1 = (Inr file_name, w2)"
    and step: "base_runSimulation P [PyStr ''jm_ipython.sh'', PyStr file_name]
                (dict_get (simulator (b\<lparr>simulateDir := Some worDir\<rparr>)) ''timeout'') worDir w2
                = (Inl e, w3)
               \<or> (\<exists>w4. base_runSimulation P [PyStr ''jm_ipython.sh'', PyStr file_name]
                          (dict_get (simulator (b\<lparr>simulateDir := Some worDir\<rparr>)) ''timeout'')
                          worDir w2 = (Inr (), w4)
                    \<and> (run_effect (check_simulation_errors_missing Q
                                      (b\<lparr>simulateDir := Some worDir\<rparr>) worDir) w4 = (Inl e, w3)
                        \<or> (\<exists>w5. run_effect (check_simulation_errors_missing Q
                                      (b\<lparr>simulateDir := Some worDir\<rparr>) worDir) w4 = (Inr (), w5)
                              \<and> run_effect (copyResultFiles Q (b\<lparr>simulateDir := Some worDir\<rparr>)
                                              worDir) w5 = (Inl e, w3))))"
  shows "Optimica_simulate env P Q b w
           = (Inr (), b\<lparr>simulateDir := Some worDir\<rparr>,
              w3\<lparr>reported := reported w3 @ [simulation_failed worDir e]\<rparr>)"
proof -
  from step
  have "Optimica_simulate_try P Q (b\<lparr>simulateDir := Some worDir\<rparr>) worDir file_name w2
          = (Inl e, w3)"
    by (auto simp: Optimica_simulate_try_def then_do_def)
  then show ?thesis
    by (simp add: Optimica_simulate_def wd sc Let_def writeError_def)
qed

section \<open>The end of a simulation\<close>

text \<open>
  Claim C6, for \<^verbatim>\<open>Dymola.simulate\<close> and for \<^verbatim>\<open>Optimica.simulate\<close>, once the working
  directory exists and the \<^verbatim>\<open>try\<close> statement is reached. When the run of the simulator,
  the check of the log and the copy of the output files all succeed, the call returns
  normally and its last step is the deletion branch of \<^verbatim>\<open>_deleteTemporaryDirectory\<close> on
  the parent of the working directory: if the working directory and that parent are
  still there, the parent and everything below it are gone afterwards. When one of the
  three steps raises an exception, the call still returns normally; the world is as the
  failing step left it, so nothing was deleted, but for one more message to the
  reporter, which names the directory and the exception and tells the user to delete
  the directory manually.
\<close>

theorem simulate_deletes_or_reports:
  "(Dymola_worDir env D self w = (Inr worDir, w1)
    \<and> Dymola_copy env D (self\<lparr>simulateDir := Some worDir\<rparr>) worDir
          [''*.svn'', ''*.git''] w1 = (Inr mi, w2)
    \<and> Dymola_write_and_run P (self\<lparr>simulateDir := Some worDir\<rparr>) worDir ''run.mos''
          ''simulator.log'' mi False w2 = (Inr (), w4)
    \<and> check_simulation_errors D worDir w4 = (Inr (), w5)
    \<and> run_effect (copyNewFiles D (self\<lparr>simulateDir := Some worDir\<rparr>) worDir) w5 = (Inr (), w6)
    \<longrightarrow>
      (\<exists>w'. Dymola_simulate env P D self w = (Inr (), self\<lparr>simulateDir := Some worDir\<rparr>, w')
          \<and> delete_tree worDir (fst (os_path_split worDir)) w6 = (Inr (), w')
          \<and> (os_path_exists (files w6) worDir
               \<and> os_path_isdir (files w6) (fst (os_path_split worDir)) \<longrightarrow>
              w' = w6\<lparr>files := (\<lambda>q. if q = resolve (fst (os_path_split worDir))
                                       \<or> below (resolve (fst (os_path_split worDir))) q \<noteq> None
                                    then None else files w6 q)\<rparr>)))
   \<and> (Dymola_worDir env D self w = (Inr worDir, w1)
      \<and> Dymola_copy env D (self\<lparr>simulateDir := Some worDir\<rparr>) worDir
            [''*.svn'', ''*.git''] w1 = (Inr mi, w2)
      \<and> (Dymola_write_and_run P (self\<lparr>simulateDir := Some worDir\<rparr>) worDir ''run.mos''
                ''simulator.log'' mi False w2 = (Inl e, w3)
          \<or> (\<exists>w4. Dymola_write_and_run P (self\<lparr>simulateDir := Some worDir\<rparr>) worDir
                          ''run.mos'' ''simulator.log'' mi False w2 = (Inr (), w4)
                \<and> (check_simulation_errors D worDir w4 = (Inl e, w3)
                    \<or> (\<exists>w5. check_simulation_errors D worDir w4 = (Inr (), w5)
                          \<and> run_effect (copyNewFiles D (self\<lparr>simulateDir := Some worDir\<rparr>)
                                          worDir) w5 = (Inl e, w3)))))
    \<longrightarrow>
      Dymola_simulate env P D self w
        = (Inr (), self\<lparr>simulateDir := Some worDir\<rparr>,
           w3\<lparr>reported := reported w3 @
                 [''Simulation failed in '' @ apos @ worDir @ apos @ nl
                  @ ''   Exception: '' @ exn_str e @ ''.'' @ nl
                  @ ''   You need to delete the directory manually.'' @ nl]\<rparr>))
   \<and> (Optimica_worDir env b w = (Inr worDir, w1)
      \<and> Optimica_script Q (b\<lparr>simulateDir := Some worDir\<rparr>) worDir w1 = (Inr file_name, w2)
      \<and> base_runSimulation P [PyStr ''jm_ipython.sh'', PyStr file_name]
            (dict_get (simulator (b\<lparr>simulateDir := Some worDir\<rparr>)) ''timeout'') worDir w2
          = (Inr (), w4)
      \<and> run_effect (check_simulation_errors_missing Q (b\<lparr>simulateDir := Some worDir\<rparr>)
                worDir) w4 = (Inr (), w5)
      \<and> run_effect (copyResultFiles Q (b\<lparr>simulateDir := Some worDir\<rparr>) worDir) w5
          = (Inr (), w6)
    \<longrightarrow>
      (\<exists>w'. Optimica_simulate env P Q b w = (Inr (), b\<lparr>simulateDir := Some worDir\<rparr>, w')
          \<and> delete_tree worDir (fst (os_path_split worDir)) w6 = (Inr (), w')
          \<and> (os_path_exists (files w6) worDir
               \<and> os_path_isdir (files w6) (fst (os_path_split worDir)) \<longrightarrow>
              w' = w6\<lparr>files := (\<lambda>q. if q = resolve (fst (os_path_split worDir))
                                       \<or> below (resolve (fst (os_path_split worDir))) q \<noteq> None
                                    then None else files w6 q)\<rparr>)))
   \<and> (Optimica_worDir env b w = (Inr worDir, w1)
      \<and> Optimica_script Q (b\<lparr>simulateDir := Some worDir\<rparr>) worDir w1 = (Inr file_name, w2)
      \<and> (base_runSimulation P [PyStr ''jm_ipython.sh'', PyStr file_name]
                (dict_get (simulator (b\<lparr>simulateDir := Some worDir\<rparr>)) ''timeout'') worDir w2
                = (Inl e, w3)
          \<or> (\<exists>w4. base_runSimulation P [PyStr ''jm_ipython.sh'', PyStr file_name]
                          (dict_get (simulator (b\<lparr>simulateDir := Some worDir\<rparr>)) ''timeout'')
                          worDir w2 = (Inr (), w4)
                \<and> (run_effect (check_simulation_errors_missing Q
                                  (b\<lparr>simulateDir := Some worDir\<rparr>) worDir) w4 = (Inl e, w3)
                    \<or> (\<exists>w5. run_effect (check_simulation_errors_missing Q
                                  (b\<lparr>simulateDir := Some worDir\<rparr>) worDir) w4 = (Inr (), w5)
                          \<and> run_effect (copyResultFiles Q (b\<lparr>simulateDir := Some worDir\<rparr>)
                                          worDir) w5 = (Inl e, w3)))))
    \<longrightarrow>
      Optimica_simulate env P Q b w
        = (Inr (), b\<lparr>simulateDir := Some worDir\<rparr>,
           w3\<lparr>reported := reported w3 @
                 [''Simulation failed in '' @ apos @ worDir @ apos @ nl
                  @ ''   Exception: '' @ exn_str e @ ''.'' @ nl
                  @ ''   You need to delete the directory manually.'' @ nl]\<rparr>))"
proof -
  have removes: "w' = w6\<lparr>files := (\<lambda>q. if q = resolve (fst (os_path_split worDir))
                                       \<or> below (resolve (fst (os_path_split worDir))) q \<noteq> None
                                    then None else files w6 q)\<rparr>"
    if "delete_tree worDir (fst (os_path_split worDir)) w6 = (Inr (), w')"
      and "os_path_exists (files w6) worDir"
      and "os_path_isdir (files w6) (fst (os_path_split worDir))" for w'
    using that delete_tree_removes [of w6 worDir "fst (os_path_split worDir)"]
    by (simp add: os_path_isdir_def)
  have 1: "\<exists>w'. Dymola_simulate env P D self w = (Inr (), self\<lparr>simulateDir := Some worDir\<rparr>, w')
          \<and> delete_tree worDir (fst (os_path_split worDir)) w6 = (Inr (), w')
          \<and> (os_path_exists (files w6) worDir
               \<and> os_path_isdir (files w6) (fst (os_path_split worDir)) \<longrightarrow>
              w' = w6\<lparr>files := (\<lambda>q. if q = resolve (fst (os_path_split worDir))
                                       \<or> below (resolve (fst (os_path_split worDir))) q \<noteq> None
                                    then None else files w6 q)\<rparr>)"
    if "Dymola_worDir env D self w = (Inr worDir, w1)"
      "Dymola_copy env D (self\<lparr>simulateDir := Some worDir\<rparr>) worDir
          [''*.svn'', ''*.git''] w1 = (Inr mi, w2)"
      "Dymola_write_and_run P (self\<lparr>simulateDir := Some worDir\<rparr>) worDir ''run.mos''
          ''simulator.log'' mi False w2 = (Inr (), w4)"
      "check_simulation_errors D worDir w4 = (Inr (), w5)"
      "run_effect (copyNewFiles D (self\<lparr>simulateDir := Some worDir\<rparr>) worDir) w5 = (Inr (), w6)"
    using Dymola_simulate_success [OF that] removes by blast
  have 3: "\<exists>w'. Optimica_simulate env P Q b w = (Inr (), b\<lparr>simulateDir := Some worDir\<rparr>, w')
          \<and> delete_tree worDir (fst (os_path_split worDir)) w6 = (Inr (), w')
          \<and> (os_path_exists (files w6) worDir
               \<and> os_path_isdir (files w6) (fst (os_path_split worDir)) \<longrightarrow>
              w' = w6\<lparr>files := (\<lambda>q. if q = resolve (fst (os_path_split worDir))
                                       \<or> below (resolve (fst (os_path_split worDir))) q \<noteq> None
                                    then None else files w6 q)\<rparr>)"
    if "Optimica_worDir env b w = (Inr worDir, w1)"
      "Optimica_script Q (b\<lparr>simulateDir := Some worDir\<rparr>) worDir w1 = (Inr file_name, w2)"
      "base_runSimulation P [PyStr ''jm_ipython.sh'', PyStr file_name]
            (dict_get (simulator (b\<lparr>simulateDir := Some worDir\<rparr>)) ''timeout'') worDir w2
          = (Inr (), w4)"
      "run_effect (check_simulation_errors_missing Q (b\<lparr>simulateDir := Some worDir\<rparr>)
                worDir) w4 = (Inr (), w5)"
      "run_effect (copyResultFiles Q (b\<lparr>simulateDir := Some worDir\<rparr>) worDir) w5
          = (Inr (), w6)"
    using Optimica_simulate_success [OF that] removes by blast
  show ?thesis
    apply (intro conjI impI)
    subgoal using 1 by blast
    subgoal by (elim conjE) (drule (2) Dymola_simulate_failure, simp add: simulation_failed_def)
    subgoal using 3 by blast
    subgoal by (elim conjE) (drule (2) Optimica_simulate_failure, simp add: simulation_failed_def)
    done
qed

lemma ex_check_ok:
  "check_simulation_errors ex_dymola_env ex_worDir
     \<lparr>files = ex_copied(''/tmp/tmp-simulator-u-a1/Pkg/run.mos'' \<mapsto> File script,
                        ''/tmp/tmp-simulator-u-a1/Pkg/simulator.log'' \<mapsto> File ''Finished''),
      reported = [], spawned = S\<rparr>
   = (Inr (),
      \<lparr>files = ex_copied(''/tmp/tmp-simulator-u-a1/Pkg/run.mos'' \<mapsto> File script,
                         ''/tmp/tmp-simulator-u-a1/Pkg/simulator.log'' \<mapsto> File ''Finished''),
       reported = [], spawned = S\<rparr>)"
  by (simp add: check_simulation_errors_def ex_dymola_env_def ex_scraper_def ex_worDir_def
        Let_def)

lemma ex_check_error:
  "check_simulation_errors ex_dymola_env ex_worDir
     \<lparr>files = ex_copied(''/tmp/tmp-simulator-u-a1/Pkg/run.mos'' \<mapsto> File script,
                        ''/tmp/tmp-simulator-u-a1/Pkg/simulator.log'' \<mapsto> File ''Error: singular''),
      reported = [], spawned = S\<rparr>
   = (Inl (IOError [] None),
      \<lparr>files = ex_copied(''/tmp/tmp-simulator-u-a1/Pkg/run.mos'' \<mapsto> File script,
                         ''/tmp/tmp-simulator-u-a1/Pkg/simulator.log'' \<mapsto> File ''Error: singular''),
       reported = [''Error: singular''], spawned = S\<rparr>)"
  by (simp add: check_simulation_errors_def ex_dymola_env_def ex_scraper_def ex_worDir_def
        Let_def)

lemma ex_copyNewFiles_ok:
  "run_effect (copyNewFiles ex_dymola_env self worDir) w = (Inr (), w)"
  by (simp add: run_effect_def ex_dymola_env_def)

lemma ex_write_and_run_error:
  "\<exists>script. Dymola_write_and_run ex_process_error (ex_dymola\<lparr>simulateDir := Some ex_worDir\<rparr>)
      ex_worDir ''run.mos'' ''simulator.log'' mi False (ex_world\<lparr>files := ex_copied\<rparr>)
    = (Inr (), \<lparr>files = ex_copied(''/tmp/tmp-simulator-u-a1/Pkg/run.mos'' \<mapsto> File script,
                              ''/tmp/tmp-simulator-u-a1/Pkg/simulator.log'' \<mapsto> File ''Error: singular''),
                reported = [],
                spawned = [([PyStr ''dymola'', PyStr ''./run.mos'', PyStr ''/nowindow''], ex_worDir,
                            ex_copied(''/tmp/tmp-simulator-u-a1/Pkg/run.mos'' \<mapsto> File script))]\<rparr>)"
  by (rule exI [of _ "unlines (script_lines (ex_dymola\<lparr>simulateDir := Some ex_worDir\<rparr>)
                                 ex_worDir ''simulator.log'' mi False True)"])
     (simp add: Dymola_write_and_run_def Let_def then_do_def lift_fs_def write_file_def
        get_dymola_commands_lines ex_dymola_fields Dymola_runSimulation_def
        base_runSimulation_def run_effect_def ex_process_error_def ex_world_def ex_worDir_def
        ex_copied_at dict_get_def)

lemma ex_Dymola_worDir':
  "Dymola_worDir ex_env ex_dymola_env ex_dymola ex_world
     = (Inr ex_worDir, ex_world\<lparr>files := ex_files(''/tmp/tmp-simulator-u-a1'' \<mapsto> Dir)\<rparr>)"
  using ex_Dymola_worDir by (simp add: ex_worDir_def)

lemma ex_split_worDir: "fst (os_path_split ex_worDir) = ''/tmp/tmp-simulator-u-a1''"
  by (simp add: ex_worDir_def split_wd)

lemma ex_Optimica_script_missing:
  "Optimica_script ex_optimica_env_missing (ex_optimica\<lparr>simulateDir := Some ex_worDir\<rparr>)
     ex_worDir
     (ex_world\<lparr>files := ex_files(''/tmp/tmp-simulator-u-a1'' \<mapsto> Dir,
                                  ''/tmp/tmp-simulator-u-a1/Pkg'' \<mapsto> Dir)\<rparr>)
   = (Inr ''/tmp/tmp-simulator-u-a1/Pkg/aa_bb_cc.py'',
      ex_world\<lparr>files := ex_files(''/tmp/tmp-simulator-u-a1'' \<mapsto> Dir,
                                   ''/tmp/tmp-simulator-u-a1/Pkg'' \<mapsto> Dir,
                                   ''/tmp/tmp-simulator-u-a1/Pkg/aa_bb_cc.py'' \<mapsto> File ''# script'')\<rparr>)"
proof -
  have r: "resolve ''/tmp/tmp-simulator-u-a1/Pkg/aa_bb_cc.py'' = ''/tmp/tmp-simulator-u-a1/Pkg/aa_bb_cc.py''"
    by (simp add: resolve_def py_rstrip_def sep_def)
  have j: "os_path_join ex_worDir ''aa_bb_cc.py'' = ''/tmp/tmp-simulator-u-a1/Pkg/aa_bb_cc.py''"
    by (simp add: os_path_join_def ex_worDir_def sep_def)
  have nd: "ex_files ''/tmp/tmp-simulator-u-a1/Pkg/aa_bb_cc.py'' = None"
    by (simp add: ex_files_def)
  show ?thesis
    by (simp add: Optimica_script_def ex_optimica_env_missing_def ex_optimica_fields j Let_def
          then_do_def lift_fs_def write_file_def r nd)
qed

lemma ex_jm_run:
  "base_runSimulation ex_process
     [PyStr ''jm_ipython.sh'', PyStr ''/tmp/tmp-simulator-u-a1/Pkg/aa_bb_cc.py''] t ex_worDir
     (ex_world\<lparr>files := fs\<rparr>)
   = (Inr (),
      \<lparr>files = fs(''/tmp/tmp-simulator-u-a1/Pkg/simulator.log'' \<mapsto> File ''Finished''),
       reported = [],
       spawned = [([PyStr ''jm_ipython.sh'', PyStr ''/tmp/tmp-simulator-u-a1/Pkg/aa_bb_cc.py''],
                   ex_worDir, fs)]\<rparr>)"
  by (simp add: base_runSimulation_def run_effect_def ex_process_def ex_world_def)
     (simp add: ex_worDir_def)

lemma ex_check_missing:
  "run_effect (check_simulation_errors_missing ex_optimica_env_missing self worDir) w
     = (Inl (no_attribute ''_check_simulation_errors''), w)"
  by (simp add: run_effect_def ex_optimica_env_missing_def)

text \<open>On the example machine: a clean run of Dymola ends with the temporary directory
  gone; a run whose log holds an error ends normally with two messages and the directory
  still there; and so does a run of \<^verbatim>\<open>Optimica.simulate\<close> in which
  \<^verbatim>\<open>_check_simulation_errors\<close> is missing.\<close>

theorem simulate_deletes_or_reports_witness:
  "(\<exists>w'. Dymola_simulate ex_env ex_process ex_dymola_env ex_dymola ex_world
            = (Inr (), ex_dymola\<lparr>simulateDir := Some ex_worDir\<rparr>, w')
         \<and> files w' ''/tmp/tmp-simulator-u-a1'' = None
         \<and> files w' ''/tmp/tmp-simulator-u-a1/Pkg'' = None
         \<and> reported w' = [])
   \<and> (\<exists>w3. Dymola_simulate ex_env ex_process_error ex_dymola_env ex_dymola ex_world
            = (Inr (), ex_dymola\<lparr>simulateDir := Some ex_worDir\<rparr>,
               w3\<lparr>reported := [''Error: singular'',
                                 simulation_failed ex_worDir (IOError [] None)]\<rparr>)
         \<and> files w3 ''/tmp/tmp-simulator-u-a1'' = Some Dir
         \<and> files w3 ''/tmp/tmp-simulator-u-a1/Pkg'' = Some Dir)
   \<and> (\<exists>w3. Optimica_simulate ex_env ex_process ex_optimica_env_missing ex_optimica ex_world
            = (Inr (), ex_optimica\<lparr>simulateDir := Some ex_worDir\<rparr>,
               w3\<lparr>reported := [simulation_failed ex_worDir
                                  (no_attribute ''_check_simulation_errors'')]\<rparr>)
         \<and> files w3 ''/tmp/tmp-simulator-u-a1'' = Some Dir
         \<and> files w3 ''/tmp/tmp-simulator-u-a1/Pkg'' = Some Dir)"
proof -
  let ?self = "ex_dymola\<lparr>simulateDir := Some ex_worDir\<rparr>"
  let ?mi = "model_instance ex_dymola []"
  let ?S = "\<lambda>script. [([PyStr ''dymola'', PyStr ''./run.mos'', PyStr ''/nowindow''], ex_worDir,
                            ex_copied(''/tmp/tmp-simulator-u-a1/Pkg/run.mos'' \<mapsto> File script))]"
  from ex_write_and_run [of ?mi] obtain script where
    run: "Dymola_write_and_run ex_process ?self ex_worDir ''run.mos'' ''simulator.log''
            ?mi False (ex_world\<lparr>files := ex_copied\<rparr>)
          = (Inr (), \<lparr>files = ex_copied(''/tmp/tmp-simulator-u-a1/Pkg/run.mos'' \<mapsto> File script,
                              ''/tmp/tmp-simulator-u-a1/Pkg/simulator.log'' \<mapsto> File ''Finished''),
                reported = [], spawned = ?S script\<rparr>)"
    by blast
  let ?w4 = "\<lparr>files = ex_copied(''/tmp/tmp-simulator-u-a1/Pkg/run.mos'' \<mapsto> File script,
                              ''/tmp/tmp-simulator-u-a1/Pkg/simulator.log'' \<mapsto> File ''Finished''),
                reported = [], spawned = ?S script\<rparr>"
  have exists: "os_path_exists (files ?w4) ex_worDir"
    by (simp add: os_path_exists_def ex_worDir_def ex_copied_at)
  have isdir: "os_path_isdir (files ?w4) (fst (os_path_split ex_worDir))"
    by (simp add: os_path_isdir_def ex_split_worDir ex_copied_at)
  have h1: "Dymola_worDir ex_env ex_dymola_env ex_dymola ex_world
              = (Inr ex_worDir, ex_world\<lparr>files := ex_files(''/tmp/tmp-simulator-u-a1'' \<mapsto> Dir)\<rparr>)
    \<and> Dymola_copy ex_env ex_dymola_env ?self ex_worDir [''*.svn'', ''*.git'']
          (ex_world\<lparr>files := ex_files(''/tmp/tmp-simulator-u-a1'' \<mapsto> Dir)\<rparr>)
        = (Inr ?mi, ex_world\<lparr>files := ex_copied\<rparr>)
    \<and> Dymola_write_and_run ex_process ?self ex_worDir ''run.mos'' ''simulator.log'' ?mi False
          (ex_world\<lparr>files := ex_copied\<rparr>) = (Inr (), ?w4)
    \<and> check_simulation_errors ex_dymola_env ex_worDir ?w4 = (Inr (), ?w4)
    \<and> run_effect (copyNewFiles ex_dymola_env ?self ex_worDir) ?w4 = (Inr (), ?w4)"
    by (intro conjI ex_Dymola_worDir' ex_Dymola_copy run ex_check_ok ex_copyNewFiles_ok)
  from simulate_deletes_or_reports
         [where env = ex_env and D = ex_dymola_env and self = ex_dymola and w = ex_world
            and worDir = ex_worDir and mi = ?mi and P = ex_process
            and ?w1.0 = "ex_world\<lparr>files := ex_files(''/tmp/tmp-simulator-u-a1'' \<mapsto> Dir)\<rparr>"
            and ?w2.0 = "ex_world\<lparr>files := ex_copied\<rparr>"
            and ?w4.0 = ?w4 and ?w5.0 = ?w4 and ?w6.0 = ?w4, THEN conjunct1, THEN mp, OF h1]
  obtain w' where
    ok: "Dymola_simulate ex_env ex_process ex_dymola_env ex_dymola ex_world = (Inr (), ?self, w')"
    and imp: "os_path_exists (files ?w4) ex_worDir
               \<and> os_path_isdir (files ?w4) (fst (os_path_split ex_worDir)) \<longrightarrow>
              w' = ?w4\<lparr>files := (\<lambda>q. if q = resolve (fst (os_path_split ex_worDir))
                                       \<or> below (resolve (fst (os_path_split ex_worDir))) q \<noteq> None
                                    then None else files ?w4 q)\<rparr>"
    by (elim exE conjE)
  from imp exists isdir
  have w': "w' = ?w4\<lparr>files := (\<lambda>q. if q = resolve (fst (os_path_split ex_worDir))
                                       \<or> below (resolve (fst (os_path_split ex_worDir))) q \<noteq> None
                                    then None else files ?w4 q)\<rparr>"
    by (elim impE) (rule conjI)
  have gone: "files w' ''/tmp/tmp-simulator-u-a1'' = None"
    "files w' ''/tmp/tmp-simulator-u-a1/Pkg'' = None" "reported w' = []"
    by (simp_all add: w' ex_split_worDir below_def sep_def)
  from ex_write_and_run_error [of ?mi] obtain script2 where
    run2: "Dymola_write_and_run ex_process_error ?self ex_worDir ''run.mos'' ''simulator.log''
            ?mi False (ex_world\<lparr>files := ex_copied\<rparr>)
          = (Inr (), \<lparr>files = ex_copied(''/tmp/tmp-simulator-u-a1/Pkg/run.mos'' \<mapsto> File script2,
                              ''/tmp/tmp-simulator-u-a1/Pkg/simulator.log'' \<mapsto> File ''Error: singular''),
                reported = [], spawned = ?S script2\<rparr>)"
    by blast
  let ?w4e = "\<lparr>files = ex_copied(''/tmp/tmp-simulator-u-a1/Pkg/run.mos'' \<mapsto> File script2,
                              ''/tmp/tmp-simulator-u-a1/Pkg/simulator.log'' \<mapsto> File ''Error: singular''),
                reported = [], spawned = ?S script2\<rparr>"
  let ?w3 = "?w4e\<lparr>reported := [''Error: singular'']\<rparr>"
  have h2: "Dymola_worDir ex_env ex_dymola_env ex_dymola ex_world
              = (Inr ex_worDir, ex_world\<lparr>files := ex_files(''/tmp/tmp-simulator-u-a1'' \<mapsto> Dir)\<rparr>)
    \<and> Dymola_copy ex_env ex_dymola_env ?self ex_worDir [''*.svn'', ''*.git'']
          (ex_world\<lparr>files := ex_files(''/tmp/tmp-simulator-u-a1'' \<mapsto> Dir)\<rparr>)
        = (Inr ?mi, ex_world\<lparr>files := ex_copied\<rparr>)
    \<and> (Dymola_write_and_run ex_process_error ?self ex_worDir ''run.mos'' ''simulator.log'' ?mi
          False (ex_world\<lparr>files := ex_copied\<rparr>) = (Inl (IOError [] None), ?w3)
        \<or> (\<exists>w4. Dymola_write_and_run ex_process_error ?self ex_worDir ''run.mos''
                    ''simulator.log'' ?mi False (ex_world\<lparr>files := ex_copied\<rparr>) = (Inr (), w4)
              \<and> (check_simulation_errors ex_dymola_env ex_worDir w4 = (Inl (IOError [] None), ?w3)
                  \<or> (\<exists>w5. check_simulation_errors ex_dymola_env ex_worDir w4 = (Inr (), w5)
                        \<and> run_effect (copyNewFiles ex_dymola_env ?self ex_worDir) w5
                            = (Inl (IOError [] None), ?w3)))))"
  proof -
    have c: "check_simulation_errors ex_dymola_env ex_worDir ?w4e = (Inl (IOError [] None), ?w3)"
      by (simp add: ex_check_error)
    have "\<exists>w4. Dymola_write_and_run ex_process_error ?self ex_worDir ''run.mos''
                    ''simulator.log'' ?mi False (ex_world\<lparr>files := ex_copied\<rparr>) = (Inr (), w4)
              \<and> (check_simulation_errors ex_dymola_env ex_worDir w4 = (Inl (IOError [] None), ?w3)
                  \<or> (\<exists>w5. check_simulation_errors ex_dymola_env ex_worDir w4 = (Inr (), w5)
                        \<and> run_effect (copyNewFiles ex_dymola_env ?self ex_worDir) w5
                            = (Inl (IOError [] None), ?w3)))"
      by (rule exI [of _ ?w4e]) (intro conjI run2 disjI1 c)
    then show ?thesis by (intro conjI ex_Dymola_worDir' ex_Dymola_copy disjI2)
  qed
  from simulate_deletes_or_reports
         [where env = ex_env and D = ex_dymola_env and self = ex_dymola and w = ex_world
            and worDir = ex_worDir and mi = ?mi and P = ex_process_error
            and ?w1.0 = "ex_world\<lparr>files := ex_files(''/tmp/tmp-simulator-u-a1'' \<mapsto> Dir)\<rparr>"
            and ?w2.0 = "ex_world\<lparr>files := ex_copied\<rparr>"
            and e = "IOError [] None" and ?w3.0 = ?w3,
          THEN conjunct2, THEN conjunct1, THEN mp, OF h2]
  have failed: "Dymola_simulate ex_env ex_process_error ex_dymola_env ex_dymola ex_world
        = (Inr (), ?self,
           ?w3\<lparr>reported := reported ?w3 @ [simulation_failed ex_worDir (IOError [] None)]\<rparr>)"
    by (simp only: simulation_failed_def)
  have "Dymola_simulate ex_env ex_process_error ex_dymola_env ex_dymola ex_world
            = (Inr (), ?self, ?w3\<lparr>reported := [''Error: singular'',
                                 simulation_failed ex_worDir (IOError [] None)]\<rparr>)
         \<and> files ?w3 ''/tmp/tmp-simulator-u-a1'' = Some Dir
         \<and> files ?w3 ''/tmp/tmp-simulator-u-a1/Pkg'' = Some Dir"
    using failed by (simp add: ex_copied_at)
  then have second:
    "\<exists>w3. Dymola_simulate ex_env ex_process_error ex_dymola_env ex_dymola ex_world
            = (Inr (), ?self, w3\<lparr>reported := [''Error: singular'',
                                 simulation_failed ex_worDir (IOError [] None)]\<rparr>)
         \<and> files w3 ''/tmp/tmp-simulator-u-a1'' = Some Dir
         \<and> files w3 ''/tmp/tmp-simulator-u-a1/Pkg'' = Some Dir"
    by (rule exI [of _ ?w3])
  have first:
    "\<exists>w'. Dymola_simulate ex_env ex_process ex_dymola_env ex_dymola ex_world
            = (Inr (), ?self, w')
         \<and> files w' ''/tmp/tmp-simulator-u-a1'' = None
         \<and> files w' ''/tmp/tmp-simulator-u-a1/Pkg'' = None
         \<and> reported w' = []"
    by (rule exI [of _ w']) (intro conjI ok gone)
  let ?b = "ex_optimica\<lparr>simulateDir := Some ex_worDir\<rparr>"
  let ?fs2 = "ex_files(''/tmp/tmp-simulator-u-a1'' \<mapsto> Dir, ''/tmp/tmp-simulator-u-a1/Pkg'' \<mapsto> Dir)"
  let ?fs3 = "ex_files(''/tmp/tmp-simulator-u-a1'' \<mapsto> Dir, ''/tmp/tmp-simulator-u-a1/Pkg'' \<mapsto> Dir,
                       ''/tmp/tmp-simulator-u-a1/Pkg/aa_bb_cc.py'' \<mapsto> File ''# script'')"
  let ?py = "''/tmp/tmp-simulator-u-a1/Pkg/aa_bb_cc.py''"
  let ?w4o = "\<lparr>files = ?fs3(''/tmp/tmp-simulator-u-a1/Pkg/simulator.log'' \<mapsto> File ''Finished''),
              reported = [],
              spawned = [([PyStr ''jm_ipython.sh'', PyStr ?py], ex_worDir, ?fs3)]\<rparr>"
  have h3: "Optimica_worDir ex_env ex_optimica ex_world = (Inr ex_worDir, ex_world\<lparr>files := ?fs2\<rparr>)
    \<and> Optimica_script ex_optimica_env_missing ?b ex_worDir (ex_world\<lparr>files := ?fs2\<rparr>)
        = (Inr ?py, ex_world\<lparr>files := ?fs3\<rparr>)
    \<and> (base_runSimulation ex_process [PyStr ''jm_ipython.sh'', PyStr ?py]
           (dict_get (simulator ?b) ''timeout'') ex_worDir (ex_world\<lparr>files := ?fs3\<rparr>)
          = (Inl (no_attribute ''_check_simulation_errors''), ?w4o)
        \<or> (\<exists>w4. base_runSimulation ex_process [PyStr ''jm_ipython.sh'', PyStr ?py]
                    (dict_get (simulator ?b) ''timeout'') ex_worDir (ex_world\<lparr>files := ?fs3\<rparr>)
                   = (Inr (), w4)
              \<and> (run_effect (check_simulation_errors_missing ex_optimica_env_missing ?b ex_worDir) w4
                    = (Inl (no_attribute ''_check_simulation_errors''), ?w4o)
                  \<or> (\<exists>w5. run_effect (check_simulation_errors_missing ex_optimica_env_missing ?b
                                          ex_worDir) w4 = (Inr (), w5)
                        \<and> run_effect (copyResultFiles ex_optimica_env_missing ?b ex_worDir) w5
                            = (Inl (no_attribute ''_check_simulation_errors''), ?w4o)))))"
  proof -
    have "\<exists>w4. base_runSimulation ex_process [PyStr ''jm_ipython.sh'', PyStr ?py]
                    (dict_get (simulator ?b) ''timeout'') ex_worDir (ex_world\<lparr>files := ?fs3\<rparr>)
                   = (Inr (), w4)
              \<and> (run_effect (check_simulation_errors_missing ex_optimica_env_missing ?b ex_worDir) w4
                    = (Inl (no_attribute ''_check_simulation_errors''), ?w4o)
                  \<or> (\<exists>w5. run_effect (check_simulation_errors_missing ex_optimica_env_missing ?b
                                          ex_worDir) w4 = (Inr (), w5)
                        \<and> run_effect (copyResultFiles ex_optimica_env_missing ?b ex_worDir) w5
                            = (Inl (no_attribute ''_check_simulation_errors''), ?w4o)))"
      by (rule exI [of _ ?w4o]) (intro conjI ex_jm_run disjI1 ex_check_missing)
    then show ?thesis by (intro conjI ex_Optimica_worDir ex_Optimica_script_missing disjI2)
  qed
  from simulate_deletes_or_reports
         [where env = ex_env and Q = ex_optimica_env_missing and b = ex_optimica and w = ex_world
            and worDir = ex_worDir and file_name = ?py and P = ex_process
            and ?w1.0 = "ex_world\<lparr>files := ?fs2\<rparr>" and ?w2.0 = "ex_world\<lparr>files := ?fs3\<rparr>"
            and e = "no_attribute ''_check_simulation_errors''" and ?w3.0 = ?w4o,
          THEN conjunct2, THEN conjunct2, THEN conjunct2, THEN mp, OF h3]
  have "Optimica_simulate ex_env ex_process ex_optimica_env_missing ex_optimica ex_world
            = (Inr (), ?b,
               ?w4o\<lparr>reported := [simulation_failed ex_worDir
                                  (no_attribute ''_check_simulation_errors'')]\<rparr>)
         \<and> files ?w4o ''/tmp/tmp-simulator-u-a1'' = Some Dir
         \<and> files ?w4o ''/tmp/tmp-simulator-u-a1/Pkg'' = Some Dir"
    by (simp add: simulation_failed_def)
  then have third:
    "\<exists>w3. Optimica_simulate ex_env ex_process ex_optimica_env_missing ex_optimica ex_world
            = (Inr (), ?b,
               w3\<lparr>reported := [simulation_failed ex_worDir
                                  (no_attribute ''_check_simulation_errors'')]\<rparr>)
         \<and> files w3 ''/tmp/tmp-simulator-u-a1'' = Some Dir
         \<and> files w3 ''/tmp/tmp-simulator-u-a1/Pkg'' = Some Dir"
    by (rule exI [of _ ?w4o])
  from first second third show ?thesis by (intro conjI)
qed

section \<open>The copy of the package\<close>












end
